(* ===== verification/Prelude.thy ===== *)
theory Prelude
  imports Complex_Main "HOL-Library.Char_ord" "HOL-Library.List_Lexorder"
begin

text \<open>
  Shared vocabulary of the development: Python's exception classes as values, Python values
  and dictionaries (the samples of \<open>src/metric.py\<close> are dicts from field names to values),
  Python's \<open>range\<close> and slicing, and truncation of a float by \<open>int()\<close>. Generic lemmas
  on these are declared \<open>[simp]\<close> or collected in \<open>dict_simps\<close> and \<open>range_simps\<close>, so
  that the component theories use them by name.
\<close>

named_theorems dict_simps "facts on dictionaries modelled as association lists"
named_theorems range_simps "facts on range and slicing"

section \<open>Python exceptions\<close>

text \<open>The exceptions the code raises, catches or lets escape.\<close>

datatype py_error =
    ValueError
  | ZeroDivisionError
  | UnboundLocalError
  | EnvironmentError
  | SpawnError
  | AuthError
  | TypeError
  | SudoError

section \<open>Python values and dictionaries\<close>

text \<open>
  A Python float is modelled by the exact rational it denotes (the rounding of binary
  doubles is not modelled); an \<open>int\<close> is an unbounded integer.
\<close>

datatype pyval = PStr string | PInt int | PFloat rat

type_synonym row = "(string \<times> pyval) list"

text \<open>The Python type of a value, and the keys of a row with the types of their values.\<close>

datatype pytype = TStr | TInt | TFloat

fun pytype_of :: "pyval \<Rightarrow> pytype" where
  "pytype_of (PStr s) = TStr"
| "pytype_of (PInt i) = TInt"
| "pytype_of (PFloat x) = TFloat"

definition row_schema :: "row \<Rightarrow> (string \<times> pytype) list" where
  "row_schema r = map (\<lambda>(k, v). (k, pytype_of v)) r"

text \<open>
  A dict keeps its keys in insertion order; assigning to a present key keeps its position,
  assigning to a new key appends it.
\<close>

fun dict_set :: "('k \<times> 'v) list \<Rightarrow> 'k \<Rightarrow> 'v \<Rightarrow> ('k \<times> 'v) list" where
  "dict_set [] k v = [(k, v)]"
| "dict_set ((a, b) # ps) k v = (if a = k then (k, v) # ps else (a, b) # dict_set ps k v)"

definition dict_keys :: "('k \<times> 'v) list \<Rightarrow> 'k set" where
  "dict_keys d = set (map fst d)"

section \<open>range and slicing\<close>

text \<open>
  \<open>range(start, stop, step)\<close>: the arithmetic progression from \<open>start\<close> towards \<open>stop\<close>
  (exclusive); a step of 0 raises \<open>ValueError\<close>.
\<close>

function py_range_pos :: "int \<Rightarrow> int \<Rightarrow> int \<Rightarrow> int list" where
  "py_range_pos start stop step =
     (if 0 < step \<and> start < stop then start # py_range_pos (start + step) stop step else [])"
  by pat_completeness auto
termination
  by (relation "measure (\<lambda>(start, stop, step). nat (stop - start))") auto

function py_range_neg :: "int \<Rightarrow> int \<Rightarrow> int \<Rightarrow> int list" where
  "py_range_neg start stop step =
     (if step < 0 \<and> stop < start then start # py_range_neg (start + step) stop step else [])"
  by pat_completeness auto
termination
  by (relation "measure (\<lambda>(start, stop, step). nat (start - stop))") auto

declare py_range_pos.simps [simp del] py_range_neg.simps [simp del]

definition py_range :: "int \<Rightarrow> int \<Rightarrow> int \<Rightarrow> py_error + int list" where
  "py_range start stop step =
     (if step = 0 then Inl ValueError
      else if 0 < step then Inr (py_range_pos start stop step)
      else Inr (py_range_neg start stop step))"

text \<open>
  Slicing \<open>xs[i:j]\<close> at non-negative bounds, the only ones the code uses; bounds past the
  end are clipped, as in Python.
\<close>

definition py_slice :: "'a list \<Rightarrow> int \<Rightarrow> int \<Rightarrow> 'a list" where
  "py_slice xs i j = take (nat j - nat i) (drop (nat i) xs)"

text \<open>The reference chunking: consecutive pieces of length \<open>b\<close>, the last one shorter.\<close>

fun chunks :: "nat \<Rightarrow> 'a list \<Rightarrow> 'a list list" where
  "chunks b xs = (if b = 0 \<or> xs = [] then [] else take b xs # chunks b (drop b xs))"

declare chunks.simps [simp del]

section \<open>Facts about dictionaries\<close>

lemma map_of_dict_set [simp, dict_simps]: "map_of (dict_set d k v) = (map_of d)(k \<mapsto> v)"
  by (induction d k v rule: dict_set.induct) (auto simp: fun_eq_iff)

lemma fst_set_dict_set [simp, dict_simps]: "fst ` set (dict_set d k v) = insert k (fst ` set d)"
  by (induction d k v rule: dict_set.induct) (simp_all add: insert_commute)

lemma dict_keys_dict_set [simp, dict_simps]: "dict_keys (dict_set d k v) = insert k (dict_keys d)"
  by (simp add: dict_keys_def)

lemma dict_keys_simps [simp, dict_simps]:
  "dict_keys [] = {}" "dict_keys ((k, v) # d) = insert k (dict_keys d)"
  by (simp_all add: dict_keys_def)

lemma distinct_dict_set [simp, dict_simps]:
  "distinct (map fst d) \<Longrightarrow> distinct (map fst (dict_set d k v))"
  by (induction d k v rule: dict_set.induct) auto

section \<open>Facts about range and slicing\<close>

lemma py_slice_step [range_simps]:
  "0 \<le> i \<Longrightarrow> 0 < b \<Longrightarrow> py_slice xs i (i + b) = take (nat b) (drop (nat i) xs)"
  by (simp add: py_slice_def nat_add_distrib)

lemma chunks_unfold [range_simps]:
  "0 < b \<Longrightarrow> xs \<noteq> [] \<Longrightarrow> chunks b xs = take b xs # chunks b (drop b xs)"
  by (simp add: chunks.simps)

lemma slices_py_range_pos [range_simps]:
  "0 \<le> k \<Longrightarrow> 0 < b \<Longrightarrow>
   map (\<lambda>i. py_slice xs i (i + b)) (py_range_pos k (int (length xs)) b) = chunks (nat b) (drop (nat k) xs)"
proof (induction k "int (length xs)" b rule: py_range_pos.induct)
  case (1 k b)
  show ?case
  proof (cases "k < int (length xs)")
    case True
    have "drop (nat k) xs \<noteq> []" using True \<open>0 \<le> k\<close> by simp
    then have "chunks (nat b) (drop (nat k) xs)
        = take (nat b) (drop (nat k) xs) # chunks (nat b) (drop (nat (k + b)) xs)"
      using \<open>0 < b\<close> \<open>0 \<le> k\<close> by (simp add: chunks_unfold nat_add_distrib add.commute)
    with True 1 show ?thesis
      by (simp add: py_range_pos.simps [of k] py_slice_step)
  next
    case False
    then show ?thesis using \<open>0 \<le> k\<close>
      by (simp add: py_range_pos.simps [of k] chunks.simps)
  qed
qed

lemma concat_chunks [simp]: "0 < b \<Longrightarrow> concat (chunks b xs) = xs"
proof (induction b xs rule: chunks.induct)
  case (1 b xs)
  then show ?case by (cases "xs = []") (simp_all add: chunks.simps [of b xs] chunks.simps [of b "[]"])
qed

lemma chunks_nonempty_bounded:
  "ys \<in> set (chunks b xs) \<Longrightarrow> ys \<noteq> [] \<and> length ys \<le> b"
proof (induction b xs rule: chunks.induct)
  case (1 b xs)
  then show ?case
    by (cases "b = 0 \<or> xs = []") (auto simp: chunks.simps [of b xs])
qed

lemma ceil_div_small:
  fixes n b :: nat
  assumes "0 < n" "n \<le> b"
  shows "(n + b - 1) div b = 1"
proof (rule div_nat_eqI)
  show "b * 1 \<le> n + b - 1" using assms by simp
  show "n + b - 1 < b * Suc 1" using assms by simp
qed

lemma ceil_div_step:
  fixes n b :: nat
  assumes "b < n" "0 < b"
  shows "(n + b - 1) div b = Suc ((n - 1) div b)"
proof -
  have eq: "n + b - 1 = (n - 1) + b" using assms by linarith
  from assms have "b \<noteq> 0" by simp
  then have "((n - 1) + b) div b = (n - 1) div b + 1" by (rule div_add_self2)
  with eq show ?thesis by (simp only: Suc_eq_plus1)
qed

lemma length_chunks: "0 < b \<Longrightarrow> length (chunks b xs) = (length xs + b - 1) div b"
proof (induction b xs rule: chunks.induct)
  case (1 b xs)
  show ?case
  proof (cases "xs = []")
    case True
    then show ?thesis using \<open>0 < b\<close> by (simp add: chunks.simps)
  next
    case False
    with 1 have IH: "length (chunks b xs) = Suc ((length (drop b xs) + b - 1) div b)"
      by (simp add: chunks.simps [of b xs])
    show ?thesis
    proof (cases "length xs \<le> b")
      case True
      then have "drop b xs = []" by simp
      with IH have "length (chunks b xs) = 1" using \<open>0 < b\<close> by simp
      moreover have "(length xs + b - 1) div b = 1"
        using True False by (intro ceil_div_small) auto
      ultimately show ?thesis by simp
    next
      case False
      then have "length (drop b xs) + b - 1 = length xs - 1" by simp
      moreover have "(length xs + b - 1) div b = Suc ((length xs - 1) div b)"
        using False \<open>0 < b\<close> by (intro ceil_div_step) auto
      ultimately show ?thesis using IH by simp
    qed
  qed
qed

lemma int_mod_zero_mult: "(m::nat) mod n = 0 \<Longrightarrow> int m = int n * int (m div n)"
proof -
  assume h: "m mod n = 0"
  have "m = n * (m div n) + m mod n" by simp
  with h have "m = n * (m div n)" by simp
  then have "int m = int (n * (m div n))" by (rule arg_cong)
  then show ?thesis by (simp only: of_nat_mult)
qed

end
