(* ===== verification/Store.thy ===== *)
theory Store
  imports Prelude
begin

text \<open>
  The sample store of \<open>src/metric.py\<close>: \<open>get_access_token\<close> exchanges the application
  credentials for a bearer token, \<open>batch_save_lark\<close> posts the samples to the remote
  table in batches of 400, and \<open>save_data_to_csv\<close> writes them to a local file whose
  columns are the union of the samples' keys. The environment variables and the HTTP
  responses are inputs of the model; each operation returns the effects it performs, in
  order, or the exception it raises.
\<close>

section \<open>The remote API\<close>

text \<open>
  A parsed HTTP response: its status, the \<open>code\<close> field of its JSON body if present, and
  its \<open>tenant_access_token\<close> field if present.
\<close>

record http_response =
  status :: int
  resp_code :: "int option"
  resp_token :: "string option"

text \<open>What the store sees of its environment: \<open>os.getenv\<close> of the two credentials and the
  response of the token endpoint.\<close>

record lark_env =
  app_id :: "string option"
  app_secret :: "string option"
  token_response :: http_response

definition response_failed :: "http_response \<Rightarrow> bool" where
  "response_failed r \<longleftrightarrow> status r \<noteq> 200 \<or> (case resp_code r of Some c \<Rightarrow> c \<noteq> 0 | None \<Rightarrow> False)"

text \<open>
  \<open>not app_id\<close> holds for an unset and for an empty variable. The token is
  \<open>response.json().get('tenant_access_token')\<close>, which is \<open>None\<close> when the field is absent.
\<close>

definition get_access_token :: "lark_env \<Rightarrow> py_error + string option" where
  "get_access_token env =
     (if app_id env \<in> {None, Some []} \<or> app_secret env \<in> {None, Some []} then Inl EnvironmentError
      else if response_failed (token_response env) then Inl AuthError
      else Inr (resp_token (token_response env)))"

text \<open>The header \<open>f'Bearer {token}'\<close>; a missing token is printed as \<open>None\<close>.\<close>

definition bearer :: "string option \<Rightarrow> string" where
  "bearer t = ''Bearer '' @ (case t of Some s \<Rightarrow> s | None \<Rightarrow> ''None'')"

datatype lark_effect =
    Post string string "row list"  \<comment> \<open>table id, authorization header, the records\<close>
  | LogError nat                   \<comment> \<open>the batch with this number was refused\<close>

text \<open>
  The loop of \<open>batch_save_lark\<close> over its batches; \<open>resp k\<close> is the response to the
  \<open>k\<close>-th post. A refused batch is logged and the loop goes on.
\<close>

fun post_batches :: "(nat \<Rightarrow> http_response) \<Rightarrow> string \<Rightarrow> string \<Rightarrow> nat \<Rightarrow> row list list \<Rightarrow> lark_effect list" where
  "post_batches resp tbl auth k [] = []"
| "post_batches resp tbl auth k (b # bs) =
     Post tbl auth b # (if response_failed (resp k) then [LogError k] else [])
     @ post_batches resp tbl auth (Suc k) bs"

definition batch_save_lark ::
  "lark_env \<Rightarrow> (nat \<Rightarrow> http_response) \<Rightarrow> row list \<Rightarrow> string \<Rightarrow> py_error + lark_effect list" where
  "batch_save_lark env resp data table_id =
     (case get_access_token env of
        Inl e \<Rightarrow> Inl e
      | Inr tok \<Rightarrow>
          (case py_range 0 (int (length data)) 400 of
             Inl e \<Rightarrow> Inl e
           | Inr starts \<Rightarrow>
               Inr (post_batches resp table_id (bearer tok) 0
                      (map (\<lambda>i. py_slice data i (i + 400)) starts))))"

section \<open>The local file\<close>

text \<open>
  \<open>save_data_to_csv\<close>: no file for an empty list; otherwise the header is the set of all
  keys, enumerated in the (unspecified) iteration order of a Python set, given here by
  \<open>enum\<close>, and each row has a cell per column, empty (\<open>restval\<close>) where the sample has no
  such key. \<open>DictWriter\<close> raises \<open>ValueError\<close> on a key outside the header.
\<close>

datatype csv_effect = NoData | CsvFile string "string list" "pyval option list list"

definition all_keys :: "row list \<Rightarrow> string set" where
  "all_keys data = (\<Union>d \<in> set data. dict_keys d)"

definition csv_row :: "string list \<Rightarrow> row \<Rightarrow> pyval option list" where
  "csv_row header d = map (map_of d) header"

definition save_data_to_csv ::
  "(string set \<Rightarrow> string list) \<Rightarrow> row list \<Rightarrow> string \<Rightarrow> py_error + csv_effect" where
  "save_data_to_csv enum data filename =
     (if data = [] then Inr NoData
      else
        (let header = enum (all_keys data) in
         if \<exists>d \<in> set data. \<not> dict_keys d \<subseteq> set header then Inl ValueError
         else Inr (CsvFile filename header (map (csv_row header) data))))"

text \<open>Where a monitor sends its samples at the end of its run.\<close>

datatype sink = ToLark "lark_effect list" | ToCsv csv_effect

definition save_samples ::
  "lark_env \<Rightarrow> (nat \<Rightarrow> http_response) \<Rightarrow> (string set \<Rightarrow> string list) \<Rightarrow> bool \<Rightarrow> row list \<Rightarrow> string \<Rightarrow> string
   \<Rightarrow> py_error + sink" where
  "save_samples lenv resp enum save_local data table_id filename =
     (if \<not> save_local then
        (case batch_save_lark lenv resp data table_id of Inl e \<Rightarrow> Inl e | Inr effs \<Rightarrow> Inr (ToLark effs))
      else
        (case save_data_to_csv enum data filename of Inl e \<Rightarrow> Inl e | Inr c \<Rightarrow> Inr (ToCsv c)))"

section \<open>Example credentials\<close>

definition demo_lark_env :: lark_env where
  "demo_lark_env = \<lparr>app_id = Some ''id'', app_secret = Some ''secret'',
     token_response = \<lparr>status = 200, resp_code = Some 0, resp_token = Some ''tok''\<rparr>\<rparr>"

section \<open>Properties\<close>

lemma post_batches_posts:
  "[rs. Post t a rs \<leftarrow> post_batches resp t a k bs] = bs"
  by (induction bs arbitrary: k) auto

lemma post_batches_logs:
  "[j. LogError j \<leftarrow> post_batches resp t a k bs] = filter (\<lambda>j. response_failed (resp j)) [k..<k + length bs]"
proof (induction bs arbitrary: k)
  case Nil
  then show ?case by simp
next
  case (Cons b bs)
  have "[k..<k + length (b # bs)] = k # [Suc k..<Suc k + length bs]"
    by (simp add: upt_rec)
  with Cons show ?case by simp
qed

lemma batch_save_lark_batches:
  assumes "get_access_token env = Inr tok"
  shows "batch_save_lark env resp data tbl =
           Inr (post_batches resp tbl (bearer tok) 0 (chunks 400 data))"
proof -
  have "map (\<lambda>i. py_slice data i (i + 400)) (py_range_pos 0 (int (length data)) 400)
        = chunks (nat 400) (drop (nat 0) data)"
    by (rule slices_py_range_pos) simp_all
  then show ?thesis using assms by (simp add: batch_save_lark_def py_range_def)
qed

lemma post_batches_tags:
  "Post t a rs \<in> set (post_batches resp tbl auth k bs) \<Longrightarrow> t = tbl \<and> a = auth"
  by (induction bs arbitrary: k) auto

lemma all_keys_finite: "finite (all_keys data)"
  by (simp add: all_keys_def dict_keys_def)

lemma save_data_to_csv_ok:
  assumes "\<forall>K. finite K \<longrightarrow> set (enum K) = K"
  shows "\<exists>c. save_data_to_csv enum rws f = Inr c"
proof -
  have h: "set (enum (all_keys rws)) = all_keys rws" using assms all_keys_finite by blast
  then have "\<forall>d \<in> set rws. dict_keys d \<subseteq> set (enum (all_keys rws))" by (auto simp: all_keys_def)
  then have "\<not> (\<exists>d \<in> set rws. \<not> dict_keys d \<subseteq> set (enum (all_keys rws)))" by blast
  then show ?thesis unfolding save_data_to_csv_def Let_def by (simp only: if_False) auto
qed
text \<open>The store returns normally when the CSV header lists the keys, or when a token is obtained.\<close>

lemma save_samples_ok:
  assumes "sl \<longrightarrow> (\<forall>K. finite K \<longrightarrow> set (en K) = K)" "\<not> sl \<longrightarrow> \<not> isl (get_access_token l)"
  shows "\<exists>s. save_samples l r en sl rws tbl f = Inr s"
proof (cases sl)
  case True
  then have "\<forall>K. finite K \<longrightarrow> set (en K) = K" using assms(1) by simp
  then obtain c where c: "save_data_to_csv en rws f = Inr c" by (rule save_data_to_csv_ok [THEN exE])
  show ?thesis unfolding save_samples_def using True c by simp
next
  case False
  then obtain tok where tok: "get_access_token l = Inr tok" using assms(2) by (cases "get_access_token l") auto
  have b: "batch_save_lark l r rws tbl = Inr (post_batches r tbl (bearer tok) 0 (chunks 400 rws))"
    by (rule batch_save_lark_batches [OF tok])
  show ?thesis unfolding save_samples_def using False b by simp
qed

section \<open>Claims on the store\<close>

text \<open>
  C9. With a token, \<open>batch_save_lark\<close> posts every sample exactly once and in order, to
  the given table with the token's header, in \<open>ceil(n / 400)\<close> non-empty batches of at most
  400; a refused batch is only logged, so the batches after it are still posted, and the
  logged batches are exactly the refused ones.
\<close>

theorem batch_save_lark_all_posted:
  assumes "get_access_token env = Inr tok" and "batch_save_lark env resp data tbl = Inr effs"
  shows "concat [rs. Post t a rs \<leftarrow> effs] = data
         \<and> (\<forall>rs \<in> set [rs. Post t a rs \<leftarrow> effs]. rs \<noteq> [] \<and> length rs \<le> 400)
         \<and> length [rs. Post t a rs \<leftarrow> effs] = (length data + 399) div 400
         \<and> (\<forall>t a rs. Post t a rs \<in> set effs \<longrightarrow> t = tbl \<and> a = bearer tok)
         \<and> [j. LogError j \<leftarrow> effs] = filter (\<lambda>j. response_failed (resp j)) [0..<(length data + 399) div 400]"
proof -
  have effs: "effs = post_batches resp tbl (bearer tok) 0 (chunks 400 data)"
    using assms batch_save_lark_batches [OF assms(1)] by simp
  have len: "length (chunks 400 data) = (length data + 399) div 400"
    by (simp add: length_chunks)
  show ?thesis
    unfolding effs post_batches_posts post_batches_logs
    using chunks_nonempty_bounded [of _ 400 data] post_batches_tags len by auto
qed

theorem batch_save_lark_all_posted_witness:
  "batch_save_lark demo_lark_env (\<lambda>j. \<lparr>status = 500, resp_code = None, resp_token = None\<rparr>)
      [[(''ts'', PInt 1)], [(''ts'', PInt 2)]] ''tbl'' =
     Inr [Post ''tbl'' ''Bearer tok'' [[(''ts'', PInt 1)], [(''ts'', PInt 2)]], LogError 0]
   \<and> concat [rs. Post t a rs \<leftarrow> [Post ''tbl'' ''Bearer tok'' [[(''ts'', PInt 1)], [(''ts'', PInt 2)]], LogError 0]]
       = [[(''ts'', PInt 1)], [(''ts'', PInt 2)]]"
proof -
  have tok: "get_access_token demo_lark_env = Inr (Some ''tok'')"
    by (simp add: get_access_token_def demo_lark_env_def response_failed_def)
  have r: "batch_save_lark demo_lark_env (\<lambda>j. \<lparr>status = 500, resp_code = None, resp_token = None\<rparr>)
      [[(''ts'', PInt 1)], [(''ts'', PInt 2)]] ''tbl'' =
     Inr [Post ''tbl'' ''Bearer tok'' [[(''ts'', PInt 1)], [(''ts'', PInt 2)]], LogError 0]"
    by (simp add: batch_save_lark_batches [OF tok] chunks.simps [of 400] bearer_def response_failed_def)
  show ?thesis using batch_save_lark_all_posted [OF tok r] r by blast
qed

text \<open>
  C10. Without both credentials (unset or empty), \<open>batch_save_lark\<close> raises
  \<open>EnvironmentError\<close> before it posts anything; with a refused token request it raises
  the authentication error.
\<close>

theorem batch_save_lark_credentials:
  "(app_id env \<in> {None, Some []} \<or> app_secret env \<in> {None, Some []}
      \<longrightarrow> batch_save_lark env resp data tbl = Inl EnvironmentError)
   \<and> (app_id env \<notin> {None, Some []} \<and> app_secret env \<notin> {None, Some []} \<and> response_failed (token_response env)
      \<longrightarrow> batch_save_lark env resp data tbl = Inl AuthError)"
  by (simp add: batch_save_lark_def get_access_token_def)

theorem batch_save_lark_credentials_witness:
  "batch_save_lark (demo_lark_env\<lparr>app_secret := Some []\<rparr>) (\<lambda>_. token_response demo_lark_env) [] ''tbl''
     = Inl EnvironmentError
   \<and> batch_save_lark (demo_lark_env\<lparr>token_response := \<lparr>status = 401, resp_code = None, resp_token = None\<rparr>\<rparr>)
       (\<lambda>_. token_response demo_lark_env) [] ''tbl'' = Inl AuthError"
  using batch_save_lark_credentials [of "demo_lark_env\<lparr>app_secret := Some []\<rparr>" "\<lambda>_. token_response demo_lark_env" "[]" "''tbl''"]
    batch_save_lark_credentials [of "demo_lark_env\<lparr>token_response := \<lparr>status = 401, resp_code = None, resp_token = None\<rparr>\<rparr>"
      "\<lambda>_. token_response demo_lark_env" "[]" "''tbl''"]
  by (simp_all add: demo_lark_env_def response_failed_def)



end
