(* ===== verification/PyStr.thy ===== *)
theory PyStr
  imports Prelude
begin

text \<open>
  The Python builtins on strings that \<open>src/metric.py\<close> relies on to read tool output:
  \<open>str.isspace\<close>, \<open>str.split()\<close>, \<open>str.splitlines()\<close>, the substring test \<open>in\<close>,
  \<open>str.replace(',', '')\<close>, \<open>int(s)\<close>, \<open>str(n)\<close> and \<open>float(s)\<close> on strings of digits
  and dots. A string is a list of characters read as Latin-1 code points (0 to 255), which
  covers every character of the tools' ASCII output. Each builtin is modelled from the
  language reference; these are not code of the repository and carry no map entry.
\<close>

named_theorems pystr_simps "evaluation facts for the string builtins"

section \<open>Character classes\<close>

text \<open>\<open>str.isspace\<close> on code points below 256.\<close>

definition py_isspace :: "char \<Rightarrow> bool" where
  "py_isspace c \<longleftrightarrow> of_char c \<in> {9, 10, 11, 12, 13, 28, 29, 30, 31, 32, 133, 160 :: nat}"

text \<open>The line boundaries of \<open>str.splitlines\<close> below 256 (\<open>\r\n\<close> is handled apart).\<close>

definition py_line_boundary :: "char \<Rightarrow> bool" where
  "py_line_boundary c \<longleftrightarrow> of_char c \<in> {10, 11, 12, 13, 28, 29, 30, 133 :: nat}"

definition py_isdigit :: "char \<Rightarrow> bool" where
  "py_isdigit c \<longleftrightarrow> 48 \<le> (of_char c :: nat) \<and> (of_char c :: nat) \<le> 57"

definition digit_val :: "char \<Rightarrow> nat" where
  "digit_val c = of_char c - 48"

section \<open>str.split() and str.splitlines()\<close>

text \<open>
  \<open>s.split()\<close> with no separator: runs of whitespace separate the fields, and leading or
  trailing whitespace gives no empty field.
\<close>

function py_split :: "string \<Rightarrow> string list" where
  "py_split s =
     (let s' = dropWhile py_isspace s in
      if s' = [] then []
      else takeWhile (\<lambda>c. \<not> py_isspace c) s' # py_split (dropWhile (\<lambda>c. \<not> py_isspace c) s'))"
  by pat_completeness auto
termination
proof (relation "measure length")
  fix s s' :: string
  assume s': "s' = dropWhile py_isspace s" and ne: "s' \<noteq> []"
  then have "py_isspace (hd s') = False" using hd_dropWhile by metis
  then have "length (dropWhile (\<lambda>c. \<not> py_isspace c) s') < length s'"
    using ne by (cases s') (auto simp: less_Suc_eq_le length_dropWhile_le)
  moreover have "length s' \<le> length s" using s' by (simp add: length_dropWhile_le)
  ultimately show "(dropWhile (\<lambda>c. \<not> py_isspace c) s', s) \<in> measure length" by simp
qed simp

declare py_split.simps [simp del]

text \<open>\<open>s.splitlines()\<close>: the lines without their terminators; a final terminator opens no line.\<close>

fun splitlines_acc :: "string \<Rightarrow> string \<Rightarrow> string list" where
  "splitlines_acc acc [] = (if acc = [] then [] else [rev acc])"
| "splitlines_acc acc (c # cs) =
     (if c = CHR 0x0D then
        (case cs of
          d # ds \<Rightarrow> if d = CHR 0x0A then rev acc # splitlines_acc [] ds else rev acc # splitlines_acc [] cs
        | [] \<Rightarrow> [rev acc])
      else if py_line_boundary c then rev acc # splitlines_acc [] cs
      else splitlines_acc (c # acc) cs)"

definition py_splitlines :: "string \<Rightarrow> string list" where
  "py_splitlines s = splitlines_acc [] s"

section \<open>Substrings\<close>

fun starts_with :: "string \<Rightarrow> string \<Rightarrow> bool" where
  "starts_with [] _ = True"
| "starts_with (x # xs) [] = False"
| "starts_with (x # xs) (y # ys) = (x = y \<and> starts_with xs ys)"

text \<open>\<open>needle in hay\<close> for two strings.\<close>

fun py_contains :: "string \<Rightarrow> string \<Rightarrow> bool" where
  "py_contains n [] = (n = [])"
| "py_contains n (c # cs) = (starts_with n (c # cs) \<or> py_contains n cs)"

text \<open>\<open>s.replace(',', '')\<close>.\<close>

definition remove_commas :: "string \<Rightarrow> string" where
  "remove_commas s = filter (\<lambda>c. c \<noteq> CHR '','') s"

section \<open>int(s), str(n) and float(s)\<close>

text \<open>
  \<open>int(s)\<close> in base 10: surrounding whitespace is stripped, an optional sign follows, then
  decimal digits where single underscores may separate two digits. Anything else raises
  \<open>ValueError\<close>.
\<close>

fun digits_us :: "nat \<Rightarrow> string \<Rightarrow> nat option" where
  "digits_us acc [] = Some acc"
| "digits_us acc (c # cs) =
     (if py_isdigit c then digits_us (10 * acc + digit_val c) cs
      else if c = CHR ''_'' then
        (case cs of
          d # ds \<Rightarrow> if py_isdigit d then digits_us (10 * acc + digit_val d) ds else None
        | [] \<Rightarrow> None)
      else None)"

definition py_strip :: "string \<Rightarrow> string" where
  "py_strip s = rev (dropWhile py_isspace (rev (dropWhile py_isspace s)))"

definition unsigned_int :: "string \<Rightarrow> nat option" where
  "unsigned_int s = (case s of
     d # ds \<Rightarrow> if py_isdigit d then digits_us (digit_val d) ds else None
   | [] \<Rightarrow> None)"

definition py_int :: "string \<Rightarrow> py_error + int" where
  "py_int s =
     (let t = py_strip s in
      case (case t of
              c # cs \<Rightarrow> if c = CHR ''-'' then map_option (\<lambda>n. - int n) (unsigned_int cs)
                        else if c = CHR ''+'' then map_option int (unsigned_int cs)
                        else map_option int (unsigned_int t)
            | [] \<Rightarrow> None) of
        None \<Rightarrow> Inl ValueError
      | Some v \<Rightarrow> Inr v)"

text \<open>\<open>str(n)\<close> for an integer: decimal digits, a minus sign for negatives.\<close>

fun nat_digits :: "nat \<Rightarrow> string" where
  "nat_digits n = (if n < 10 then [char_of (48 + n)] else nat_digits (n div 10) @ [char_of (48 + n mod 10)])"

declare nat_digits.simps [simp del]

definition py_str_int :: "int \<Rightarrow> string" where
  "py_str_int i = (if i < 0 then CHR ''-'' # nat_digits (nat (- i)) else nat_digits (nat i))"

text \<open>
  \<open>float(s)\<close> on the strings the code hands to it, which the patterns restrict to digits
  and dots: valid when there is at most one dot and at least one digit; the value is the
  exact decimal. (Exponents, underscores, signs, \<open>inf\<close> and \<open>nan\<close> cannot occur there
  and are refused.)
\<close>

definition digits_value :: "string \<Rightarrow> nat" where
  "digits_value s = foldl (\<lambda>acc c. 10 * acc + digit_val c) 0 s"

definition py_float_dec :: "string \<Rightarrow> py_error + rat" where
  "py_float_dec s =
     (let a = takeWhile py_isdigit s; rest = dropWhile py_isdigit s in
      case rest of
        [] \<Rightarrow> if a = [] then Inl ValueError else Inr (of_nat (digits_value a))
      | c # cs \<Rightarrow>
          if c = CHR ''.'' \<and> list_all py_isdigit cs \<and> (a \<noteq> [] \<or> cs \<noteq> [])
          then Inr (of_nat (digits_value a) + of_nat (digits_value cs) / 10 ^ length cs)
          else Inl ValueError)"

text \<open>\<open>int(x)\<close> for a float \<open>x\<close>: truncation towards zero.\<close>

definition py_trunc :: "rat \<Rightarrow> int" where
  "py_trunc x = (if 0 \<le> x then \<lfloor>x\<rfloor> else - \<lfloor>- x\<rfloor>)"

section \<open>Facts about the builtins\<close>

lemma starts_with_iff [pystr_simps]: "starts_with n h \<longleftrightarrow> (\<exists>b. h = n @ b)"
  by (induction n h rule: starts_with.induct) auto

lemma py_contains_iff [pystr_simps]: "py_contains n h \<longleftrightarrow> (\<exists>a b. h = a @ n @ b)"
proof (induction h)
  case Nil
  then show ?case by simp
next
  case (Cons c cs)
  show ?case
  proof
    assume "py_contains n (c # cs)"
    with Cons.IH show "\<exists>a b. c # cs = a @ n @ b"
      by (auto simp: starts_with_iff) (metis append_Cons append_Nil)+
  next
    assume "\<exists>a b. c # cs = a @ n @ b"
    then obtain a b where ab: "c # cs = a @ n @ b" by blast
    show "py_contains n (c # cs)"
    proof (cases a)
      case Nil
      with ab have "starts_with n (c # cs)" by (simp add: starts_with_iff)
      then show ?thesis by simp
    next
      case (Cons a' as)
      with ab have "cs = as @ n @ b" by simp
      with Cons.IH show ?thesis by auto
    qed
  qed
qed

lemma digits_us_digits [pystr_simps]:
  "list_all py_isdigit ds \<Longrightarrow> digits_us acc ds = Some (foldl (\<lambda>a c. 10 * a + digit_val c) acc ds)"
  by (induction ds arbitrary: acc) auto

lemma digit_char_of [pystr_simps]:
  "k < 10 \<Longrightarrow> py_isdigit (char_of (48 + k)) \<and> digit_val (char_of (48 + k)) = k"
  by (simp add: py_isdigit_def digit_val_def)

lemma nat_digits_props:
  "nat_digits n \<noteq> [] \<and> list_all py_isdigit (nat_digits n)
   \<and> foldl (\<lambda>a c. 10 * a + digit_val c) 0 (nat_digits n) = n"
proof (induction n rule: nat_digits.induct)
  case (1 n)
  show ?case
  proof (cases "n < 10")
    case True
    then show ?thesis by (simp add: nat_digits.simps [of n] digit_char_of)
  next
    case False
    with 1 have IH: "list_all py_isdigit (nat_digits (n div 10))"
      "foldl (\<lambda>a c. 10 * a + digit_val c) 0 (nat_digits (n div 10)) = n div 10" by simp_all
    have "n mod 10 < 10" by simp
    then have d: "py_isdigit (char_of (48 + n mod 10))" "digit_val (char_of (48 + n mod 10)) = n mod 10"
      by (simp_all only: digit_char_of)
    from False IH d show ?thesis by (simp add: nat_digits.simps [of n])
  qed
qed

lemma strip_no_space [pystr_simps]:
  "s \<noteq> [] \<Longrightarrow> \<not> py_isspace (hd s) \<Longrightarrow> \<not> py_isspace (last s) \<Longrightarrow> py_strip s = s"
proof -
  assume ne: "s \<noteq> []" and h: "\<not> py_isspace (hd s)" and l: "\<not> py_isspace (last s)"
  from ne h have "dropWhile py_isspace s = s" by (cases s) auto
  moreover from ne l have "dropWhile py_isspace (rev s) = rev s"
    by (cases "rev s") (auto simp: hd_rev [symmetric])
  ultimately show ?thesis by (simp add: py_strip_def)
qed

lemma digit_not_space [pystr_simps]: "py_isdigit c \<Longrightarrow> \<not> py_isspace c"
  by (auto simp: py_isdigit_def py_isspace_def)

text \<open>\<open>int(str(i)) == i\<close>: the printer and the parser of integers agree.\<close>

theorem py_int_str_roundtrip: "py_int (py_str_int i) = Inr i"
proof -
  obtain ds where ds: "ds = nat_digits (nat \<bar>i\<bar>)" by simp
  have ne: "ds \<noteq> []" and dg: "list_all py_isdigit ds"
    and val: "foldl (\<lambda>a c. 10 * a + digit_val c) 0 ds = nat \<bar>i\<bar>"
    using nat_digits_props [of "nat \<bar>i\<bar>"] ds by simp_all
  obtain d ds' where dds: "ds = d # ds'" using ne by (cases ds) auto
  have un: "unsigned_int ds = Some (nat \<bar>i\<bar>)"
    using dg val by (simp add: unsigned_int_def dds digits_us_digits)
  have nsign: "d \<noteq> CHR ''-''" "d \<noteq> CHR ''+''"
    using dg by (auto simp: dds py_isdigit_def)
  show ?thesis
  proof (cases "i < 0")
    case True
    have "last ds \<in> set ds" using ne by simp
    then have "\<not> py_isspace (last ds)" using dg by (auto simp: list_all_iff digit_not_space)
    then have "py_strip (CHR ''-'' # ds) = CHR ''-'' # ds"
      using ne by (intro strip_no_space) (simp_all add: py_isspace_def)
    with True un ds show ?thesis by (simp add: py_int_def py_str_int_def)
  next
    case False
    have "last ds \<in> set ds" using ne by simp
    then have "\<not> py_isspace (last ds)" using dg by (auto simp: list_all_iff digit_not_space)
    moreover have "\<not> py_isspace (hd ds)" using dg by (simp add: dds digit_not_space)
    ultimately have "py_strip ds = ds" using ne by (intro strip_no_space)
    moreover have "py_str_int i = ds" using False ds by (simp add: py_str_int_def)
    ultimately show ?thesis using False un nsign
      by (simp add: py_int_def dds)
  qed
qed

lemma py_split_field [pystr_simps]:
  assumes "list_all py_isspace ws" "w \<noteq> []" "\<not> list_ex py_isspace w"
    and "rest = [] \<or> py_isspace (hd rest)"
  shows "py_split (ws @ w @ rest) = w # py_split rest"
proof -
  have d1: "dropWhile py_isspace (ws @ w @ rest) = w @ rest"
    using assms(1-3) by (cases w) (simp_all add: list_all_iff list_ex_iff)
  have t: "takeWhile (\<lambda>c. \<not> py_isspace c) (w @ rest) = w"
    using assms(3,4) by (cases rest) (auto simp: list_ex_iff takeWhile_append2)
  have d2: "dropWhile (\<lambda>c. \<not> py_isspace c) (w @ rest) = rest"
    using assms(3,4) by (cases rest) (auto simp: list_ex_iff dropWhile_append2)
  have "w @ rest \<noteq> []" using assms(2) by simp
  then show ?thesis using d1 t d2 assms(2) by (simp add: py_split.simps [of "ws @ w @ rest"] Let_def)
qed

lemma py_split_blank [pystr_simps]: "list_all py_isspace ws \<Longrightarrow> py_split ws = []"
  by (simp add: py_split.simps [of ws] list_all_iff)

lemma digits_value_foldl: "foldl (\<lambda>a c. 10 * a + digit_val c) 0 s = digits_value s"
  by (simp add: digits_value_def)

lemma py_int_digits [pystr_simps]:
  assumes "list_all py_isdigit s" "s \<noteq> []"
  shows "py_int s = Inr (int (digits_value s))"
proof -
  obtain d ds where s: "s = d # ds" using assms(2) by (cases s) auto
  have "last s \<in> set s" using assms(2) by simp
  then have "\<not> py_isspace (last s)" using assms(1) by (auto simp: list_all_iff digit_not_space)
  moreover have "\<not> py_isspace (hd s)" using assms(1) s by (simp add: digit_not_space)
  ultimately have st: "py_strip s = s" using assms(2) by (intro strip_no_space)
  have "d \<noteq> CHR ''-''" "d \<noteq> CHR ''+''" "py_isdigit d" using assms(1) s by (auto simp: py_isdigit_def)
  moreover have "unsigned_int s = Some (digits_value s)"
    using assms(1) s by (simp add: unsigned_int_def digits_us_digits digits_value_def)
  ultimately show ?thesis using st s by (simp add: py_int_def)
qed

lemma py_float_dec_digits [pystr_simps]:
  "list_all py_isdigit s \<Longrightarrow> s \<noteq> [] \<Longrightarrow> py_float_dec s = Inr (of_nat (digits_value s))"
proof -
  assume a: "list_all py_isdigit s" "s \<noteq> []"
  from a(1) have tw: "takeWhile py_isdigit s = s" and dw: "dropWhile py_isdigit s = []"
    by (simp_all add: list_all_iff)
  show ?thesis unfolding py_float_dec_def Let_def tw dw using a(2) by simp
qed

lemma py_trunc_of_int [pystr_simps]: "0 \<le> x \<Longrightarrow> py_trunc (of_int x) = x"
  by (simp add: py_trunc_def)

lemma splitlines_acc_line [pystr_simps]:
  "\<not> list_ex py_line_boundary l \<Longrightarrow>
   splitlines_acc acc (l @ CHR 0x0A # rest) = (rev acc @ l) # splitlines_acc [] rest"
  by (induction l arbitrary: acc) (auto simp: py_line_boundary_def)

lemma splitlines_acc_last [pystr_simps]:
  "\<not> list_ex py_line_boundary l \<Longrightarrow> acc @ l \<noteq> [] \<Longrightarrow> splitlines_acc acc l = [rev acc @ l]"
  by (induction l arbitrary: acc) (auto simp: py_line_boundary_def)

end
