(* ===== verification/Pqos.thy ===== *)
theory Pqos
  imports Store PyStr "HOL-Library.Monad_Syntax"
begin

text \<open>
  The memory-bandwidth monitor of \<open>src/metric.py\<close>: \<open>monitor_memory_bandwidth\<close> runs
  \<open>pqos\<close> once for the whole duration, \<open>parse_pqos_output\<close> reads its table (a
  \<open>TIME\<close> header line, then one row per core) with two regular expressions, and
  \<open>convert_to_number\<close> expands the \<open>k\<close>/\<open>M\<close> suffixes of the miss counts. The two
  patterns are modelled by matchers that consume the line the way the regex engine does:
  every group is a maximal run of its character class followed by the separator the
  pattern requires, so backtracking never finds another match. \<open>time.mktime\<close> depends on
  the host's time zone and is a parameter.
\<close>

section \<open>convert_to_number\<close>

definition convert_to_number :: "string \<Rightarrow> py_error + int" where
  "convert_to_number value =
     (if value \<noteq> [] \<and> last value = CHR ''k'' then
        (case py_float_dec (butlast value) of Inl e \<Rightarrow> Inl e | Inr x \<Rightarrow> Inr (py_trunc (x * 1000)))
      else if value \<noteq> [] \<and> last value = CHR ''M'' then
        (case py_float_dec (butlast value) of Inl e \<Rightarrow> Inl e | Inr x \<Rightarrow> Inr (py_trunc (x * 1000000)))
      else py_int value)"

section \<open>The TIME header: pattern, strptime and mktime\<close>

text \<open>\<open>TIME (\d{4}-\d{2}-\d{2} \d{2}:\d{2}:\d{2})\<close> matched at the start of the line.\<close>

fun shape_match :: "string \<Rightarrow> string \<Rightarrow> bool" where
  "shape_match [] _ = True"
| "shape_match (p # ps) [] = False"
| "shape_match (p # ps) (c # cs) =
     ((if p = CHR ''D'' then py_isdigit c else c = p) \<and> shape_match ps cs)"

definition time_shape :: string where
  "time_shape = ''DDDD-DD-DD DD:DD:DD''"

definition match_time :: "string \<Rightarrow> string option" where
  "match_time line =
     (if starts_with ''TIME '' line \<and> shape_match time_shape (drop 5 line)
      then Some (take 19 (drop 5 line)) else None)"

record py_datetime =
  dt_year :: nat
  dt_month :: nat
  dt_day :: nat
  dt_hour :: nat
  dt_minute :: nat
  dt_second :: nat

definition is_leap :: "nat \<Rightarrow> bool" where
  "is_leap y \<longleftrightarrow> (y mod 4 = 0 \<and> y mod 100 \<noteq> 0) \<or> y mod 400 = 0"

definition days_in_month :: "nat \<Rightarrow> nat \<Rightarrow> nat" where
  "days_in_month y m = [31, if is_leap y then 29 else 28, 31, 30, 31, 30, 31, 31, 30, 31, 30, 31] ! (m - 1)"

text \<open>
  \<open>datetime.strptime(s, "%Y-%m-%d %H:%M:%S")\<close> on a string of the header's shape: the
  fields are read as numbers and the constructor of \<open>datetime\<close> raises \<open>ValueError\<close>
  for a year 0, a month outside 1..12, a day past the month's end, an hour past 23, a
  minute or second past 59.
\<close>

definition strptime :: "string \<Rightarrow> py_error + py_datetime" where
  "strptime s =
     (let y = digits_value (take 4 s); mo = digits_value (take 2 (drop 5 s));
          d = digits_value (take 2 (drop 8 s)); h = digits_value (take 2 (drop 11 s));
          mi = digits_value (take 2 (drop 14 s)); sec = digits_value (take 2 (drop 17 s))
      in if 1 \<le> y \<and> 1 \<le> mo \<and> mo \<le> 12 \<and> 1 \<le> d \<and> d \<le> days_in_month y mo \<and> h \<le> 23 \<and> mi \<le> 59 \<and> sec \<le> 59
         then Inr \<lparr>dt_year = y, dt_month = mo, dt_day = d, dt_hour = h, dt_minute = mi, dt_second = sec\<rparr>
         else Inl ValueError)"

text \<open>\<open>time.mktime\<close> for a host whose local time is UTC, used in the examples.\<close>

definition days_before_year :: "nat \<Rightarrow> int" where
  "days_before_year y = (let p = int y - 1 in 365 * p + p div 4 - p div 100 + p div 400)"

definition days_before_month :: "nat \<Rightarrow> nat \<Rightarrow> int" where
  "days_before_month y m = int (sum_list (map (days_in_month y) [1..<m]))"

definition utc_mktime :: "py_datetime \<Rightarrow> int" where
  "utc_mktime dt =
     (days_before_year (dt_year dt) + days_before_month (dt_year dt) (dt_month dt) + int (dt_day dt) - 1
        - days_before_year 1970) * 86400
     + int (dt_hour dt) * 3600 + int (dt_minute dt) * 60 + int (dt_second dt)"

section \<open>The per-core row\<close>

definition is_digit_dot :: "char \<Rightarrow> bool" where
  "is_digit_dot c \<longleftrightarrow> py_isdigit c \<or> c = CHR ''.''"

text \<open>A group of a character class: a maximal non-empty run.\<close>

definition run_of :: "(char \<Rightarrow> bool) \<Rightarrow> string \<Rightarrow> (string \<times> string) option" where
  "run_of p s = (let g = takeWhile p s in if g = [] then None else Some (g, dropWhile p s))"

text \<open>\<open>\s+\<close> between two groups.\<close>

definition sep :: "string \<Rightarrow> string option" where
  "sep s = (case run_of py_isspace s of None \<Rightarrow> None | Some (_, r) \<Rightarrow> Some r)"

text \<open>\<open>[\d\.]+[kM]?\<close>: the optional suffix is taken when present.\<close>

definition run_suffixed :: "string \<Rightarrow> (string \<times> string) option" where
  "run_suffixed s =
     (case run_of is_digit_dot s of
        None \<Rightarrow> None
      | Some (g, c # r) \<Rightarrow> if c = CHR ''k'' \<or> c = CHR ''M'' then Some (g @ [c], r) else Some (g, c # r)
      | Some (g, []) \<Rightarrow> Some (g, []))"

text \<open>
  \<open>\s*(\d+)\s+([\d\.]+)\s+([\d\.]+[kM]?)\s+([\d\.]+)\s+([\d\.]+)\s+([\d\.]+)\<close> matched at the
  start of the line; the six groups.
\<close>

definition match_row :: "string \<Rightarrow> string list option" where
  "match_row line =
     do {
       (g1, r) \<leftarrow> run_of py_isdigit (dropWhile py_isspace line);
       r \<leftarrow> sep r; (g2, r) \<leftarrow> run_of is_digit_dot r;
       r \<leftarrow> sep r; (g3, r) \<leftarrow> run_suffixed r;
       r \<leftarrow> sep r; (g4, r) \<leftarrow> run_of is_digit_dot r;
       r \<leftarrow> sep r; (g5, r) \<leftarrow> run_of is_digit_dot r;
       r \<leftarrow> sep r; (g6, r) \<leftarrow> run_of is_digit_dot r;
       Some [g1, g2, g3, g4, g5, g6]
     }"

text \<open>The dict built for one core; each conversion may raise \<open>ValueError\<close>.\<close>

definition core_row :: "string \<Rightarrow> int \<Rightarrow> int \<Rightarrow> string list \<Rightarrow> py_error + row" where
  "core_row case_name ts start_ts gs =
     (case (py_int (gs ! 0), py_float_dec (gs ! 1), convert_to_number (gs ! 2),
            py_float_dec (gs ! 3), py_float_dec (gs ! 4), py_float_dec (gs ! 5)) of
        (Inr core, Inr ipc, Inr misses, Inr llc, Inr mbl, Inr mbr) \<Rightarrow>
          Inr [(''case_name'', PStr case_name), (''ts'', PInt ts), (''relative_ts'', PInt (ts - start_ts)),
               (''Core'', PInt core), (''IPC'', PFloat ipc), (''MISSES'', PInt misses),
               (''LLC(KB)'', PFloat llc), (''MBL(MB/s)'', PFloat mbl), (''MBR(MB/s)'', PFloat mbr)]
      | _ \<Rightarrow> Inl ValueError)"

section \<open>parse_pqos_output\<close>

text \<open>
  The loop's state: the rows so far, \<open>start_ts\<close> (0 until a header is seen), and the
  current \<open>ts\<close>, unbound (\<open>None\<close>) before the first header.
\<close>

record pqos_state =
  rows :: "row list"
  pq_start :: int
  cur_ts :: "int option"

fun pqos_lines ::
  "(py_datetime \<Rightarrow> int) \<Rightarrow> string \<Rightarrow> string list \<Rightarrow> pqos_state \<Rightarrow> py_error + pqos_state" where
  "pqos_lines mk case_name [] st = Inr st"
| "pqos_lines mk case_name (line # ls) st =
     (case match_time line of
        Some g \<Rightarrow>
          (case strptime g of
             Inl e \<Rightarrow> Inl e
           | Inr dt \<Rightarrow>
               (let ts = mk dt in
                pqos_lines mk case_name ls
                  (st\<lparr>pq_start := (if pq_start st = 0 then ts else pq_start st), cur_ts := Some ts\<rparr>)))
      | None \<Rightarrow>
          (case match_row line of
             None \<Rightarrow> pqos_lines mk case_name ls st
           | Some gs \<Rightarrow>
               (case cur_ts st of
                  None \<Rightarrow> Inl UnboundLocalError
                | Some ts \<Rightarrow>
                    (case core_row case_name ts (pq_start st) gs of
                       Inl e \<Rightarrow> Inl e
                     | Inr r \<Rightarrow> pqos_lines mk case_name ls (st\<lparr>rows := rows st @ [r]\<rparr>)))))"

definition parse_pqos_output :: "(py_datetime \<Rightarrow> int) \<Rightarrow> string \<Rightarrow> string \<Rightarrow> py_error + row list" where
  "parse_pqos_output mk output case_name =
     (case pqos_lines mk case_name (py_splitlines output) \<lparr>rows = [], pq_start = 0, cur_ts = None\<rparr> of
        Inl e \<Rightarrow> Inl e
      | Inr st \<Rightarrow> Inr (rows st))"

section \<open>monitor_memory_bandwidth\<close>

text \<open>What \<open>subprocess.run\<close> of pqos gives: a spawn failure, or the return code, stdout, stderr.\<close>

datatype pqos_run = PqosSpawnFailed | PqosRan int string string

record mb_env =
  cpu_count :: "int option"                 \<comment> \<open>\<open>psutil.cpu_count()\<close>, \<open>None\<close> when unknown\<close>
  pqos_tool :: "string list \<Rightarrow> pqos_run"
  local_time :: "py_datetime \<Rightarrow> int"          \<comment> \<open>\<open>time.mktime\<close>\<close>
  mb_lark :: lark_env
  mb_resp :: "nat \<Rightarrow> http_response"
  mb_enum :: "string set \<Rightarrow> string list"

text \<open>How the monitor ends: samples stored, pqos reported an error, or an exception was caught.\<close>

datatype mb_outcome = MbSaved "row list" sink | MbToolFailed string | MbCaught py_error

definition pqos_command :: "bool \<Rightarrow> int \<Rightarrow> int \<Rightarrow> string list" where
  "pqos_command sudo cpus duration =
     (if sudo then [''sudo''] else []) @
     [''pqos'', ''-m'', ''all:0-'' @ py_str_int (cpus - 1), ''-t'', py_str_int duration]"

text \<open>
  The command is built before the \<open>try\<close>: an unknown CPU count raises \<open>TypeError\<close>
  out of the monitor. Everything inside the \<open>try\<close> that raises is caught and printed.
\<close>

definition monitor_memory_bandwidth ::
  "mb_env \<Rightarrow> int \<Rightarrow> string \<Rightarrow> bool \<Rightarrow> bool \<Rightarrow> py_error + mb_outcome" where
  "monitor_memory_bandwidth env duration case_name save_local sudo =
     (case cpu_count env of
        None \<Rightarrow> Inl TypeError
      | Some cpus \<Rightarrow>
          Inr (case pqos_tool env (pqos_command sudo cpus duration) of
                 PqosSpawnFailed \<Rightarrow> MbCaught SpawnError
               | PqosRan rc out err \<Rightarrow>
                   if rc = 0 then
                     (case parse_pqos_output (local_time env) out case_name of
                        Inl e \<Rightarrow> MbCaught e
                      | Inr data \<Rightarrow>
                          (case save_samples (mb_lark env) (mb_resp env) (mb_enum env) save_local data
                                  ''tbl5IetG3NXe6GFT'' (''result/'' @ case_name @ ''_mem_bandwidth_data.csv'') of
                             Inl e \<Rightarrow> MbCaught e
                           | Inr s \<Rightarrow> MbSaved data s))
                   else MbToolFailed err))"

section \<open>Specification of the relative timestamps\<close>

text \<open>The timestamp of the first header of a report, as the specification fixes \<open>start_ts\<close>.\<close>

fun first_time_ts :: "(py_datetime \<Rightarrow> int) \<Rightarrow> string list \<Rightarrow> int option" where
  "first_time_ts mk [] = None"
| "first_time_ts mk (l # ls) =
     (case match_time l of
        Some g \<Rightarrow> (case strptime g of Inr dt \<Rightarrow> Some (mk dt) | Inl _ \<Rightarrow> None)
      | None \<Rightarrow> first_time_ts mk ls)"

definition rel_ok :: "int \<Rightarrow> row \<Rightarrow> bool" where
  "rel_ok s0 r \<longleftrightarrow>
     (case (map_of r ''ts'', map_of r ''relative_ts'') of
        (Some (PInt t), Some (PInt x)) \<Rightarrow> x = t - s0
      | _ \<Rightarrow> False)"

definition pqos_init :: pqos_state where
  "pqos_init = \<lparr>rows = [], pq_start = 0, cur_ts = None\<rparr>"

text \<open>
  A header line whose time converts to 0 leaves \<open>start_ts\<close> at its initial value, which the
  code uses as "no header seen yet"; the relative timestamps are those of the specification
  when no header of the report converts to 0.
\<close>

definition header_ok :: "(py_datetime \<Rightarrow> int) \<Rightarrow> string \<Rightarrow> bool" where
  "header_ok mk l =
     (case match_time l of
        Some g \<Rightarrow> (case strptime g of Inr dt \<Rightarrow> mk dt \<noteq> 0 | Inl _ \<Rightarrow> True)
      | None \<Rightarrow> True)"

text \<open>The fields of a BandwidthSample with their types, under the keys the code uses.\<close>

definition bandwidth_schema :: "(string \<times> pytype) list" where
  "bandwidth_schema =
     [(''case_name'', TStr), (''ts'', TInt), (''relative_ts'', TInt), (''Core'', TInt), (''IPC'', TFloat),
      (''MISSES'', TInt), (''LLC(KB)'', TFloat), (''MBL(MB/s)'', TFloat), (''MBR(MB/s)'', TFloat)]"

text \<open>
  What \<open>re.match\<close> of the header pattern accepts: the line starts with \<open>TIME \<close>
  followed by the group, 19 characters of the shape \<open>DDDD-DD-DD DD:DD:DD\<close> (\<open>D\<close> a
  decimal digit; below code point 256 these are the ASCII digits).
\<close>

definition shape_char :: "char \<Rightarrow> char \<Rightarrow> bool" where
  "shape_char p c \<longleftrightarrow> (if p = CHR ''D'' then py_isdigit c else c = p)"

section \<open>Example reports\<close>

text \<open>A per-core row and a report of two blocks of two cores, in the layout \<open>pqos\<close> prints.\<close>

definition demo_pqos_row :: string where
  "demo_pqos_row = ''       0        1.20         39k       100.0         5.0         0.0''"

definition demo_pqos_out :: string where
  "demo_pqos_out =
     ''TIME 2024-01-01 12:00:00\<newline>''
     @ ''    CORE         IPC      MISSES     LLC[KB]   MBL[MB/s]   MBR[MB/s]\<newline>''
     @ demo_pqos_row @ ''\<newline>''
     @ ''       1        0.85        104M        20.0         1.5         0.2\<newline>''
     @ ''TIME 2024-01-01 12:00:01\<newline>''
     @ ''    CORE         IPC      MISSES     LLC[KB]   MBL[MB/s]   MBR[MB/s]\<newline>''
     @ ''       0        1.10         41k        98.0         4.0         0.0\<newline>''
     @ ''       1        0.90        101M        21.0         1.0         0.1\<newline>''"

text \<open>A host with four CPUs, UTC local time, and a \<open>pqos\<close> that prints the given report.\<close>

definition demo_mb_env :: "string \<Rightarrow> mb_env" where
  "demo_mb_env out = \<lparr>cpu_count = Some 4, pqos_tool = (\<lambda>_. PqosRan 0 out ''''), local_time = utc_mktime,
     mb_lark = demo_lark_env, mb_resp = (\<lambda>_. token_response demo_lark_env), mb_enum = sorted_list_of_set\<rparr>"

section \<open>Properties\<close>



lemma core_row_fields:
  "core_row cn ts s0 gs = Inr r \<Longrightarrow>
   map_of r ''case_name'' = Some (PStr cn) \<and> map_of r ''ts'' = Some (PInt ts)
   \<and> map_of r ''relative_ts'' = Some (PInt (ts - s0))"
  by (auto simp: core_row_def split: sum.splits)

lemma core_row_rel_ok: "core_row cn ts s0 gs = Inr r \<Longrightarrow> rel_ok s0 r"
  by (simp add: rel_ok_def core_row_fields)

lemma pqos_lines_rel:
  "pqos_lines mk cn ls st = Inr st' \<Longrightarrow> list_all (header_ok mk) ls \<Longrightarrow>
   (cur_ts st \<noteq> None \<longrightarrow> pq_start st \<noteq> 0) \<Longrightarrow> (rows st \<noteq> [] \<longrightarrow> pq_start st \<noteq> 0) \<Longrightarrow>
   (\<forall>r \<in> set (rows st). rel_ok (pq_start st) r) \<Longrightarrow>
   (\<forall>r \<in> set (rows st'). rel_ok (pq_start st') r)
   \<and> (pq_start st \<noteq> 0 \<longrightarrow> pq_start st' = pq_start st)
   \<and> (pq_start st = 0 \<longrightarrow> rows st' \<noteq> [] \<longrightarrow> first_time_ts mk ls = Some (pq_start st'))"
proof (induction mk cn ls st rule: pqos_lines.induct)
  case (1 mk cn st)
  then show ?case by auto
next
  case (2 mk cn line ls st)
  have hs: "list_all (header_ok mk) ls" using "2.prems"(2) by simp
  show ?case
  proof (cases "match_time line")
    case (Some g)
    show ?thesis
    proof (cases "strptime g")
      case (Inl e)
      with Some "2.prems"(1) show ?thesis by simp
    next
      case (Inr dt)
      let ?st = "st\<lparr>pq_start := (if pq_start st = 0 then mk dt else pq_start st), cur_ts := Some (mk dt)\<rparr>"
      have run: "pqos_lines mk cn ls ?st = Inr st'" using "2.prems"(1) Some Inr by (simp add: Let_def)
      have nz: "pq_start ?st \<noteq> 0" using "2.prems"(2) Some Inr by (simp add: header_ok_def)
      have rows0: "\<forall>r \<in> set (rows ?st). rel_ok (pq_start ?st) r"
        using "2.prems"(4,5) by (cases "pq_start st = 0") auto
      have IH: "(\<forall>r \<in> set (rows st'). rel_ok (pq_start st') r) \<and> pq_start st' = pq_start ?st"
        using "2.IH"(3) [OF Some Inr refl run hs] nz rows0 by blast
      then show ?thesis using Some Inr by auto
    qed
  next
    case nt: None
    show ?thesis
    proof (cases "match_row line")
      case nr: None
      with nt "2.prems" "2.IH"(1) [OF nt nr _ hs] show ?thesis by simp
    next
      case (Some gs)
      show ?thesis
      proof (cases "cur_ts st")
        case nc: None
        with nt Some "2.prems"(1) show ?thesis by simp
      next
        case ct: (Some ts)
        with "2.prems"(3) have nz: "pq_start st \<noteq> 0" by simp
        show ?thesis
        proof (cases "core_row cn ts (pq_start st) gs")
          case (Inl e)
          with nt Some ct "2.prems"(1) show ?thesis by simp
        next
          case (Inr r)
          let ?st = "st\<lparr>rows := rows st @ [r]\<rparr>"
          have run: "pqos_lines mk cn ls ?st = Inr st'"
            using "2.prems"(1) nt Some ct Inr by simp
          have "\<forall>r' \<in> set (rows ?st). rel_ok (pq_start ?st) r'"
            using "2.prems"(5) core_row_rel_ok [OF Inr] by simp
          then have A: "\<forall>r \<in> set (rows st'). rel_ok (pq_start st') r" and B: "pq_start st' = pq_start st"
            using "2.IH"(2) [OF nt Some ct Inr run hs] nz ct by auto
          show ?thesis using A nz unfolding B by simp
        qed
      qed
    qed
  qed
qed


lemma match_row_Nil: "match_row [] = None"
  by (simp add: match_row_def run_of_def)

lemma match_time_row_disjoint:
  assumes "match_time l \<noteq> None"
  shows "match_row l = None"
proof -
  obtain b where "l = ''TIME '' @ b"
    using assms by (auto simp: match_time_def starts_with_iff split: if_splits)
  then show ?thesis by (simp add: match_row_def run_of_def py_isspace_def py_isdigit_def)
qed

lemma splitlines_two:
  "\<not> list_ex py_line_boundary h \<Longrightarrow> \<not> list_ex py_line_boundary l \<Longrightarrow> l \<noteq> [] \<Longrightarrow>
   py_splitlines (h @ CHR 0x0A # l) = [h, l]"
  by (simp add: py_splitlines_def splitlines_acc_line splitlines_acc_last)

lemma pqos_lines_case_name:
  "pqos_lines mk cn ls st = Inr st' \<Longrightarrow> \<forall>r \<in> set (rows st). map_of r ''case_name'' = Some (PStr cn) \<Longrightarrow>
   \<forall>r \<in> set (rows st'). map_of r ''case_name'' = Some (PStr cn)"
proof (induction mk cn ls st rule: pqos_lines.induct)
  case (1 mk cn st)
  then show ?case by simp
next
  case (2 mk cn line ls st)
  show ?case
    using "2.prems" "2.IH" core_row_fields
    by (auto simp: Let_def split: option.splits sum.splits)
qed

text \<open>
  C15. Given a \<open>TIME\<close> header followed by a matching six-field row, \<open>parse_pqos_output\<close>
  emits exactly one sample, whose \<open>ts\<close> is the converted header time and whose
  \<open>relative_ts\<close> is 0.
\<close>

theorem parse_pqos_header_row:
  assumes "match_time h = Some g" "strptime g = Inr dt"
    and "match_row l = Some gs" "core_row cn (mk dt) (mk dt) gs = Inr r"
    and "\<not> list_ex py_line_boundary h" "\<not> list_ex py_line_boundary l"
  shows "parse_pqos_output mk (h @ CHR 0x0A # l) cn = Inr [r]
       \<and> map_of r ''ts'' = Some (PInt (mk dt)) \<and> map_of r ''relative_ts'' = Some (PInt 0)"
proof -
  have "l \<noteq> []" using assms(3) match_row_Nil by auto
  then have sl: "py_splitlines (h @ CHR 0x0A # l) = [h, l]" by (rule splitlines_two [OF assms(5,6)])
  have "match_time l = None" using assms(3) match_time_row_disjoint by fastforce
  then have "parse_pqos_output mk (h @ CHR 0x0A # l) cn = Inr [r]"
    using assms(1-4) sl by (simp add: parse_pqos_output_def Let_def)
  then show ?thesis using core_row_fields [OF assms(4)] by simp
qed


theorem parse_pqos_header_row_witness:
  "parse_pqos_output utc_mktime (''TIME 2024-01-01 12:00:00'' @ CHR 0x0A # demo_pqos_row) ''c'' =
     Inr [[(''case_name'', PStr ''c''), (''ts'', PInt 1704110400), (''relative_ts'', PInt 0),
           (''Core'', PInt 0), (''IPC'', PFloat (6 / 5)), (''MISSES'', PInt 39000),
           (''LLC(KB)'', PFloat 100), (''MBL(MB/s)'', PFloat 5), (''MBR(MB/s)'', PFloat 0)]]
   \<and> map_of [(''case_name'', PStr ''c''), (''ts'', PInt 1704110400), (''relative_ts'', PInt 0),
           (''Core'', PInt 0), (''IPC'', PFloat (6 / 5)), (''MISSES'', PInt 39000),
           (''LLC(KB)'', PFloat 100), (''MBL(MB/s)'', PFloat 5), (''MBR(MB/s)'', PFloat 0)] ''ts''
       = Some (PInt 1704110400)
   \<and> map_of [(''case_name'', PStr ''c''), (''ts'', PInt 1704110400), (''relative_ts'', PInt 0),
           (''Core'', PInt 0), (''IPC'', PFloat (6 / 5)), (''MISSES'', PInt 39000),
           (''LLC(KB)'', PFloat 100), (''MBL(MB/s)'', PFloat 5), (''MBR(MB/s)'', PFloat 0)] ''relative_ts''
       = Some (PInt 0)"
proof -
  have m1: "match_time ''TIME 2024-01-01 12:00:00'' = Some ''2024-01-01 12:00:00''" by code_simp
  have m2: "strptime ''2024-01-01 12:00:00''
      = Inr \<lparr>dt_year = 2024, dt_month = 1, dt_day = 1, dt_hour = 12, dt_minute = 0, dt_second = 0\<rparr>"
    by code_simp
  have m3: "match_row demo_pqos_row = Some [''0'', ''1.20'', ''39k'', ''100.0'', ''5.0'', ''0.0'']" by code_simp
  have u: "utc_mktime \<lparr>dt_year = 2024, dt_month = 1, dt_day = 1, dt_hour = 12, dt_minute = 0, dt_second = 0\<rparr>
      = 1704110400" by code_simp
  have m4: "core_row ''c'' 1704110400 1704110400 [''0'', ''1.20'', ''39k'', ''100.0'', ''5.0'', ''0.0'']
      = Inr [(''case_name'', PStr ''c''), (''ts'', PInt 1704110400), (''relative_ts'', PInt 0),
           (''Core'', PInt 0), (''IPC'', PFloat (6 / 5)), (''MISSES'', PInt 39000),
           (''LLC(KB)'', PFloat 100), (''MBL(MB/s)'', PFloat 5), (''MBR(MB/s)'', PFloat 0)]"
    by code_simp
  have b1: "\<not> list_ex py_line_boundary ''TIME 2024-01-01 12:00:00''" by code_simp
  have b2: "\<not> list_ex py_line_boundary demo_pqos_row" by code_simp
  show ?thesis using parse_pqos_header_row [OF m1 m2 m3 _ b1 b2, of "''c''" utc_mktime] m4 u by simp
qed

text \<open>
  C16. When no header of a report converts to 0, \<open>parse_pqos_output\<close> gives every sample
  the case name and \<open>relative_ts = ts - start_ts\<close>, where \<open>start_ts\<close> is the time of the
  report's first \<open>TIME\<close> header.
\<close>

theorem parse_pqos_relative_ts:
  assumes "parse_pqos_output mk out cn = Inr rs" "list_all (header_ok mk) (py_splitlines out)" "rs \<noteq> []"
  shows "\<exists>s0. first_time_ts mk (py_splitlines out) = Some s0
           \<and> (\<forall>r \<in> set rs. rel_ok s0 r \<and> map_of r ''case_name'' = Some (PStr cn))"
proof -
  obtain st' where run: "pqos_lines mk cn (py_splitlines out) pqos_init = Inr st'" and rs: "rows st' = rs"
    using assms(1) by (auto simp: parse_pqos_output_def pqos_init_def split: sum.splits)
  have "(\<forall>r \<in> set rs. rel_ok (pq_start st') r) \<and> first_time_ts mk (py_splitlines out) = Some (pq_start st')"
    using pqos_lines_rel [OF run assms(2)] rs assms(3) by (simp add: pqos_init_def)
  moreover have "\<forall>r \<in> set rs. map_of r ''case_name'' = Some (PStr cn)"
    using pqos_lines_case_name [OF run] rs by (simp add: pqos_init_def)
  ultimately show ?thesis by blast
qed

theorem parse_pqos_relative_ts_witness:
  "\<exists>rs. parse_pqos_output utc_mktime demo_pqos_out ''c'' = Inr rs \<and> length rs = 4
      \<and> first_time_ts utc_mktime (py_splitlines demo_pqos_out) = Some 1704110400
      \<and> list_all (rel_ok 1704110400) rs"
proof -
  have "case parse_pqos_output utc_mktime demo_pqos_out ''c'' of Inr rs \<Rightarrow> length rs = 4 | Inl _ \<Rightarrow> False"
    by code_simp
  then obtain rs where p: "parse_pqos_output utc_mktime demo_pqos_out ''c'' = Inr rs" and l: "length rs = 4"
    by (auto split: sum.splits)
  have h: "list_all (header_ok utc_mktime) (py_splitlines demo_pqos_out)" by code_simp
  have f: "first_time_ts utc_mktime (py_splitlines demo_pqos_out) = Some 1704110400" by code_simp
  have "rs \<noteq> []" using l by auto
  then have "\<forall>r \<in> set rs. rel_ok 1704110400 r"
    using parse_pqos_relative_ts [OF p h] f by auto
  then show ?thesis using p l f by (simp add: list_all_iff)
qed


text \<open>
  C17. A per-core row that comes before any \<open>TIME\<close> header makes \<open>parse_pqos_output\<close>
  raise \<open>UnboundLocalError\<close> (\<open>current_time\<close> is read before it is assigned), whatever
  follows; \<open>monitor_memory_bandwidth\<close> catches it, so no sample of the run is stored.
\<close>

theorem pqos_row_before_time:
  assumes "match_row l = Some gs" "\<not> list_ex py_line_boundary l"
    and "cpu_count env = Some c" "pqos_tool env (pqos_command su c d) = PqosRan 0 (l @ CHR 0x0A # rest) err"
  shows "parse_pqos_output (local_time env) (l @ CHR 0x0A # rest) cn = Inl UnboundLocalError
       \<and> monitor_memory_bandwidth env d cn sl su = Inr (MbCaught UnboundLocalError)"
proof -
  have "py_splitlines (l @ CHR 0x0A # rest) = l # splitlines_acc [] rest"
    using assms(2) by (simp add: py_splitlines_def splitlines_acc_line)
  moreover have "match_time l = None" using assms(1) match_time_row_disjoint by fastforce
  ultimately have p: "parse_pqos_output (local_time env) (l @ CHR 0x0A # rest) cn = Inl UnboundLocalError"
    using assms(1) by (simp add: parse_pqos_output_def)
  then show ?thesis using assms(3,4) by (simp add: monitor_memory_bandwidth_def)
qed

theorem pqos_row_before_time_witness:
  "parse_pqos_output utc_mktime (demo_pqos_row @ CHR 0x0A # demo_pqos_out) ''c'' = Inl UnboundLocalError
   \<and> monitor_memory_bandwidth (demo_mb_env (demo_pqos_row @ CHR 0x0A # demo_pqos_out)) 10 ''c'' False True
       = Inr (MbCaught UnboundLocalError)"
proof -
  have m: "match_row demo_pqos_row = Some [''0'', ''1.20'', ''39k'', ''100.0'', ''5.0'', ''0.0'']" by code_simp
  have b: "\<not> list_ex py_line_boundary demo_pqos_row" by code_simp
  have c: "cpu_count (demo_mb_env (demo_pqos_row @ CHR 0x0A # demo_pqos_out)) = Some 4"
    by (simp add: demo_mb_env_def)
  have t: "pqos_tool (demo_mb_env (demo_pqos_row @ CHR 0x0A # demo_pqos_out)) (pqos_command True 4 10)
      = PqosRan 0 (demo_pqos_row @ CHR 0x0A # demo_pqos_out) ''''"
    by (simp add: demo_mb_env_def)
  have l: "local_time (demo_mb_env (demo_pqos_row @ CHR 0x0A # demo_pqos_out)) = utc_mktime"
    by (simp add: demo_mb_env_def)
  show ?thesis using pqos_row_before_time [OF m b c t, of "''c''" False] l by simp
qed

text \<open>
  C18. When \<open>monitor_memory_bandwidth\<close> stores samples, \<open>pqos\<close> was run as
  \<open>[sudo] pqos -m all:0-(n-1) -t duration\<close> for the host's CPU count \<open>n\<close> and exited with
  0, the samples are exactly the parse of its output, all of them carry the case name, and
  they went to the table \<open>tbl5IetG3NXe6GFT\<close> or to \<open>result/<case>_mem_bandwidth_data.csv\<close>.
\<close>

theorem monitor_memory_bandwidth_saved:
  assumes "monitor_memory_bandwidth env d cn sl su = Inr (MbSaved data s)"
  shows "\<exists>c out err. cpu_count env = Some c
           \<and> pqos_tool env (pqos_command su c d) = PqosRan 0 out err
           \<and> parse_pqos_output (local_time env) out cn = Inr data
           \<and> save_samples (mb_lark env) (mb_resp env) (mb_enum env) sl data
               ''tbl5IetG3NXe6GFT'' (''result/'' @ cn @ ''_mem_bandwidth_data.csv'') = Inr s
           \<and> list_all (\<lambda>r. map_of r ''case_name'' = Some (PStr cn)) data"
proof -
  obtain c out err where c: "cpu_count env = Some c"
    and t: "pqos_tool env (pqos_command su c d) = PqosRan 0 out err"
    and p: "parse_pqos_output (local_time env) out cn = Inr data"
    and s: "save_samples (mb_lark env) (mb_resp env) (mb_enum env) sl data
              ''tbl5IetG3NXe6GFT'' (''result/'' @ cn @ ''_mem_bandwidth_data.csv'') = Inr s"
    using assms by (auto simp: monitor_memory_bandwidth_def split: option.splits pqos_run.splits if_splits sum.splits)
  obtain st' where "pqos_lines (local_time env) cn (py_splitlines out) pqos_init = Inr st'" "rows st' = data"
    using p by (auto simp: parse_pqos_output_def pqos_init_def split: sum.splits)
  then have "list_all (\<lambda>r. map_of r ''case_name'' = Some (PStr cn)) data"
    using pqos_lines_case_name by (fastforce simp: pqos_init_def list_all_iff)
  with c t p s show ?thesis by blast
qed

theorem monitor_memory_bandwidth_saved_witness:
  "\<exists>data s. monitor_memory_bandwidth (demo_mb_env demo_pqos_out) 10 ''c'' False True = Inr (MbSaved data s)
     \<and> pqos_command True 4 10 = [''sudo'', ''pqos'', ''-m'', ''all:0-3'', ''-t'', ''10'']
     \<and> parse_pqos_output utc_mktime demo_pqos_out ''c'' = Inr data
     \<and> list_all (\<lambda>r. map_of r ''case_name'' = Some (PStr ''c'')) data"
proof -
  have "case monitor_memory_bandwidth (demo_mb_env demo_pqos_out) 10 ''c'' False True of
          Inr (MbSaved data s) \<Rightarrow> True | _ \<Rightarrow> False"
    by code_simp
  then obtain data s where m: "monitor_memory_bandwidth (demo_mb_env demo_pqos_out) 10 ''c'' False True
      = Inr (MbSaved data s)"
    by (auto split: sum.splits mb_outcome.splits)
  have cmd: "pqos_command True 4 10 = [''sudo'', ''pqos'', ''-m'', ''all:0-3'', ''-t'', ''10'']"
    by code_simp
  show ?thesis
    using monitor_memory_bandwidth_saved [OF m] m cmd by (auto simp: demo_mb_env_def)
qed

text \<open>
  The sentinel \<open>start_ts = 0\<close>: when the first header converts to 0 (midnight of
  1970-01-01 on a UTC host), the next header becomes \<open>start_ts\<close>, so the samples of the
  second block get \<open>relative_ts\<close> 0 instead of their distance from the first header.
\<close>

lemma pqos_epoch_reanchor:
  "\<exists>r1 r2. parse_pqos_output utc_mktime
      (''TIME 1970-01-01 00:00:00\<newline>'' @ demo_pqos_row @ ''\<newline>TIME 1970-01-01 00:00:10\<newline>'' @ demo_pqos_row)
      ''c'' = Inr [r1, r2]
    \<and> map_of r2 ''ts'' = Some (PInt 10) \<and> map_of r2 ''relative_ts'' = Some (PInt 0)
    \<and> first_time_ts utc_mktime
        (py_splitlines (''TIME 1970-01-01 00:00:00\<newline>'' @ demo_pqos_row @ ''\<newline>TIME 1970-01-01 00:00:10\<newline>'' @ demo_pqos_row))
      = Some 0"
proof -
  have "case parse_pqos_output utc_mktime
      (''TIME 1970-01-01 00:00:00\<newline>'' @ demo_pqos_row @ ''\<newline>TIME 1970-01-01 00:00:10\<newline>'' @ demo_pqos_row)
      ''c'' of Inr [r1, r2] \<Rightarrow> map_of r2 ''ts'' = Some (PInt 10) \<and> map_of r2 ''relative_ts'' = Some (PInt 0)
             | _ \<Rightarrow> False"
    by code_simp
  moreover have "first_time_ts utc_mktime
        (py_splitlines (''TIME 1970-01-01 00:00:00\<newline>'' @ demo_pqos_row @ ''\<newline>TIME 1970-01-01 00:00:10\<newline>'' @ demo_pqos_row))
      = Some 0"
    by code_simp
  ultimately show ?thesis by (auto split: sum.splits list.splits)
qed



section \<open>The header pattern and the schema of the samples\<close>

lemma shape_match_iff:
  "shape_match p s \<longleftrightarrow> length p \<le> length s \<and> list_all2 shape_char p (take (length p) s)"
  by (induction p s rule: shape_match.induct) (auto simp: shape_char_def)

lemma length_time_shape: "length time_shape = 19"
  by (simp add: time_shape_def)



lemma core_row_schema: "core_row cn ts s0 gs = Inr r \<Longrightarrow> row_schema r = bandwidth_schema"
  by (auto simp: core_row_def row_schema_def bandwidth_schema_def split: sum.splits)

lemma pqos_lines_core_rows:
  "pqos_lines mk cn ls st = Inr st' \<Longrightarrow>
   \<exists>new. rows st' = rows st @ new \<and> (\<forall>r \<in> set new. \<exists>ts s0 gs. core_row cn ts s0 gs = Inr r)"
proof (induction mk cn ls st rule: pqos_lines.induct)
  case (1 mk cn st)
  then show ?case by simp
next
  case (2 mk cn line ls st)
  show ?case
  proof (cases "match_time line")
    case (Some g)
    then show ?thesis using "2.prems" "2.IH"(3) [OF Some] by (auto simp: Let_def split: sum.splits)
  next
    case nt: None
    show ?thesis
    proof (cases "match_row line")
      case None
      then show ?thesis using nt "2.prems" "2.IH"(1) [OF nt None] by simp
    next
      case (Some gs)
      then show ?thesis using nt "2.prems" "2.IH"(2) [OF nt Some]
        by (auto split: option.splits sum.splits) (metis append.assoc set_ConsD set_append Un_iff)
    qed
  qed
qed

text \<open>
  C28. Every sample \<open>parse_pqos_output\<close> returns is a BandwidthSample: the nine keys in the
  code's order, with a string case name, integer \<open>ts\<close>, \<open>relative_ts\<close>, core and misses,
  and float IPC, LLC and bandwidths.
\<close>

theorem parse_pqos_schema:
  "parse_pqos_output mk out cn = Inr rs \<Longrightarrow> list_all (\<lambda>r. row_schema r = bandwidth_schema) rs"
  using pqos_lines_core_rows [of mk cn "py_splitlines out" pqos_init] core_row_schema
  by (fastforce simp: parse_pqos_output_def pqos_init_def list_all_iff split: sum.splits)

theorem parse_pqos_schema_witness:
  "\<exists>rs. parse_pqos_output utc_mktime demo_pqos_out ''c'' = Inr rs \<and> length rs = 4
      \<and> list_all (\<lambda>r. row_schema r = bandwidth_schema) rs"
proof -
  have "case parse_pqos_output utc_mktime demo_pqos_out ''c'' of Inr rs \<Rightarrow> length rs = 4 | Inl _ \<Rightarrow> False"
    by code_simp
  then obtain rs where p: "parse_pqos_output utc_mktime demo_pqos_out ''c'' = Inr rs" and l: "length rs = 4"
    by (auto split: sum.splits)
  with parse_pqos_schema [OF p] show ?thesis by blast
qed

end
