(* ===== verification/Catalog.thy ===== *)
theory Catalog
  imports PyStr
begin

text \<open>
  The counter catalog of \<open>src/metric.py\<close>: \<open>get_architecture\<close> classifies the output of
  \<open>uname -m\<close>, and \<open>get_perf_event_table\<close> returns the hardware events to sample and the
  remote table that receives them. The output of \<open>uname -m\<close> is an input of the model.
\<close>

datatype arch = X86 | ARM

text \<open>\<open>bytes.strip()\<close> removes ASCII whitespace only.\<close>

definition bytes_isspace :: "char \<Rightarrow> bool" where
  "bytes_isspace c \<longleftrightarrow> of_char c \<in> {9, 10, 11, 12, 13, 32 :: nat}"

definition bytes_strip :: "string \<Rightarrow> string" where
  "bytes_strip s = rev (dropWhile bytes_isspace (rev (dropWhile bytes_isspace s)))"

definition get_architecture :: "string \<Rightarrow> py_error + arch" where
  "get_architecture uname_out =
     (let arch = bytes_strip uname_out in
      if py_contains ''x86'' arch then Inr X86
      else if py_contains ''arm'' arch \<or> py_contains ''aarch64'' arch then Inr ARM
      else Inl ValueError)"

definition x86_events :: "string list" where
  "x86_events =
     [''frontend_retired.l1i_miss'', ''instructions'', ''mem_inst_retired.all_loads'',
      ''mem_load_retired.fb_hit'', ''mem_load_retired.l1_hit'', ''mem_load_retired.l1_miss'',
      ''l2_rqsts.code_rd_hit'', ''l2_rqsts.code_rd_miss'', ''mem_load_retired.l2_hit'',
      ''mem_load_retired.l2_miss'', ''mem_load_retired.l3_hit'', ''mem_load_retired.l3_miss'',
      ''branch-misses'', ''branch-instructions'']"

definition arm_events :: "string list" where
  "arm_events =
     [''l1i_cache'', ''l1i_cache_refill'', ''l1d_cache'', ''l1d_cache_refill'', ''l2i_cache'',
      ''l2i_cache_refill'', ''l2d_cache'', ''l2d_cache_refill'', ''branch-misses'']"

text \<open>The events and the destination table of an architecture.\<close>

fun event_table :: "arch \<Rightarrow> string list \<times> string" where
  "event_table X86 = (x86_events, ''tblFptRCkgwc8IoV'')"
| "event_table ARM = (arm_events, ''tblUJJDqxHS4TqHR'')"

definition get_perf_event_table :: "string \<Rightarrow> py_error + (string list \<times> string)" where
  "get_perf_event_table uname_out =
     (case get_architecture uname_out of
        Inl e \<Rightarrow> Inl e
      | Inr a \<Rightarrow> Inr (event_table a))"

text \<open>The names the sampler adds to every composite sample, which no event may shadow.\<close>

definition header_fields :: "string list" where
  "header_fields = [''case_name'', ''ts'', ''relative_ts'']"

definition catalog_ok :: "string list \<Rightarrow> bool" where
  "catalog_ok evs \<longleftrightarrow> evs \<noteq> [] \<and> distinct evs \<and> set evs \<inter> set header_fields = {}"

lemmas catalog_defs = x86_events_def arm_events_def

lemma catalog_ok_tables: "catalog_ok x86_events" "catalog_ok arm_events"
  by (simp_all add: catalog_ok_def catalog_defs header_fields_def)

lemma event_table_ok: "catalog_ok (fst (event_table a))"
  by (cases a) (simp_all add: catalog_ok_tables)

lemma get_perf_event_table_ok:
  "get_perf_event_table u = Inr (evs, tbl) \<Longrightarrow> catalog_ok evs"
  using event_table_ok
  by (auto simp: get_perf_event_table_def split: sum.splits) (metis fst_conv)



end
