(* ===== verification/Perf.thy ===== *)
theory Perf
  imports Catalog Store
begin

text \<open>
  The hardware-counter monitor of \<open>src/metric.py\<close>: \<open>split_events\<close> cuts the catalog into
  groups of four, \<open>monitor_perf\<close> rotates through the groups one per three-second tick,
  builds the \<open>perf stat\<close> command of the tick, reads the counter values from the tool's
  report, assembles one composite sample per full rotation and hands the samples to the
  store. The tool, the clock and the remote API are inputs of the model (\<open>perf_env\<close>):
  the tool is a function from the tick and the command to the report (or a spawn failure)
  and to the time the tick's work took.
\<close>

section \<open>Batch scheduler: split_events\<close>

definition split_events :: "'a list \<Rightarrow> int \<Rightarrow> py_error + 'a list list" where
  "split_events events batch_size =
     (case py_range 0 (int (length events)) batch_size of
        Inl e \<Rightarrow> Inl e
      | Inr starts \<Rightarrow> Inr (map (\<lambda>i. py_slice events i (i + batch_size)) starts))"

section \<open>Tool invoker: the perf command\<close>

definition event_args :: "string list \<Rightarrow> string list" where
  "event_args sub_events = concat (map (\<lambda>e. [''-e'', e]) sub_events)"

definition perf_command :: "bool \<Rightarrow> int \<Rightarrow> string list \<Rightarrow> string list" where
  "perf_command sudo pid sub_events =
     (if sudo then [''sudo''] else []) @
     (if pid \<noteq> 0 then [''perf'', ''stat''] @ event_args sub_events @ [''-p'', py_str_int pid] @ [''sleep'', ''1'']
      else [''perf'', ''stat''] @ event_args sub_events @ [''sleep'', ''1''])"

section \<open>Report parser: one value per requested counter\<close>

text \<open>
  The body shared by the two branches of the test on \<open>len(line.split())\<close>: \<open>-1\<close> for an
  unsupported counter, else the first field without its commas, read by \<open>int()\<close>, which
  may raise.
\<close>

definition counter_value :: "string \<Rightarrow> string list \<Rightarrow> string \<Rightarrow> row \<Rightarrow> py_error + row" where
  "counter_value line toks e d =
     (if py_contains ''not supported'' line then Inr (dict_set d e (PInt (-1)))
      else (case py_int (remove_commas (toks ! 0)) of
              Inl err \<Rightarrow> Inl err
            | Inr v \<Rightarrow> Inr (dict_set d e (PInt v))))"

definition parse_line_event :: "string \<Rightarrow> string \<Rightarrow> row \<Rightarrow> py_error + row" where
  "parse_line_event line e d =
     (let toks = py_split line in
      if length toks = 2 \<and> e = toks ! 1 then counter_value line toks e d
      else if length toks > 2 \<and> e = toks ! 1 then counter_value line toks e d
      else Inr d)"

text \<open>
  The two nested loops \<open>for line in ...: for e in sub_events: ...\<close>. An exception leaves
  the loops at once; the assignments made before it stay in \<open>data_item\<close>.
\<close>

fun parse_events :: "string \<Rightarrow> string list \<Rightarrow> row \<Rightarrow> py_error option \<times> row" where
  "parse_events line [] d = (None, d)"
| "parse_events line (e # es) d =
     (case parse_line_event line e d of
        Inl err \<Rightarrow> (Some err, d)
      | Inr d' \<Rightarrow> parse_events line es d')"

fun parse_perf_lines :: "string list \<Rightarrow> string list \<Rightarrow> row \<Rightarrow> py_error option \<times> row" where
  "parse_perf_lines [] evs d = (None, d)"
| "parse_perf_lines (l # ls) evs d =
     (case parse_events l evs d of
        (Some err, d') \<Rightarrow> (Some err, d')
      | (None, d') \<Rightarrow> parse_perf_lines ls evs d')"

definition parse_perf_output :: "string \<Rightarrow> string list \<Rightarrow> row \<Rightarrow> py_error option \<times> row" where
  "parse_perf_output out sub_events d = parse_perf_lines (py_splitlines out) sub_events d"

section \<open>The sampling loop\<close>

text \<open>What one tick's \<open>subprocess.run\<close> gives: a spawn failure, or the text on stderr.\<close>

datatype perf_run = SpawnFailed | Ran string

record perf_env =
  uname_out :: string
  start_time :: rat                                        \<comment> \<open>\<open>time.time()\<close> at the start\<close>
  tool :: "nat \<Rightarrow> string list \<Rightarrow> perf_run \<times> rat"         \<comment> \<open>report and duration of tick \<open>i\<close>\<close>
  perf_lark :: lark_env
  perf_resp :: "nat \<Rightarrow> http_response"
  perf_enum :: "string set \<Rightarrow> string list"

text \<open>
  The loop's state: the finished samples, the sample being assembled, the clock, and the
  ticks whose tool run failed and was logged.
\<close>

record perf_state =
  data :: "row list"
  data_item :: row
  clock :: rat
  errors :: "nat list"

definition new_item :: "string \<Rightarrow> int \<Rightarrow> rat \<Rightarrow> row" where
  "new_item case_name start_ts ts =
     [(''case_name'', PStr case_name), (''ts'', PInt (py_trunc ts)),
      (''relative_ts'', PInt (py_trunc (ts - of_int start_ts)))]"

text \<open>The sample being assembled at the start of tick \<open>i\<close>: a fresh one at each rotation.\<close>

definition start_item :: "string \<Rightarrow> int \<Rightarrow> nat \<Rightarrow> nat \<Rightarrow> perf_state \<Rightarrow> row" where
  "start_item case_name start_ts n i st =
     (if i mod n = 0 then new_item case_name start_ts (clock st) else data_item st)"

text \<open>
  The \<open>try\<close> block around the tool run: a spawn failure or an exception of the parser is
  caught and logged (the flag), and the sample keeps what was assigned before it.
\<close>

definition absorb_run :: "perf_run \<Rightarrow> string list \<Rightarrow> row \<Rightarrow> row \<times> bool" where
  "absorb_run run sub_events item =
     (case run of
        SpawnFailed \<Rightarrow> (item, True)
      | Ran out \<Rightarrow> (case parse_perf_output out sub_events item of (err, d) \<Rightarrow> (d, err \<noteq> None)))"

text \<open>\<open>elapsed_time = start_ts + 3*(i + 1) - time.time(); if elapsed_time > 0: time.sleep(...)\<close>.\<close>

definition sleep_until :: "rat \<Rightarrow> rat \<Rightarrow> rat" where
  "sleep_until wake now = (if wake - now > 0 then wake else now)"

text \<open>One iteration of the loop body for tick \<open>i\<close>, once the group index is defined.\<close>

definition perf_step ::
  "perf_env \<Rightarrow> string \<Rightarrow> bool \<Rightarrow> int \<Rightarrow> int \<Rightarrow> string list list \<Rightarrow> perf_state \<Rightarrow> nat \<Rightarrow> perf_state" where
  "perf_step env case_name sudo pid start_ts groups st i =
     (let n = length groups;
          item = start_item case_name start_ts n i st;
          sub_events = groups ! (i mod n);
          (run, cost) = tool env i (perf_command sudo pid sub_events);
          (item', failed) = absorb_run run sub_events item;
          data' = (if (i + 1) mod n = 0 then data st @ [item'] else data st)
      in \<lparr>data = data', data_item = item',
          clock = sleep_until (of_int start_ts + 3 * (of_nat i + 1)) (clock st + cost),
          errors = (if failed then errors st @ [i] else errors st)\<rparr>)"

text \<open>\<open>i % len(sub_events_list)\<close> raises \<open>ZeroDivisionError\<close> on an empty group list.\<close>

definition perf_tick ::
  "perf_env \<Rightarrow> string \<Rightarrow> bool \<Rightarrow> int \<Rightarrow> int \<Rightarrow> string list list \<Rightarrow> perf_state \<Rightarrow> nat \<Rightarrow> py_error + perf_state" where
  "perf_tick env case_name sudo pid start_ts groups st i =
     (if length groups = 0 then Inl ZeroDivisionError
      else Inr (perf_step env case_name sudo pid start_ts groups st i))"

fun perf_loop ::
  "perf_env \<Rightarrow> string \<Rightarrow> bool \<Rightarrow> int \<Rightarrow> int \<Rightarrow> string list list \<Rightarrow> nat list \<Rightarrow> perf_state \<Rightarrow> py_error + perf_state" where
  "perf_loop env case_name sudo pid start_ts groups [] st = Inr st"
| "perf_loop env case_name sudo pid start_ts groups (i # is) st =
     (case perf_tick env case_name sudo pid start_ts groups st i of
        Inl e \<Rightarrow> Inl e
      | Inr st' \<Rightarrow> perf_loop env case_name sudo pid start_ts groups is st')"

definition perf_init :: "rat \<Rightarrow> perf_state" where
  "perf_init t = \<lparr>data = [], data_item = [], clock = t, errors = []\<rparr>"

text \<open>
  \<open>monitor_perf\<close>: the ticks are \<open>range(duration // 3)\<close>; the samples go to the remote
  table of the architecture or to \<open>result/<case_name>_perf_data.csv\<close>. The result is
  the returned list of samples and what was sent where.
\<close>

definition monitor_perf ::
  "perf_env \<Rightarrow> int \<Rightarrow> int \<Rightarrow> string \<Rightarrow> bool \<Rightarrow> bool \<Rightarrow> py_error + (row list \<times> sink)" where
  "monitor_perf env pid duration case_name save_local sudo =
     (case get_perf_event_table (uname_out env) of
        Inl e \<Rightarrow> Inl e
      | Inr (all_events, table_name) \<Rightarrow>
          (case split_events all_events 4 of
             Inl e \<Rightarrow> Inl e
           | Inr sub_events_list \<Rightarrow>
               (let start_ts = py_trunc (start_time env) in
                case perf_loop env case_name sudo pid start_ts sub_events_list
                       [0..<nat (duration div 3)] (perf_init (start_time env)) of
                  Inl e \<Rightarrow> Inl e
                | Inr st \<Rightarrow>
                    (case save_samples (perf_lark env) (perf_resp env) (perf_enum env) save_local (data st)
                            table_name (''result/'' @ case_name @ ''_perf_data.csv'') of
                       Inl e \<Rightarrow> Inl e
                     | Inr s \<Rightarrow> Inr (data st, s)))))"

section \<open>Well-formed samples\<close>

text \<open>
  A composite sample is well formed when its keys are header fields or counters of the
  catalog, it carries the run's case name, and its relative timestamp is its timestamp
  minus the run's start, which it does not precede.
\<close>

definition sample_ok :: "string \<Rightarrow> int \<Rightarrow> string set \<Rightarrow> row \<Rightarrow> bool" where
  "sample_ok cn sts K s \<longleftrightarrow>
     dict_keys s \<subseteq> K \<and> map_of s ''case_name'' = Some (PStr cn) \<and>
     (case (map_of s ''ts'', map_of s ''relative_ts'') of
        (Some (PInt t), Some (PInt r)) \<Rightarrow> r = t - sts \<and> sts \<le> t
      | _ \<Rightarrow> False)"

text \<open>The invariant of the sampling loop after \<open>i\<close> ticks.\<close>

definition perf_inv :: "string \<Rightarrow> int \<Rightarrow> string set \<Rightarrow> nat \<Rightarrow> perf_state \<Rightarrow> bool" where
  "perf_inv cn sts K i st \<longleftrightarrow>
     (\<forall>s \<in> set (data st). sample_ok cn sts K s) \<and> (0 < i \<longrightarrow> sample_ok cn sts K (data_item st))
     \<and> of_int sts \<le> clock st"

section \<open>Specification of the report parser\<close>

text \<open>
  The reading the specification gives the per-counter parser: a line names counter \<open>e\<close>
  when its second field is \<open>e\<close>; it reads \<open>-1\<close> when it carries the marker, else the first
  field without commas; the counter takes the reading of the last line that names it.
\<close>

definition line_names :: "string \<Rightarrow> string \<Rightarrow> bool" where
  "line_names e l \<longleftrightarrow> (let t = py_split l in 2 \<le> length t \<and> t ! 1 = e)"

definition line_reading :: "string \<Rightarrow> int option" where
  "line_reading l =
     (if py_contains ''not supported'' l then Some (-1)
      else (case py_int (remove_commas (py_split l ! 0)) of Inr v \<Rightarrow> Some v | Inl _ \<Rightarrow> None))"

definition spec_counter :: "string list \<Rightarrow> string \<Rightarrow> int option" where
  "spec_counter ls e = (case filter (line_names e) ls of [] \<Rightarrow> None | ms \<Rightarrow> line_reading (last ms))"

section \<open>Specification of the rotation\<close>

text \<open>
  The batch scheduler's contract (spec 4.1) read directly: tick \<open>i\<close> runs group
  \<open>i mod n\<close>; the \<open>k\<close>-th composite sample starts fresh, stamped with the clock at tick
  \<open>k n\<close>, and takes in the reports of the groups \<open>0 .. n - 1\<close> in order. \<open>perf_clock\<close> is
  the clock at the start of each tick, \<open>group_run\<close> the absorption of one group's report.
\<close>

fun perf_clock :: "perf_env \<Rightarrow> bool \<Rightarrow> int \<Rightarrow> int \<Rightarrow> string list list \<Rightarrow> rat \<Rightarrow> nat \<Rightarrow> rat" where
  "perf_clock env sudo pid sts groups t0 0 = t0"
| "perf_clock env sudo pid sts groups t0 (Suc i) =
     sleep_until (of_int sts + 3 * (of_nat i + 1))
       (perf_clock env sudo pid sts groups t0 i
        + snd (tool env i (perf_command sudo pid (groups ! (i mod length groups)))))"

definition group_run :: "perf_env \<Rightarrow> bool \<Rightarrow> int \<Rightarrow> string list list \<Rightarrow> nat \<Rightarrow> row \<Rightarrow> nat \<Rightarrow> row" where
  "group_run env sudo pid groups k item j =
     fst (absorb_run (fst (tool env (k * length groups + j) (perf_command sudo pid (groups ! j))))
                     (groups ! j) item)"

definition composite_sample ::
  "perf_env \<Rightarrow> string \<Rightarrow> bool \<Rightarrow> int \<Rightarrow> int \<Rightarrow> string list list \<Rightarrow> rat \<Rightarrow> nat \<Rightarrow> row" where
  "composite_sample env cn sudo pid sts groups t0 k =
     foldl (group_run env sudo pid groups k)
       (new_item cn sts (perf_clock env sudo pid sts groups t0 (k * length groups)))
       [0..<length groups]"

section \<open>Example environment\<close>

text \<open>An environment for the examples: an ARM host whose tool reports one counter.\<close>

definition demo_perf_env :: perf_env where
  "demo_perf_env =
     \<lparr>uname_out = ''aarch64'', start_time = 1000,
      tool = (\<lambda>i cmd. (Ran ''      1,234      l1i_cache\<newline>'', 1)),
      perf_lark = \<lparr>app_id = Some ''id'', app_secret = Some ''secret'',
                   token_response = \<lparr>status = 200, resp_code = Some 0, resp_token = Some ''tok''\<rparr>\<rparr>,
      perf_resp = (\<lambda>_. \<lparr>status = 200, resp_code = Some 0, resp_token = None\<rparr>),
      perf_enum = (\<lambda>_. [])\<rparr>"

text \<open>
  An environment whose tool reports, at tick \<open>i\<close>, the value \<open>i\<close> for the first counter of
  the group it was asked for: the rotation's samples gather one value per group.
\<close>

definition demo_rotation_env :: perf_env where
  "demo_rotation_env =
     demo_perf_env\<lparr>tool := (\<lambda>i cmd.
        (Ran (py_str_int (int i) @ '' '' @ cmd ! 3 @ ''\<newline>''), 1))\<rparr>"

section \<open>Properties of the scheduler\<close>

lemma split_events_chunks: "0 < b \<Longrightarrow> split_events xs b = Inr (chunks (nat b) xs)"
  using slices_py_range_pos [of 0 b xs] by (simp add: split_events_def py_range_def)

lemma split_events_zero: "split_events xs 0 = Inl ValueError"
  by (simp add: split_events_def py_range_def)

text \<open>
  C4. For a positive batch size \<open>b\<close>, \<open>split_events\<close> partitions the list: the groups
  concatenate back to it, each holds between one and \<open>b\<close> elements, and there are
  \<open>ceil(len / b)\<close> of them.
\<close>

theorem split_events_partition:
  assumes "0 < b" and "split_events xs b = Inr gs"
  shows "concat gs = xs \<and> (\<forall>g \<in> set gs. g \<noteq> [] \<and> length g \<le> nat b)
         \<and> length gs = (length xs + nat b - 1) div nat b"
proof -
  from assms have gs: "gs = chunks (nat b) xs" by (simp add: split_events_chunks)
  have "0 < nat b" using assms(1) by simp
  then show ?thesis using gs by (simp add: length_chunks chunks_nonempty_bounded)
qed

lemma split_events_groups:
  "split_events x86_events 4 = Inr (chunks 4 x86_events)" "length (chunks 4 x86_events) = 4"
  "split_events arm_events 4 = Inr (chunks 4 arm_events)" "length (chunks 4 arm_events) = 3"
  by (simp_all add: split_events_chunks length_chunks catalog_defs)

section \<open>The loop as a fold\<close>

lemma perf_loop_append:
  "perf_loop env cn sudo pid sts groups (xs @ ys) st =
     (case perf_loop env cn sudo pid sts groups xs st of
        Inl e \<Rightarrow> Inl e
      | Inr st' \<Rightarrow> perf_loop env cn sudo pid sts groups ys st')"
  by (induction xs arbitrary: st) (auto split: sum.splits)

lemma perf_loop_fold:
  "groups \<noteq> [] \<Longrightarrow>
   perf_loop env cn sudo pid sts groups is st = Inr (foldl (perf_step env cn sudo pid sts groups) st is)"
  by (induction "is" arbitrary: st) (simp_all add: perf_tick_def)

lemma perf_loop_empty_groups:
  "is \<noteq> [] \<Longrightarrow> perf_loop env cn sudo pid sts [] is st = Inl ZeroDivisionError"
  by (cases "is") (simp_all add: perf_tick_def)

lemma perf_step_data:
  "data (perf_step env cn sudo pid sts groups st i) =
     (if (i + 1) mod length groups = 0
      then data st @ [data_item (perf_step env cn sudo pid sts groups st i)] else data st)"
  by (simp add: perf_step_def Let_def split: prod.splits)

lemma perf_step_item:
  "data_item (perf_step env cn sudo pid sts groups st i) =
     fst (absorb_run (fst (tool env i (perf_command sudo pid (groups ! (i mod length groups)))))
                     (groups ! (i mod length groups)) (start_item cn sts (length groups) i st))"
  by (simp add: perf_step_def Let_def split: prod.splits)

lemma perf_step_clock:
  "clock (perf_step env cn sudo pid sts groups st i) =
     sleep_until (of_int sts + 3 * (of_nat i + 1))
       (clock st + snd (tool env i (perf_command sudo pid (groups ! (i mod length groups)))))"
  by (simp add: perf_step_def Let_def split: prod.splits)

lemmas perf_step_fields = perf_step_data perf_step_item perf_step_clock

text \<open>The number of complete composite samples after \<open>m\<close> ticks.\<close>

lemma perf_fold_length:
  "groups \<noteq> [] \<Longrightarrow>
   length (data (foldl (perf_step env cn sudo pid sts groups) st [0..<m])) = length (data st) + m div length groups"
proof (induction m)
  case 0
  then show ?case by simp
next
  case (Suc m)
  then show ?case by (simp add: perf_step_data div_Suc)
qed

section \<open>Properties of the report parser\<close>

text \<open>The two branches on \<open>len(line.split())\<close> are one test: at least two fields.\<close>

lemma parse_line_event_eq:
  "parse_line_event line e d =
     (let toks = py_split line in
      if 2 \<le> length toks \<and> e = toks ! 1 then counter_value line toks e d else Inr d)"
  by (auto simp: parse_line_event_def Let_def)

lemma parse_line_event_frame:
  "parse_line_event line e d = Inr d' \<Longrightarrow> dict_keys d' \<subseteq> insert e (dict_keys d) \<and> (\<forall>k. k \<noteq> e \<longrightarrow> map_of d' k = map_of d k)"
  by (auto simp: parse_line_event_eq counter_value_def Let_def split: if_splits sum.splits)

lemma parse_events_frame:
  "parse_events line es d = (r, d') \<Longrightarrow>
   dict_keys d' \<subseteq> dict_keys d \<union> set es \<and> (\<forall>k. k \<notin> set es \<longrightarrow> map_of d' k = map_of d k)"
proof (induction es arbitrary: d)
  case Nil
  then show ?case by simp
next
  case (Cons e es)
  show ?case
  proof (cases "parse_line_event line e d")
    case (Inl err)
    with Cons.prems show ?thesis by auto
  next
    case (Inr d1)
    with Cons.prems have "parse_events line es d1 = (r, d')" by simp
    with Cons.IH have "dict_keys d' \<subseteq> dict_keys d1 \<union> set es \<and> (\<forall>k. k \<notin> set es \<longrightarrow> map_of d' k = map_of d1 k)" .
    with parse_line_event_frame [OF Inr] show ?thesis by auto
  qed
qed

lemma parse_perf_lines_frame:
  "parse_perf_lines ls es d = (r, d') \<Longrightarrow>
   dict_keys d' \<subseteq> dict_keys d \<union> set es \<and> (\<forall>k. k \<notin> set es \<longrightarrow> map_of d' k = map_of d k)"
proof (induction ls arbitrary: d)
  case Nil
  then show ?case by simp
next
  case (Cons l ls)
  obtain r1 d1 where p: "parse_events l es d = (r1, d1)" by fastforce
  note f1 = parse_events_frame [OF p]
  show ?case
  proof (cases r1)
    case None
    with Cons.prems p have "parse_perf_lines ls es d1 = (r, d')" by simp
    from Cons.IH [OF this] f1 show ?thesis by auto
  next
    case (Some err)
    with Cons.prems p f1 show ?thesis by simp
  qed
qed

lemma absorb_run_frame:
  "absorb_run run es d = (d', failed) \<Longrightarrow>
   dict_keys d' \<subseteq> dict_keys d \<union> set es \<and> (\<forall>k. k \<notin> set es \<longrightarrow> map_of d' k = map_of d k)"
  by (cases run) (auto simp: absorb_run_def parse_perf_output_def dest!: parse_perf_lines_frame split: prod.splits)

text \<open>A line whose second field names the counter: its value, or \<open>-1\<close>, or the exception.\<close>

text \<open>
  C7. A report line whose second field is the requested counter and that has no
  \<open>not supported\<close> marker sets the counter to the first field read as an integer,
  thousands separators removed.
\<close>

theorem parse_line_value:
  "py_split line = v # e # rest \<Longrightarrow> \<not> py_contains ''not supported'' line \<Longrightarrow>
   py_int (remove_commas v) = Inr n \<Longrightarrow> parse_line_event line e d = Inr (dict_set d e (PInt n))"
  by (simp add: parse_line_event_eq counter_value_def)

text \<open>
  C5. A report line whose second field is the requested counter and that contains the
  marker \<open>not supported\<close> sets the counter to \<open>-1\<close>.
\<close>

theorem parse_line_unsupported:
  "py_split line = v # e # rest \<Longrightarrow> py_contains ''not supported'' line \<Longrightarrow>
   parse_line_event line e d = Inr (dict_set d e (PInt (-1)))"
  by (simp add: parse_line_event_eq counter_value_def)

lemma parse_line_raises:
  "py_split line = v # e # rest \<Longrightarrow> \<not> py_contains ''not supported'' line \<Longrightarrow>
   py_int (remove_commas v) = Inl err \<Longrightarrow> parse_line_event line e d = Inl err"
  by (simp add: parse_line_event_eq counter_value_def)

lemma parse_line_other:
  "\<not> (2 \<le> length (py_split line) \<and> py_split line ! 1 = e) \<Longrightarrow> parse_line_event line e d = Inr d"
  by (auto simp: parse_line_event_eq Let_def)

text \<open>
  How \<open>perf stat\<close> prints a counter it cannot read: \<open><not supported>\<close> in the value column.
  The marker is two fields, so the counter's name is the third field and the test on the
  second field never selects the line.
\<close>

lemma split_not_supported_line:
  assumes "e \<noteq> []" "\<not> list_ex py_isspace e"
  shows "py_split (''  <not supported>  '' @ e) = [''<not'', ''supported>'', e]"
proof -
  have sp: "list_all py_isspace ''  ''" "list_all py_isspace '' ''" "py_isspace CHR '' ''"
    by (simp_all add: py_isspace_def)
  have ns: "\<not> list_ex py_isspace ''<not''" "\<not> list_ex py_isspace ''supported>''"
    by (simp_all add: py_isspace_def)
  have "''  <not supported>  '' @ e = ''  '' @ ''<not'' @ ('' supported>  '' @ e)" by simp
  moreover have "py_split (''  '' @ ''<not'' @ ('' supported>  '' @ e)) = ''<not'' # py_split ('' supported>  '' @ e)"
    using sp ns by (intro py_split_field) simp_all
  moreover have "'' supported>  '' @ e = '' '' @ ''supported>'' @ (''  '' @ e)" by simp
  moreover have "py_split ('' '' @ ''supported>'' @ (''  '' @ e)) = ''supported>'' # py_split (''  '' @ e)"
    using sp ns by (intro py_split_field) simp_all
  moreover have "py_split (''  '' @ e @ []) = e # py_split []"
    using sp assms by (intro py_split_field) simp_all
  moreover have "py_split [] = []" by (simp add: py_split_blank)
  ultimately show ?thesis by simp
qed

section \<open>The loop invariant\<close>

lemma py_trunc_nonneg [simp]: "0 \<le> x \<Longrightarrow> py_trunc x = \<lfloor>x\<rfloor>"
  by (simp add: py_trunc_def)

lemma new_item_ok:
  assumes "0 \<le> sts" "of_int sts \<le> c" "set header_fields \<subseteq> K"
  shows "sample_ok cn sts K (new_item cn sts c)"
proof -
  have c0: "0 \<le> c" using assms(1,2) by (meson of_int_0_le_iff order_trans)
  have "0 \<le> c - of_int sts" using assms(2) by simp
  then have "py_trunc (c - of_int sts) = \<lfloor>c\<rfloor> - sts" by simp
  moreover have "sts \<le> \<lfloor>c\<rfloor>" using assms(2) by (simp add: le_floor_iff)
  ultimately show ?thesis using assms(3) c0
    by (auto simp: sample_ok_def new_item_def header_fields_def)
qed

lemma absorb_run_ok:
  assumes "sample_ok cn sts K d" "set es \<subseteq> K" "set es \<inter> set header_fields = {}"
    and "absorb_run run es d = (d', failed)"
  shows "sample_ok cn sts K d'"
proof -
  note fr = absorb_run_frame [OF assms(4)]
  have hd: "\<And>k. k \<in> set header_fields \<Longrightarrow> map_of d' k = map_of d k"
    using fr assms(3) by blast
  have keys: "dict_keys d' \<subseteq> K" using fr assms(1,2) by (auto simp: sample_ok_def)
  show ?thesis using assms(1) keys hd [of "''case_name''"] hd [of "''ts''"] hd [of "''relative_ts''"]
    by (simp add: sample_ok_def header_fields_def)
qed

lemma sleep_until_ge: "now \<le> sleep_until wake now"
  by (simp add: sleep_until_def)

lemma group_in_catalog:
  "groups \<noteq> [] \<Longrightarrow> set (groups ! (i mod length groups)) \<subseteq> set (concat groups)"
proof -
  assume "groups \<noteq> []"
  then have "groups ! (i mod length groups) \<in> set groups" by simp
  then show ?thesis by auto
qed

lemma perf_step_inv:
  assumes ok: "perf_inv cn sts K i st" and sts: "0 \<le> sts"
    and ne: "groups \<noteq> []" and hK: "set header_fields \<union> set (concat groups) \<subseteq> K"
    and disj: "set (concat groups) \<inter> set header_fields = {}"
    and cost: "\<forall>j cmd. 0 \<le> snd (tool env j cmd)"
  shows "perf_inv cn sts K (Suc i) (perf_step env cn sudo pid sts groups st i)"
proof -
  let ?n = "length groups"
  let ?es = "groups ! (i mod ?n)"
  let ?st' = "perf_step env cn sudo pid sts groups st i"
  have item0: "sample_ok cn sts K (start_item cn sts ?n i st)"
  proof (cases "i mod ?n = 0")
    case True
    then show ?thesis using ok sts hK by (simp add: start_item_def perf_inv_def new_item_ok)
  next
    case False
    then have "0 < i" by (cases i) auto
    with False ok show ?thesis by (simp add: start_item_def perf_inv_def)
  qed
  have es: "set ?es \<subseteq> K" "set ?es \<inter> set header_fields = {}"
    using group_in_catalog [OF ne, of i] hK disj by auto
  have item: "sample_ok cn sts K (data_item ?st')"
    unfolding perf_step_item by (metis absorb_run_ok [OF item0 es] prod.collapse)
  have "of_int sts \<le> clock st" using ok by (simp add: perf_inv_def)
  also have "\<dots> \<le> clock st + snd (tool env i (perf_command sudo pid ?es))" using cost by simp
  also have "\<dots> \<le> clock ?st'" by (simp add: perf_step_clock sleep_until_ge)
  finally have clk: "of_int sts \<le> clock ?st'" .
  have "\<forall>s \<in> set (data ?st'). sample_ok cn sts K s"
    using ok item by (simp add: perf_step_data perf_inv_def)
  with item clk show ?thesis by (simp add: perf_inv_def)
qed

lemma perf_fold_inv:
  assumes "perf_inv cn sts K 0 st" "0 \<le> sts" "groups \<noteq> []"
    "set header_fields \<union> set (concat groups) \<subseteq> K"
    "set (concat groups) \<inter> set header_fields = {}"
    "\<forall>j cmd. 0 \<le> snd (tool env j cmd)"
  shows "perf_inv cn sts K m (foldl (perf_step env cn sudo pid sts groups) st [0..<m])"
proof (induction m)
  case 0
  then show ?case using assms(1) by simp
next
  case (Suc m)
  then show ?case using perf_step_inv [OF Suc assms(2-6)] by simp
qed

section \<open>The monitor\<close>

lemma catalog_groups:
  assumes "get_perf_event_table u = Inr (evs, tbl)"
  shows "split_events evs 4 = Inr (chunks 4 evs) \<and> chunks 4 evs \<noteq> [] \<and> concat (chunks 4 evs) = evs
         \<and> length (chunks 4 evs) = (length evs + 3) div 4"
proof -
  have ok: "catalog_ok evs" using get_perf_event_table_ok [OF assms] .
  then have "evs \<noteq> []" by (simp add: catalog_ok_def)
  then have "chunks 4 evs \<noteq> []" by (simp add: chunks.simps [of 4 evs])
  then show ?thesis by (simp add: split_events_chunks length_chunks)
qed

lemma monitor_perf_unfold:
  assumes "get_perf_event_table (uname_out env) = Inr (evs, tbl)"
  shows "monitor_perf env pid duration cn save_local sudo =
    (let st = foldl (perf_step env cn sudo pid (py_trunc (start_time env)) (chunks 4 evs))
                (perf_init (start_time env)) [0..<nat (duration div 3)] in
     case save_samples (perf_lark env) (perf_resp env) (perf_enum env) save_local (data st)
            tbl (''result/'' @ cn @ ''_perf_data.csv'') of
       Inl e \<Rightarrow> Inl e
     | Inr s \<Rightarrow> Inr (data st, s))"
  using catalog_groups [OF assms] assms
  by (simp add: monitor_perf_def perf_loop_fold Let_def)

lemma monitor_perf_data:
  assumes "get_perf_event_table (uname_out env) = Inr (evs, tbl)"
    and "monitor_perf env pid duration cn save_local sudo = Inr (ds, snk)"
  shows "ds = data (foldl (perf_step env cn sudo pid (py_trunc (start_time env)) (chunks 4 evs))
                (perf_init (start_time env)) [0..<nat (duration div 3)])"
  using assms(2) by (simp add: monitor_perf_unfold [OF assms(1)] Let_def split: sum.splits)

lemma perf_inv_init: "0 \<le> t \<Longrightarrow> perf_inv cn (py_trunc t) K 0 (perf_init t)"
  by (simp add: perf_inv_def perf_init_def)

section \<open>Timing of the ticks\<close>

text \<open>
  When the work of a tick takes at most two seconds, every tick after the first starts on
  its boundary \<open>start_ts + 3 * i\<close>: the sleep absorbs the rest of the three seconds.
\<close>

lemma perf_fold_clock:
  assumes t0: "0 \<le> t0" and cost: "\<forall>j cmd. 0 \<le> snd (tool env j cmd) \<and> snd (tool env j cmd) \<le> 2"
  shows "clock (foldl (perf_step env cn sudo pid (py_trunc t0) groups) (perf_init t0) [0..<Suc m])
         = of_int (py_trunc t0) + 3 * (of_nat m + 1)"
proof (induction m)
  case 0
  have "t0 < of_int \<lfloor>t0\<rfloor> + 1" by (rule floor_correct [THEN conjunct2, simplified])
  moreover have "snd (tool env 0 (perf_command sudo pid (groups ! (0 mod length groups)))) \<le> 2"
    using cost by blast
  ultimately show ?case using t0
    by (simp add: perf_step_clock sleep_until_def perf_init_def)
next
  case (Suc m)
  have "snd (tool env (Suc m) (perf_command sudo pid (groups ! (Suc m mod length groups)))) \<le> 2"
    using cost by blast
  with Suc show ?case by (simp add: perf_step_clock sleep_until_def)
qed

lemma py_trunc_tick: "0 \<le> sts \<Longrightarrow> py_trunc (of_int sts + 3 * (of_nat m + 1)) = sts + 3 * (int m + 1)"
proof -
  assume "0 \<le> sts"
  have e: "(of_int sts + 3 * (of_nat m + 1) :: rat) = of_int (sts + 3 * (int m + 1))" by simp
  show ?thesis by (subst e, rule py_trunc_of_int) (use \<open>0 \<le> sts\<close> in simp)
qed

text \<open>The start of tick \<open>m\<close> read as an integer timestamp.\<close>

lemma perf_fold_tick_ts:
  assumes "0 \<le> t0" "\<forall>j cmd. 0 \<le> snd (tool env j cmd) \<and> snd (tool env j cmd) \<le> 2"
  shows "py_trunc (clock (foldl (perf_step env cn sudo pid (py_trunc t0) groups) (perf_init t0) [0..<m]))
         = py_trunc t0 + 3 * int m"
proof (cases m)
  case 0
  then show ?thesis by (simp add: perf_init_def)
next
  case (Suc m')
  have "0 \<le> py_trunc t0" using assms(1) by simp
  have c: "clock (foldl (perf_step env cn sudo pid (py_trunc t0) groups) (perf_init t0) [0..<Suc m'])
         = of_int (py_trunc t0) + 3 * (of_nat m' + 1)" by (rule perf_fold_clock [OF assms])
  show ?thesis unfolding Suc c using py_trunc_tick [OF \<open>0 \<le> py_trunc t0\<close>, of m'] by simp
qed

lemma absorb_run_keeps:
  "k \<notin> set es \<Longrightarrow> map_of (fst (absorb_run run es d)) k = map_of d k"
  using absorb_run_frame [of run es d "fst (absorb_run run es d)" "snd (absorb_run run es d)"] by simp

lemma perf_fold_ts:
  fixes cn :: string and sudo :: bool and pid :: int
  assumes t0: "0 \<le> t0" and cost: "\<forall>j cmd. 0 \<le> snd (tool env j cmd) \<and> snd (tool env j cmd) \<le> 2"
    and ne: "groups \<noteq> []" and disj: "''ts'' \<notin> set (concat groups)"
  defines "F \<equiv> \<lambda>m. foldl (perf_step env cn sudo pid (py_trunc t0) groups) (perf_init t0) [0..<m]"
    and "n \<equiv> length groups"
  shows "map (\<lambda>s. map_of s ''ts'') (data (F m))
           = map (\<lambda>k. Some (PInt (py_trunc t0 + 3 * int n * int k))) [0..<m div n]
         \<and> (0 < m \<longrightarrow> map_of (data_item (F m)) ''ts'' = Some (PInt (py_trunc t0 + 3 * int n * int ((m - 1) div n))))"
proof (induction m)
  case 0
  then show ?case by (simp add: F_def perf_init_def)
next
  case (Suc m)
  let ?sts = "py_trunc t0"
  have n0: "0 < n" using ne by (simp add: n_def)
  have FS: "F (Suc m) = perf_step env cn sudo pid ?sts groups (F m) m" by (simp add: F_def)
  let ?es = "groups ! (m mod n)"
  have "?es \<in> set groups" using n0 by (simp add: n_def)
  then have nots: "''ts'' \<notin> set ?es" using disj by auto
  have start: "map_of (start_item cn ?sts n m (F m)) ''ts'' = Some (PInt (?sts + 3 * int n * int (m div n)))"
  proof (cases "m mod n = 0")
    case True
    have "py_trunc (clock (F m)) = ?sts + 3 * int m" unfolding F_def by (rule perf_fold_tick_ts [OF t0 cost])
    moreover have "int m = int n * int (m div n)" using True by (rule int_mod_zero_mult)
    ultimately show ?thesis using True by (simp add: start_item_def new_item_def)
  next
    case False
    then have "0 < m" by (cases m) auto
    moreover have "(m - 1) div n = m div n" using False \<open>0 < m\<close> div_Suc [of "m - 1" n] by simp
    ultimately show ?thesis using Suc.IH False by (simp add: start_item_def)
  qed
  have item: "map_of (data_item (F (Suc m))) ''ts'' = Some (PInt (?sts + 3 * int n * int (m div n)))"
    using start absorb_run_keeps [OF nots] by (simp add: FS perf_step_item n_def)
  show ?case
  proof (cases "Suc m mod n = 0")
    case True
    then have "Suc m div n = Suc (m div n)" by (simp add: div_Suc)
    then have "[0..<Suc m div n] = [0..<m div n] @ [m div n]" by simp
    with True Suc.IH item show ?thesis by (simp add: FS perf_step_data n_def)
  next
    case False
    then have "Suc m div n = m div n" by (simp add: div_Suc)
    with False Suc.IH item show ?thesis by (simp add: FS perf_step_data n_def)
  qed
qed

lemma demo_perf_table: "get_perf_event_table (uname_out demo_perf_env) = Inr (arm_events, ''tblUJJDqxHS4TqHR'')"
  by (simp add: demo_perf_env_def get_perf_event_table_def get_architecture_def bytes_strip_def
      bytes_isspace_def)

text \<open>
  C1. The number of composite samples \<open>monitor_perf\<close> returns for a duration of \<open>D\<close>
  seconds and a catalog of \<open>N\<close> counters is \<open>floor((D // 3) / ceil(N / 4))\<close>: one per full
  rotation through the groups of four; a trailing partial rotation is dropped.
\<close>

theorem monitor_perf_sample_count:
  assumes "get_perf_event_table (uname_out env) = Inr (evs, tbl)"
    and "monitor_perf env pid duration cn save_local sudo = Inr (ds, snk)"
  shows "length ds = nat (duration div 3) div ((length evs + 3) div 4)"
proof -
  have g: "chunks 4 evs \<noteq> []" "length (chunks 4 evs) = (length evs + 3) div 4"
    using catalog_groups [OF assms(1)] by simp_all
  show ?thesis
    using monitor_perf_data [OF assms] perf_fold_length [OF g(1)] g(2) by (simp add: perf_init_def)
qed

text \<open>The scenario of the specification: 9 counters, duration 12, so exactly one sample.\<close>

theorem monitor_perf_sample_count_witness:
  "\<exists>ds snk. monitor_perf demo_perf_env 0 12 ''c'' False False = Inr (ds, snk) \<and> length ds = 1"
proof -
  have ev: "case monitor_perf demo_perf_env 0 12 ''c'' False False of Inr (ds, snk) \<Rightarrow> True | Inl _ \<Rightarrow> False"
    by code_simp
  then obtain ds snk where r: "monitor_perf demo_perf_env 0 12 ''c'' False False = Inr (ds, snk)"
    by (auto split: sum.splits)
  have "length ds = nat (12 div 3) div ((length arm_events + 3) div 4)"
    by (rule monitor_perf_sample_count [OF demo_perf_table r])
  then have "length ds = 1" by (simp add: catalog_defs)
  with r show ?thesis by blast
qed

text \<open>
  C2. When the clock does not run backwards, every sample \<open>monitor_perf\<close> returns carries
  the run's case name, only header fields and counters of the catalog as keys, and a
  relative timestamp equal to its timestamp minus the run's start, which is not negative.
\<close>

theorem monitor_perf_samples_ok:
  assumes "get_perf_event_table (uname_out env) = Inr (evs, tbl)"
    and "monitor_perf env pid duration cn save_local sudo = Inr (ds, snk)"
    and "0 \<le> start_time env" and "\<forall>j cmd. 0 \<le> snd (tool env j cmd)"
  shows "\<forall>s \<in> set ds. sample_ok cn (py_trunc (start_time env)) (set header_fields \<union> set evs) s"
proof -
  have g: "chunks 4 evs \<noteq> []" "concat (chunks 4 evs) = evs"
    using catalog_groups [OF assms(1)] by simp_all
  have disj: "set evs \<inter> set header_fields = {}"
    using get_perf_event_table_ok [OF assms(1)] by (simp add: catalog_ok_def)
  have sts: "0 \<le> py_trunc (start_time env)" using assms(3) by simp
  have "perf_inv cn (py_trunc (start_time env)) (set header_fields \<union> set evs) (nat (duration div 3))
          (foldl (perf_step env cn sudo pid (py_trunc (start_time env)) (chunks 4 evs))
             (perf_init (start_time env)) [0..<nat (duration div 3)])"
    using perf_inv_init [OF assms(3)] sts g disj assms(4) by (intro perf_fold_inv) auto
  then show ?thesis by (simp add: monitor_perf_data [OF assms(1,2)] perf_inv_def)
qed

theorem monitor_perf_samples_ok_witness:
  "\<exists>ds snk. monitor_perf demo_perf_env 0 12 ''c'' False False = Inr (ds, snk) \<and>
     (\<forall>s \<in> set ds. sample_ok ''c'' 1000 (set header_fields \<union> set arm_events) s)"
proof -
  have ev: "case monitor_perf demo_perf_env 0 12 ''c'' False False of Inr (ds, snk) \<Rightarrow> True | Inl _ \<Rightarrow> False"
    by code_simp
  then obtain ds snk where r: "monitor_perf demo_perf_env 0 12 ''c'' False False = Inr (ds, snk)"
    by (auto split: sum.splits)
  have h: "0 \<le> start_time demo_perf_env" "\<forall>j cmd. 0 \<le> snd (tool demo_perf_env j cmd)"
    by (simp_all add: demo_perf_env_def)
  have "py_trunc (start_time demo_perf_env) = 1000" by (simp add: demo_perf_env_def)
  with monitor_perf_samples_ok [OF demo_perf_table r h] r show ?thesis by auto
qed

text \<open>
  C3. When the work of every tick takes between zero and two seconds, the ticks stay on
  the three-second grid: the \<open>k\<close>-th composite sample is stamped \<open>start_ts + 3 * G * k\<close>,
  with \<open>G\<close> the number of counter groups, so samples are one rotation apart.
\<close>

theorem monitor_perf_tick_aligned:
  assumes "get_perf_event_table (uname_out env) = Inr (evs, tbl)"
    and "monitor_perf env pid duration cn save_local sudo = Inr (ds, snk)"
    and "0 \<le> start_time env"
    and "\<forall>j cmd. 0 \<le> snd (tool env j cmd) \<and> snd (tool env j cmd) \<le> 2"
  shows "map (\<lambda>s. map_of s ''ts'') ds =
         map (\<lambda>k. Some (PInt (py_trunc (start_time env) + 3 * int ((length evs + 3) div 4) * int k)))
           [0..<length ds]"
proof -
  have g: "chunks 4 evs \<noteq> []" "concat (chunks 4 evs) = evs" "length (chunks 4 evs) = (length evs + 3) div 4"
    using catalog_groups [OF assms(1)] by simp_all
  have "''ts'' \<notin> set evs"
    using get_perf_event_table_ok [OF assms(1)] by (auto simp: catalog_ok_def header_fields_def)
  then have nts: "''ts'' \<notin> set (concat (chunks 4 evs))" using g(2) by simp
  note ts = perf_fold_ts [OF assms(3,4) g(1) nts, of cn sudo pid "nat (duration div 3)", THEN conjunct1]
  have ds: "ds = data (foldl (perf_step env cn sudo pid (py_trunc (start_time env)) (chunks 4 evs))
                (perf_init (start_time env)) [0..<nat (duration div 3)])"
    by (rule monitor_perf_data [OF assms(1,2)])
  from ts have "length ds = nat (duration div 3) div length (chunks 4 evs)"
    unfolding ds by (metis length_map length_upt minus_nat.diff_0)
  with ts g(3) show ?thesis unfolding ds by simp
qed

theorem monitor_perf_tick_aligned_witness:
  "\<exists>ds snk. monitor_perf demo_perf_env 0 24 ''c'' False False = Inr (ds, snk) \<and>
     map (\<lambda>s. map_of s ''ts'') ds = [Some (PInt 1000), Some (PInt 1009)]"
proof -
  have ev: "case monitor_perf demo_perf_env 0 24 ''c'' False False of Inr (ds, snk) \<Rightarrow> length ds = 2 | Inl _ \<Rightarrow> False"
    by code_simp
  then obtain ds snk where r: "monitor_perf demo_perf_env 0 24 ''c'' False False = Inr (ds, snk)"
    and l: "length ds = 2"
    by (auto split: sum.splits)
  have h: "0 \<le> start_time demo_perf_env"
    "\<forall>j cmd. 0 \<le> snd (tool demo_perf_env j cmd) \<and> snd (tool demo_perf_env j cmd) \<le> 2"
    by (simp_all add: demo_perf_env_def)
  have "py_trunc (start_time demo_perf_env) = 1000" by (simp add: demo_perf_env_def)
  with monitor_perf_tick_aligned [OF demo_perf_table r h] l r show ?thesis
    by (simp add: catalog_defs upt_rec)
qed

section \<open>Claims on the parser and the tick\<close>

theorem split_events_partition_witness:
  "concat (chunks 4 x86_events) = x86_events \<and> length (chunks 4 x86_events) = 4
   \<and> map length (chunks 4 x86_events) = [4, 4, 4, 2]"
proof -
  have "concat (chunks 4 x86_events) = x86_events \<and>
        length (chunks 4 x86_events) = (length x86_events + nat 4 - 1) div nat 4"
    using split_events_partition [of 4 x86_events "chunks 4 x86_events"]
    by (simp add: split_events_chunks)
  moreover have "map length (chunks 4 x86_events) = [4, 4, 4, 2]"
    by (simp add: chunks.simps [of 4] catalog_defs)
  ultimately show ?thesis by (simp add: catalog_defs)
qed

theorem parse_line_value_witness:
  "parse_line_event ''   1,234,567      instructions   #  0.50 insn per cycle'' ''instructions'' []
     = Inr [(''instructions'', PInt 1234567)]"
proof -
  have s: "py_split ''   1,234,567      instructions   #  0.50 insn per cycle''
      = ''1,234,567'' # ''instructions'' # [''#'', ''0.50'', ''insn'', ''per'', ''cycle'']"
    by (simp add: py_split.simps py_isspace_def)
  have c: "\<not> py_contains ''not supported'' ''   1,234,567      instructions   #  0.50 insn per cycle''"
    by (simp add: py_contains_iff) (simp add: Cons_eq_append_conv append_eq_Cons_conv)
  have v: "py_int (remove_commas ''1,234,567'') = Inr 1234567"
    by (simp add: py_int_def remove_commas_def py_strip_def py_isspace_def unsigned_int_def
        py_isdigit_def digit_val_def)
  show ?thesis using parse_line_value [OF s c v] by simp
qed

theorem parse_line_unsupported_witness:
  "parse_line_event ''0 cycles (not supported)'' ''cycles'' [] = Inr [(''cycles'', PInt (-1))]"
proof -
  have s: "py_split ''0 cycles (not supported)'' = ''0'' # ''cycles'' # [''(not'', ''supported)'']"
    by (simp add: py_split.simps py_isspace_def)
  have c: "py_contains ''not supported'' ''0 cycles (not supported)''"
    by simp
  show ?thesis using parse_line_unsupported [OF s c] by simp
qed

text \<open>
  C6. \<open>perf stat\<close> prints a counter it cannot read as \<open><not supported>\<close> followed by the
  counter's name. Such a line leaves the sample unchanged: the counter gets no value at
  all, not \<open>-1\<close>, because the marker occupies the first two fields.
\<close>

theorem not_supported_line_dropped:
  assumes "e \<noteq> []" "\<not> list_ex py_isspace e" "e \<noteq> ''supported>''"
  shows "parse_line_event (''  <not supported>  '' @ e) e d = Inr d"
  using split_not_supported_line [OF assms(1,2)] assms(3) by (simp add: parse_line_event_eq)

theorem not_supported_line_dropped_witness:
  "parse_line_event (''  <not supported>  '' @ ''cycles'') ''cycles'' [] = Inr []"
  using not_supported_line_dropped [of "''cycles''" "[]"] by (simp add: py_isspace_def)

text \<open>
  C8. A tick whose tool cannot be spawned is logged and leaves the sample being assembled
  as it was at the start of the tick; the loop goes on with the next tick.
\<close>

theorem perf_step_spawn_failed:
  assumes "groups \<noteq> []"
    and "fst (tool env i (perf_command sudo pid (groups ! (i mod length groups)))) = SpawnFailed"
  shows "data_item (perf_step env cn sudo pid sts groups st i) = start_item cn sts (length groups) i st
         \<and> errors (perf_step env cn sudo pid sts groups st i) = errors st @ [i]
         \<and> perf_tick env cn sudo pid sts groups st i = Inr (perf_step env cn sudo pid sts groups st i)"
proof -
  obtain c where t: "tool env i (perf_command sudo pid (groups ! (i mod length groups))) = (SpawnFailed, c)"
    using assms(2) by (metis prod.collapse)
  show ?thesis using assms(1) by (simp add: perf_step_def perf_tick_def absorb_run_def Let_def t)
qed

theorem perf_step_spawn_failed_witness:
  "data_item (perf_step (demo_perf_env\<lparr>tool := (\<lambda>i c. (SpawnFailed, 1))\<rparr>) ''c'' False 0 1000 [[''cycles'']] (perf_init 1000) 0)
     = start_item ''c'' 1000 1 0 (perf_init 1000)
   \<and> errors (perf_step (demo_perf_env\<lparr>tool := (\<lambda>i c. (SpawnFailed, 1))\<rparr>) ''c'' False 0 1000 [[''cycles'']] (perf_init 1000) 0) = [0]
   \<and> perf_tick (demo_perf_env\<lparr>tool := (\<lambda>i c. (SpawnFailed, 1))\<rparr>) ''c'' False 0 1000 [[''cycles'']] (perf_init 1000) 0
       = Inr (perf_step (demo_perf_env\<lparr>tool := (\<lambda>i c. (SpawnFailed, 1))\<rparr>) ''c'' False 0 1000 [[''cycles'']] (perf_init 1000) 0)"
  using perf_step_spawn_failed [of "[[''cycles'']]" "demo_perf_env\<lparr>tool := (\<lambda>i c. (SpawnFailed, 1))\<rparr>" 0 False 0 "''c''" 1000 "perf_init 1000"]
  by (simp add: perf_init_def)

section \<open>Claims on the command line\<close>

lemma event_args_simps [simp]:
  "event_args [] = []" "event_args (e # es) = ''-e'' # e # event_args es"
  by (simp_all add: event_args_def)

lemma event_args_nth:
  "k < length evs \<Longrightarrow> event_args evs ! (2 * k) = ''-e'' \<and> event_args evs ! (2 * k + 1) = evs ! k"
proof (induction evs arbitrary: k)
  case Nil
  then show ?case by simp
next
  case (Cons e es)
  then show ?case by (cases k) simp_all
qed

lemma length_event_args [simp]: "length (event_args evs) = 2 * length evs"
  by (induction evs) simp_all



section \<open>The report parser refines its specification\<close>

lemma parse_line_event_spec:
  "parse_line_event l e d = Inr d' \<Longrightarrow>
   map_of d' k = (if k = e \<and> line_names e l then map_option PInt (line_reading l) else map_of d k)"
  by (auto simp: parse_line_event_eq counter_value_def line_names_def line_reading_def Let_def
      split: if_splits sum.splits)

lemma parse_events_spec:
  "parse_events l evs d = (None, d') \<Longrightarrow>
   map_of d' k = (if k \<in> set evs \<and> line_names k l then map_option PInt (line_reading l) else map_of d k)"
proof (induction evs arbitrary: d)
  case Nil
  then show ?case by simp
next
  case (Cons e es)
  then obtain d1 where d1: "parse_line_event l e d = Inr d1" and r: "parse_events l es d1 = (None, d')"
    by (cases "parse_line_event l e d") auto
  show ?case using Cons.IH [OF r] parse_line_event_spec [OF d1, of k] by auto
qed

lemma spec_counter_Cons:
  "spec_counter (l # ls) e =
     (if filter (line_names e) ls \<noteq> [] then spec_counter ls e
      else if line_names e l then line_reading l else None)"
  by (auto simp: spec_counter_def split: list.splits)

text \<open>
  C30. When no line raises, the nested loops of the perf parser implement the
  specification: a requested counter named by some line takes the reading of the last such
  line, and every other key keeps its value.
\<close>

theorem parse_perf_lines_refines:
  "parse_perf_lines ls evs d = (None, d') \<Longrightarrow>
   map_of d' k = (if k \<in> set evs \<and> filter (line_names k) ls \<noteq> []
                  then map_option PInt (spec_counter ls k) else map_of d k)"
proof (induction ls arbitrary: d)
  case Nil
  then show ?case by simp
next
  case (Cons l ls)
  then obtain d1 where d1: "parse_events l evs d = (None, d1)" and r: "parse_perf_lines ls evs d1 = (None, d')"
    by (cases "parse_events l evs d") (auto split: option.splits)
  show ?case using Cons.IH [OF r] parse_events_spec [OF d1, of k] by (auto simp: spec_counter_Cons)
qed

theorem parse_perf_lines_refines_witness:
  "parse_perf_lines [''      1,234      l1i_cache'', ''          7      l1d_cache'', ''          5      l1i_cache'']
      [''l1i_cache'', ''l1d_cache''] []
     = (None, [(''l1i_cache'', PInt 5), (''l1d_cache'', PInt 7)])
   \<and> map_of [(''l1i_cache'', PInt 5), (''l1d_cache'', PInt 7)] ''l1i_cache''
     = map_option PInt (spec_counter [''      1,234      l1i_cache'', ''          7      l1d_cache'',
         ''          5      l1i_cache''] ''l1i_cache'')"
proof -
  have p: "parse_perf_lines [''      1,234      l1i_cache'', ''          7      l1d_cache'', ''          5      l1i_cache'']
      [''l1i_cache'', ''l1d_cache''] [] = (None, [(''l1i_cache'', PInt 5), (''l1d_cache'', PInt 7)])"
    by code_simp
  have n: "filter (line_names ''l1i_cache'') [''      1,234      l1i_cache'', ''          7      l1d_cache'',
      ''          5      l1i_cache''] \<noteq> []" by code_simp
  show ?thesis using parse_perf_lines_refines [OF p, of "''l1i_cache''"] n p by simp
qed

section \<open>The loop implements the rotation\<close>

text \<open>
  Within a rotation no sample is appended; the data item at tick \<open>k n + j\<close> is the fresh
  sample of the rotation after the groups \<open>0 .. j - 1\<close>; a trailing partial rotation
  leaves the samples as they were.
\<close>

lemma perf_fold_clock_spec:
  "clock (foldl (perf_step env cn sudo pid sts groups) st [0..<i]) = perf_clock env sudo pid sts groups (clock st) i"
  by (induction i) (simp_all add: perf_step_clock)

lemma perf_fold_item_rotation:
  assumes "groups \<noteq> []" "0 < j" "j \<le> length groups"
  shows "data_item (foldl (perf_step env cn sudo pid sts groups) st [0..<k * length groups + j])
       = foldl (group_run env sudo pid groups k)
           (new_item cn sts (clock (foldl (perf_step env cn sudo pid sts groups) st [0..<k * length groups])))
           [0..<j]"
  using assms
proof (induction j)
  case 0
  then show ?case by simp
next
  case (Suc j)
  show ?case
  proof (cases j)
    case 0
    then show ?thesis
      by (simp add: perf_step_item start_item_def group_run_def)
  next
    case (Suc j')
    have j0: "0 < j" using Suc by simp
    have m: "(k * length groups + j) mod length groups = j" "j < length groups"
      using Suc.prems by simp_all
    have ih: "data_item (foldl (perf_step env cn sudo pid sts groups) st [0..<k * length groups + j])
       = foldl (group_run env sudo pid groups k)
           (new_item cn sts (clock (foldl (perf_step env cn sudo pid sts groups) st [0..<k * length groups])))
           [0..<j]"
      using Suc.IH Suc.prems j0 by simp
    have g: "group_run env sudo pid groups k x j =
        fst (absorb_run (fst (tool env (k * length groups + j) (perf_command sudo pid (groups ! j))))
                        (groups ! j) x)" for x
      by (simp add: group_run_def)
    have "k * length groups + Suc j = Suc (k * length groups + j)" by simp
    then show ?thesis
      using m ih j0 by (simp only: upt_Suc foldl_append) (simp add: perf_step_item start_item_def g)
  qed
qed

lemma perf_fold_data_within:
  assumes "groups \<noteq> []" "j < length groups"
  shows "data (foldl (perf_step env cn sudo pid sts groups) st [0..<k * length groups + j])
       = data (foldl (perf_step env cn sudo pid sts groups) st [0..<k * length groups])"
  using assms
proof (induction j)
  case 0
  then show ?case by simp
next
  case (Suc j)
  have "(k * length groups + j + 1) mod length groups \<noteq> 0"
    using Suc.prems by (simp add: mod_add_left_eq [symmetric])
  then show ?case using Suc by (simp add: perf_step_data)
qed

lemma perf_fold_data_drop:
  assumes "groups \<noteq> []"
  shows "data (foldl (perf_step env cn sudo pid sts groups) st [0..<m])
       = data (foldl (perf_step env cn sudo pid sts groups) st [0..<m div length groups * length groups])"
proof -
  have "data (foldl (perf_step env cn sudo pid sts groups) st
                [0..<m div length groups * length groups + m mod length groups])
      = data (foldl (perf_step env cn sudo pid sts groups) st [0..<m div length groups * length groups])"
    by (rule perf_fold_data_within [OF assms]) (simp add: assms)
  then show ?thesis by simp
qed

lemma perf_fold_data_rotations:
  assumes "groups \<noteq> []"
  shows "data (foldl (perf_step env cn sudo pid sts groups) st [0..<k * length groups])
       = data st @ map (\<lambda>k'. foldl (group_run env sudo pid groups k')
             (new_item cn sts (clock (foldl (perf_step env cn sudo pid sts groups) st [0..<k' * length groups])))
             [0..<length groups]) [0..<k]"
proof (induction k)
  case 0
  then show ?case by simp
next
  case (Suc k)
  define n where "n = length groups"
  have n: "0 < n" using assms by (simp add: n_def)
  have e: "k * n + n = Suc (k * n + (n - 1))" using n by simp
  have w: "data (foldl (perf_step env cn sudo pid sts groups) st [0..<k * n + (n - 1)])
         = data (foldl (perf_step env cn sudo pid sts groups) st [0..<k * n])"
    unfolding n_def by (rule perf_fold_data_within [OF assms]) (simp add: assms)
  have it: "data_item (foldl (perf_step env cn sudo pid sts groups) st [0..<k * n + n])
         = foldl (group_run env sudo pid groups k)
             (new_item cn sts (clock (foldl (perf_step env cn sudo pid sts groups) st [0..<k * n])))
             [0..<n]"
    unfolding n_def by (rule perf_fold_item_rotation [OF assms]) (simp_all add: assms)
  have md: "Suc (k * n + (n - 1)) mod n = 0" unfolding e [symmetric] by simp
  have "data (foldl (perf_step env cn sudo pid sts groups) st [0..<k * n + n])
         = data (foldl (perf_step env cn sudo pid sts groups) st [0..<k * n]) @
           [data_item (foldl (perf_step env cn sudo pid sts groups) st [0..<k * n + n])]"
    unfolding e using w md by (simp only: upt_Suc foldl_append) (simp add: perf_step_data n_def)
  moreover have "Suc k * n = k * n + n" by simp
  ultimately show ?case using Suc.IH it by (simp only: n_def) simp
qed

text \<open>
  C32. \<open>monitor_perf\<close> implements the rotation of the specification: the samples it returns
  are the composite samples \<open>0, 1, ...\<close> of the full rotations, each a fresh sample stamped
  at the start of its rotation into which the reports of the groups are absorbed in order.
\<close>

theorem monitor_perf_rotations:
  assumes "get_perf_event_table (uname_out env) = Inr (evs, tbl)"
    and "monitor_perf env pid duration cn save_local sudo = Inr (ds, snk)"
  shows "ds = map (composite_sample env cn sudo pid (py_trunc (start_time env)) (chunks 4 evs) (start_time env))
                  [0..<nat (duration div 3) div length (chunks 4 evs)]"
proof -
  let ?g = "chunks 4 evs" and ?m = "nat (duration div 3)"
  let ?F = "\<lambda>m. foldl (perf_step env cn sudo pid (py_trunc (start_time env)) ?g) (perf_init (start_time env)) [0..<m]"
  have ne: "?g \<noteq> []" using catalog_groups [OF assms(1)] by simp
  have "ds = data (?F ?m)" by (rule monitor_perf_data [OF assms])
  also have "\<dots> = data (?F (?m div length ?g * length ?g))"
    by (rule perf_fold_data_drop [OF ne])
  also have "\<dots> = map (composite_sample env cn sudo pid (py_trunc (start_time env)) ?g (start_time env))
                  [0..<?m div length ?g]"
    by (simp add: perf_fold_data_rotations [OF ne] perf_fold_clock_spec composite_sample_def perf_init_def)
  finally show ?thesis .
qed

theorem monitor_perf_rotations_witness:
  "\<exists>ds snk. monitor_perf demo_rotation_env 0 12 ''c'' False False = Inr (ds, snk) \<and>
     ds = [[(''case_name'', PStr ''c''), (''ts'', PInt 1000), (''relative_ts'', PInt 0),
            (''l1i_cache'', PInt 0), (''l2i_cache'', PInt 1), (''branch-misses'', PInt 2)]]"
proof -
  have tbl: "get_perf_event_table (uname_out demo_rotation_env) = Inr (arm_events, ''tblUJJDqxHS4TqHR'')"
    using demo_perf_table by (simp add: demo_rotation_env_def)
  have ev: "case monitor_perf demo_rotation_env 0 12 ''c'' False False of Inr (ds, snk) \<Rightarrow> True | Inl _ \<Rightarrow> False"
    by code_simp
  then obtain ds snk where r: "monitor_perf demo_rotation_env 0 12 ''c'' False False = Inr (ds, snk)"
    by (auto split: sum.splits)
  have "ds = map (composite_sample demo_rotation_env ''c'' False 0 (py_trunc (start_time demo_rotation_env))
                    (chunks 4 arm_events) (start_time demo_rotation_env))
               [0..<nat (12 div 3) div length (chunks 4 arm_events)]"
    by (rule monitor_perf_rotations [OF tbl r])
  also have "\<dots> = [[(''case_name'', PStr ''c''), (''ts'', PInt 1000), (''relative_ts'', PInt 0),
            (''l1i_cache'', PInt 0), (''l2i_cache'', PInt 1), (''branch-misses'', PInt 2)]]"
    by code_simp
  finally show ?thesis using r by blast
qed

end
