(* ===== verification/Usage.thy ===== *)
theory Usage
  imports Perf
begin

text \<open>
  The resource-usage monitor of \<open>src/metric.py\<close>: \<open>monitor_system_usage\<close> takes one sample
  per second for \<open>duration\<close> seconds (CPU cores in use, CPU percent, memory used and its
  percent) and sends them to the table \<open>tblNpZMhfepLIIqa\<close> or to a CSV file. The readings of
  \<open>psutil\<close> and the time each tick's probe takes are inputs of the model; the probe time
  counts from the start of the tick to the \<open>time.time()\<close> that stamps the sample (the
  \<open>interval=0.95\<close> of \<open>cpu_percent\<close> included), and the second \<open>time.time()\<close> of the tick,
  a few statements later, is taken to read the same instant.
\<close>

section \<open>The sampling loop\<close>

record usage_env =
  usage_start :: rat                          \<comment> \<open>\<open>start_ts = time.time()\<close>, not truncated\<close>
  usage_cpus :: "int option"                  \<comment> \<open>\<open>psutil.cpu_count()\<close>\<close>
  cpu_percent :: "nat \<Rightarrow> rat"                 \<comment> \<open>\<open>psutil.cpu_percent(interval=0.95)\<close> in tick \<open>i\<close>\<close>
  virtual_memory :: "nat \<Rightarrow> int \<times> rat"        \<comment> \<open>\<open>mem.used\<close> in bytes and \<open>mem.percent\<close>\<close>
  probe_time :: "nat \<Rightarrow> rat"
  usage_lark :: lark_env
  usage_resp :: "nat \<Rightarrow> http_response"
  usage_enum :: "string set \<Rightarrow> string list"

record usage_state =
  usage_data :: "row list"
  usage_clock :: rat

text \<open>The dict appended in one tick, stamped at \<open>ts\<close>.\<close>

definition usage_sample :: "string \<Rightarrow> rat \<Rightarrow> rat \<Rightarrow> int \<Rightarrow> rat \<Rightarrow> int \<times> rat \<Rightarrow> row" where
  "usage_sample case_name start_ts ts cpus pct mem =
     [(''case_name'', PStr case_name), (''ts'', PInt (py_trunc ts)),
      (''relative_ts'', PInt (py_trunc (ts - start_ts))),
      (''cpu_usage'', PFloat (of_int cpus * (pct / 100))), (''cpu_percent'', PFloat pct),
      (''mem_usage'', PFloat (of_int (fst mem) / (1024 * 1024))), (''mem_percent'', PFloat (snd mem))]"

text \<open>
  One iteration for tick \<open>i\<close> on a host that reports \<open>cpus\<close> CPUs: probe, stamp, append,
  then sleep until \<open>start_ts + i + 1\<close> if that is still ahead.
\<close>

definition usage_step :: "usage_env \<Rightarrow> int \<Rightarrow> string \<Rightarrow> usage_state \<Rightarrow> nat \<Rightarrow> usage_state" where
  "usage_step env cpus case_name st i =
     (let ts = usage_clock st + probe_time env i
      in \<lparr>usage_data = usage_data st @
            [usage_sample case_name (usage_start env) ts cpus (cpu_percent env i) (virtual_memory env i)],
          usage_clock = sleep_until (usage_start env + of_nat i + 1) ts\<rparr>)"

text \<open>\<open>psutil.cpu_count() * (...)\<close> raises \<open>TypeError\<close> when the count is unknown.\<close>

definition usage_tick :: "usage_env \<Rightarrow> string \<Rightarrow> usage_state \<Rightarrow> nat \<Rightarrow> py_error + usage_state" where
  "usage_tick env case_name st i =
     (case usage_cpus env of
        None \<Rightarrow> Inl TypeError
      | Some cpus \<Rightarrow> Inr (usage_step env cpus case_name st i))"

fun usage_loop :: "usage_env \<Rightarrow> string \<Rightarrow> nat list \<Rightarrow> usage_state \<Rightarrow> py_error + usage_state" where
  "usage_loop env case_name [] st = Inr st"
| "usage_loop env case_name (i # ks) st =
     (case usage_tick env case_name st i of
        Inl e \<Rightarrow> Inl e
      | Inr st' \<Rightarrow> usage_loop env case_name ks st')"

definition usage_init :: "usage_env \<Rightarrow> usage_state" where
  "usage_init env = \<lparr>usage_data = [], usage_clock = usage_start env\<rparr>"

text \<open>\<open>monitor_system_usage\<close>: the ticks are \<open>range(duration)\<close>.\<close>

definition monitor_system_usage ::
  "usage_env \<Rightarrow> int \<Rightarrow> string \<Rightarrow> bool \<Rightarrow> py_error + (row list \<times> sink)" where
  "monitor_system_usage env duration case_name save_local =
     (case usage_loop env case_name [0..<nat duration] (usage_init env) of
        Inl e \<Rightarrow> Inl e
      | Inr st \<Rightarrow>
          (case save_samples (usage_lark env) (usage_resp env) (usage_enum env) save_local (usage_data st)
                  ''tblNpZMhfepLIIqa'' (''result/'' @ case_name @ ''_system_usage_data.csv'') of
             Inl e \<Rightarrow> Inl e
           | Inr s \<Rightarrow> Inr (usage_data st, s)))"

section \<open>Example host\<close>

text \<open>
  A host with 8 CPUs started at \<open>1000.5\<close>, whose first probe takes 0.3 s and every later one
  0.6 s.
\<close>

definition demo_usage_env :: usage_env where
  "demo_usage_env =
     \<lparr>usage_start = 2001 / 2, usage_cpus = Some 8, cpu_percent = (\<lambda>_. 50),
      virtual_memory = (\<lambda>_. (2147483648, 25)),
      probe_time = (\<lambda>i. if i = 0 then 3 / 10 else 6 / 10),
      usage_lark = demo_lark_env, usage_resp = (\<lambda>_. token_response demo_lark_env),
      usage_enum = sorted_list_of_set\<rparr>"

section \<open>The UsageSample schema\<close>

definition usage_schema :: "(string \<times> pytype) list" where
  "usage_schema =
     [(''case_name'', TStr), (''ts'', TInt), (''relative_ts'', TInt), (''cpu_usage'', TFloat),
      (''cpu_percent'', TFloat), (''mem_usage'', TFloat), (''mem_percent'', TFloat)]"

section \<open>The loop as a fold\<close>

lemma sleep_until_max: "sleep_until wake now = max wake now"
  by (simp add: sleep_until_def max_def)

lemma usage_loop_fold:
  "usage_cpus env = Some cpus \<Longrightarrow> usage_loop env cn ks st = Inr (foldl (usage_step env cpus cn) st ks)"
  by (induction ks arbitrary: st) (simp_all add: usage_tick_def)

lemma usage_loop_no_cpus:
  "usage_cpus env = None \<Longrightarrow> ks \<noteq> [] \<Longrightarrow> usage_loop env cn ks st = Inl TypeError"
  by (cases ks) (simp_all add: usage_tick_def)

lemma monitor_system_usage_unfold:
  assumes "monitor_system_usage env d cn sl = Inr (ds, s)"
  obtains cpus where "nat d = 0 \<or> usage_cpus env = Some cpus"
    "ds = usage_data (foldl (usage_step env cpus cn) (usage_init env) [0..<nat d])"
proof (cases "usage_cpus env")
  case None
  then have "nat d = 0" using assms usage_loop_no_cpus [OF None, of "[0..<nat d]"]
    by (cases "nat d = 0") (auto simp: monitor_system_usage_def)
  with None assms show ?thesis
    by (auto simp: monitor_system_usage_def split: sum.splits intro: that [of 0])
next
  case (Some cpus)
  with assms show ?thesis
    by (auto simp: monitor_system_usage_def usage_loop_fold split: sum.splits intro: that)
qed

section \<open>Timing of the samples\<close>

text \<open>
  After \<open>m\<close> ticks with non-negative probe times there are \<open>m\<close> samples, the clock is at
  least \<open>start_ts + m\<close>, and sample \<open>i\<close> is stamped no earlier than \<open>start_ts + i\<close> plus
  its probe time.
\<close>

lemma usage_fold_inv:
  assumes "\<forall>i. 0 \<le> probe_time env i" "st = foldl (usage_step env cpus cn) (usage_init env) [0..<m]"
  shows "length (usage_data st) = m \<and> usage_start env + of_nat m \<le> usage_clock st
       \<and> (\<forall>i < m. \<exists>ts. usage_data st ! i
              = usage_sample cn (usage_start env) ts cpus (cpu_percent env i) (virtual_memory env i)
            \<and> usage_start env + of_nat i + probe_time env i \<le> ts)"
  using assms(2)
proof (induction m arbitrary: st)
  case 0
  then show ?case by (simp add: usage_init_def)
next
  case (Suc m)
  define st0 where "st0 = foldl (usage_step env cpus cn) (usage_init env) [0..<m]"
  note IH = Suc.IH [OF st0_def]
  have st: "st = usage_step env cpus cn st0 m" using Suc.prems st0_def by simp
  have ts: "usage_start env + of_nat m + probe_time env m \<le> usage_clock st0 + probe_time env m"
    using IH by simp
  have clk: "usage_start env + of_nat (Suc m) \<le> usage_clock st"
    by (simp add: st usage_step_def sleep_until_max Let_def add.assoc)
  have "\<forall>i < Suc m. \<exists>ts. usage_data st ! i
          = usage_sample cn (usage_start env) ts cpus (cpu_percent env i) (virtual_memory env i)
        \<and> usage_start env + of_nat i + probe_time env i \<le> ts"
  proof (intro allI impI)
    fix i assume "i < Suc m"
    then consider "i < m" | "i = m" by linarith
    then show "\<exists>ts. usage_data st ! i
          = usage_sample cn (usage_start env) ts cpus (cpu_percent env i) (virtual_memory env i)
        \<and> usage_start env + of_nat i + probe_time env i \<le> ts"
    proof cases
      case 1
      then show ?thesis using IH by (simp add: st usage_step_def Let_def nth_append)
    next
      case 2
      then show ?thesis using IH ts by (auto simp: st usage_step_def Let_def nth_append)
    qed
  qed
  with IH clk show ?case by (simp add: st usage_step_def Let_def)
qed

text \<open>When every probe takes less than a second, the clock is back on the grid at each tick.\<close>

lemma usage_fold_exact:
  assumes "\<forall>i. 0 \<le> probe_time env i \<and> probe_time env i < 1"
  shows "foldl (usage_step env cpus cn) (usage_init env) [0..<m]
       = \<lparr>usage_data = map (\<lambda>i. usage_sample cn (usage_start env) (usage_start env + of_nat i + probe_time env i)
                          cpus (cpu_percent env i) (virtual_memory env i)) [0..<m],
          usage_clock = usage_start env + of_nat m\<rparr>"
proof (induction m)
  case 0
  then show ?case by (simp add: usage_init_def)
next
  case (Suc m)
  have "sleep_until (usage_start env + of_nat m + 1) (usage_start env + of_nat m + probe_time env m)
      = usage_start env + of_nat m + 1"
    using assms by (simp add: sleep_until_max)
  with Suc show ?case by (simp add: usage_step_def Let_def add.assoc)
qed

lemma usage_relative_floor:
  fixes s t :: rat
  assumes "0 \<le> s" "s \<le> t"
  shows "py_trunc t - py_trunc s - 1 \<le> py_trunc (t - s) \<and> py_trunc (t - s) \<le> py_trunc t - py_trunc s"
proof -
  have a: "of_int \<lfloor>t\<rfloor> \<le> t" "t < of_int \<lfloor>t\<rfloor> + 1" "of_int \<lfloor>s\<rfloor> \<le> s" "s < of_int \<lfloor>s\<rfloor> + 1"
    by linarith+
  have "of_int (\<lfloor>t\<rfloor> - \<lfloor>s\<rfloor> - 1) \<le> t - s" using a by (simp add: algebra_simps) linarith
  then have lo: "\<lfloor>t\<rfloor> - \<lfloor>s\<rfloor> - 1 \<le> \<lfloor>t - s\<rfloor>" by (simp only: le_floor_iff)
  have "t - s < of_int (\<lfloor>t\<rfloor> - \<lfloor>s\<rfloor>) + 1" using a by (simp add: algebra_simps) linarith
  then have hi: "\<lfloor>t - s\<rfloor> \<le> \<lfloor>t\<rfloor> - \<lfloor>s\<rfloor>" by (simp only: floor_le_iff)
  show ?thesis using lo hi assms by simp
qed

lemma py_trunc_tick_offset:
  "0 \<le> p \<Longrightarrow> p < 1 \<Longrightarrow> py_trunc (of_nat i + p) = int i"
  by (simp add: floor_eq_iff)

section \<open>Properties\<close>

text \<open>
  C19. When \<open>monitor_system_usage\<close> returns, it took exactly \<open>max 0 duration\<close> samples, in
  tick order; each carries the case name and a relative timestamp no smaller than its index
  (so never negative), and the list it returns is the one it saved to \<open>tblNpZMhfepLIIqa\<close> or
  to \<open>result/<case>_system_usage_data.csv\<close>.
\<close>

theorem monitor_system_usage_samples:
  assumes "monitor_system_usage env d cn sl = Inr (ds, s)"
    and "\<forall>i. 0 \<le> probe_time env i" "0 \<le> usage_start env"
  shows "length ds = nat d
       \<and> (\<forall>i < length ds. map_of (ds ! i) ''case_name'' = Some (PStr cn)
            \<and> (\<exists>r. map_of (ds ! i) ''relative_ts'' = Some (PInt r) \<and> int i \<le> r))
       \<and> save_samples (usage_lark env) (usage_resp env) (usage_enum env) sl ds
           ''tblNpZMhfepLIIqa'' (''result/'' @ cn @ ''_system_usage_data.csv'') = Inr s"
proof -
  obtain cpus where ds: "ds = usage_data (foldl (usage_step env cpus cn) (usage_init env) [0..<nat d])"
    using monitor_system_usage_unfold [OF assms(1)] by blast
  note inv = usage_fold_inv [OF assms(2) refl, of cpus cn "nat d", folded ds]
  have "\<forall>i < length ds. map_of (ds ! i) ''case_name'' = Some (PStr cn)
          \<and> (\<exists>r. map_of (ds ! i) ''relative_ts'' = Some (PInt r) \<and> int i \<le> r)"
  proof (intro allI impI)
    fix i assume i: "i < length ds"
    then obtain ts where e: "ds ! i = usage_sample cn (usage_start env) ts cpus (cpu_percent env i) (virtual_memory env i)"
      and le: "usage_start env + of_nat i + probe_time env i \<le> ts"
      using inv by auto
    have "0 \<le> probe_time env i" using assms(2) by blast
    with le have "of_nat i \<le> ts - usage_start env" by linarith
    then have "int i \<le> py_trunc (ts - usage_start env)"
      by (simp add: le_floor_iff)
    then show "map_of (ds ! i) ''case_name'' = Some (PStr cn)
          \<and> (\<exists>r. map_of (ds ! i) ''relative_ts'' = Some (PInt r) \<and> int i \<le> r)"
      by (simp add: e usage_sample_def)
  qed
  moreover have "save_samples (usage_lark env) (usage_resp env) (usage_enum env) sl ds
      ''tblNpZMhfepLIIqa'' (''result/'' @ cn @ ''_system_usage_data.csv'') = Inr s"
    using assms(1) by (auto simp: monitor_system_usage_def split: sum.splits)
  ultimately show ?thesis using inv by simp
qed

theorem monitor_system_usage_samples_witness:
  "\<exists>ds s. monitor_system_usage demo_usage_env 2 ''c'' False = Inr (ds, s) \<and> length ds = 2
     \<and> map_of (ds ! 1) ''case_name'' = Some (PStr ''c'')
     \<and> (\<exists>r. map_of (ds ! 1) ''relative_ts'' = Some (PInt r) \<and> 1 \<le> r)"
proof -
  have "case monitor_system_usage demo_usage_env 2 ''c'' False of Inr (ds, s) \<Rightarrow> True | Inl _ \<Rightarrow> False"
    by code_simp
  then obtain ds s where m: "monitor_system_usage demo_usage_env 2 ''c'' False = Inr (ds, s)"
    by (auto split: sum.splits)
  have p: "\<forall>i. 0 \<le> probe_time demo_usage_env i" "0 \<le> usage_start demo_usage_env"
    by (simp_all add: demo_usage_env_def)
  note r = monitor_system_usage_samples [OF m p]
  have l: "length ds = 2" using r by simp
  have "1 < length ds" using l by simp
  then have "map_of (ds ! 1) ''case_name'' = Some (PStr ''c'')
      \<and> (\<exists>r. map_of (ds ! 1) ''relative_ts'' = Some (PInt r) \<and> int 1 \<le> r)"
    using r by blast
  then show ?thesis using m l by auto
qed

text \<open>
  C20. When every probe takes less than a second, \<open>monitor_system_usage\<close> keeps to the grid:
  sample \<open>i\<close> is stamped \<open>start_ts + i\<close> plus the probe time of tick \<open>i\<close>, and its
  \<open>relative_ts\<close> is exactly \<open>i\<close>.
\<close>

theorem monitor_system_usage_on_grid:
  assumes "monitor_system_usage env d cn sl = Inr (ds, s)"
    and "\<forall>i. 0 \<le> probe_time env i \<and> probe_time env i < 1"
  shows "\<exists>cpus. ds = map (\<lambda>i. usage_sample cn (usage_start env) (usage_start env + of_nat i + probe_time env i)
                              cpus (cpu_percent env i) (virtual_memory env i)) [0..<nat d]
        \<and> (\<forall>i < nat d. map_of (ds ! i) ''relative_ts'' = Some (PInt (int i)))"
proof -
  obtain cpus where ds: "ds = usage_data (foldl (usage_step env cpus cn) (usage_init env) [0..<nat d])"
    using monitor_system_usage_unfold [OF assms(1)] by blast
  then have m: "ds = map (\<lambda>i. usage_sample cn (usage_start env) (usage_start env + of_nat i + probe_time env i)
                    cpus (cpu_percent env i) (virtual_memory env i)) [0..<nat d]"
    by (simp add: usage_fold_exact [OF assms(2)])
  have "\<forall>i < nat d. map_of (ds ! i) ''relative_ts'' = Some (PInt (int i))"
    using assms(2) by (simp add: m usage_sample_def floor_eq_iff)
  with m show ?thesis by blast
qed

theorem monitor_system_usage_on_grid_witness:
  "\<exists>ds s. monitor_system_usage demo_usage_env 3 ''c'' True = Inr (ds, s)
     \<and> map_of (ds ! 2) ''relative_ts'' = Some (PInt 2)
     \<and> map_of (ds ! 2) ''ts'' = Some (PInt 1003)"
proof -
  have "case monitor_system_usage demo_usage_env 3 ''c'' True of
          Inr (ds, s) \<Rightarrow> map_of (ds ! 2) ''ts'' = Some (PInt 1003) | Inl _ \<Rightarrow> False"
    by code_simp
  then obtain ds s where m: "monitor_system_usage demo_usage_env 3 ''c'' True = Inr (ds, s)"
    and t: "map_of (ds ! 2) ''ts'' = Some (PInt 1003)"
    by (auto split: sum.splits)
  have p: "\<forall>i. 0 \<le> probe_time demo_usage_env i \<and> probe_time demo_usage_env i < 1"
    by (simp add: demo_usage_env_def)
  have "\<forall>i < nat 3. map_of (ds ! i) ''relative_ts'' = Some (PInt (int i))"
    using monitor_system_usage_on_grid [OF m p] by blast
  then have "map_of (ds ! 2) ''relative_ts'' = Some (PInt 2)" by simp
  with m t show ?thesis by blast
qed



text \<open>
  C22. On a host where \<open>psutil.cpu_count()\<close> is unknown, \<open>monitor_system_usage\<close> raises
  \<open>TypeError\<close> in its first tick, outside any \<open>try\<close>, and saves nothing.
\<close>

theorem monitor_system_usage_no_cpu_count:
  "usage_cpus env = None \<Longrightarrow> 0 < d \<Longrightarrow> monitor_system_usage env d cn sl = Inl TypeError"
  by (simp add: monitor_system_usage_def usage_loop_no_cpus)

theorem monitor_system_usage_no_cpu_count_witness:
  "monitor_system_usage (demo_usage_env\<lparr>usage_cpus := None\<rparr>) 5 ''c'' True = Inl TypeError"
  by (rule monitor_system_usage_no_cpu_count) simp_all

text \<open>
  In one run of the example host the offset \<open>ts - relative_ts\<close> is 1000 for the first sample
  and 1001 for the second, so no single \<open>start_ts\<close> gives \<open>relative_ts = ts - start_ts\<close>.
\<close>

lemma usage_offset_varies:
  "\<exists>ds s. monitor_system_usage demo_usage_env 2 ''c'' True = Inr (ds, s)
     \<and> map_of (ds ! 0) ''ts'' = Some (PInt 1000) \<and> map_of (ds ! 0) ''relative_ts'' = Some (PInt 0)
     \<and> map_of (ds ! 1) ''ts'' = Some (PInt 1002) \<and> map_of (ds ! 1) ''relative_ts'' = Some (PInt 1)"
proof -
  have "case monitor_system_usage demo_usage_env 2 ''c'' True of
          Inr (ds, s) \<Rightarrow> map_of (ds ! 0) ''ts'' = Some (PInt 1000) \<and> map_of (ds ! 0) ''relative_ts'' = Some (PInt 0)
            \<and> map_of (ds ! 1) ''ts'' = Some (PInt 1002) \<and> map_of (ds ! 1) ''relative_ts'' = Some (PInt 1)
        | Inl _ \<Rightarrow> False"
    by code_simp
  then show ?thesis by (auto split: sum.splits)
qed


section \<open>The schema of the samples\<close>

lemma usage_fold_samples:
  "r \<in> set (usage_data (foldl (usage_step env cpus cn) st ks)) \<Longrightarrow>
   r \<in> set (usage_data st) \<or> (\<exists>ts pct mem. r = usage_sample cn (usage_start env) ts cpus pct mem)"
proof (induction ks arbitrary: st)
  case Nil
  then show ?case by simp
next
  case (Cons k ks)
  then have "r \<in> set (usage_data (usage_step env cpus cn st k))
      \<or> (\<exists>ts pct mem. r = usage_sample cn (usage_start env) ts cpus pct mem)"
    by (simp del: split_paired_Ex)
  then show ?case by (simp add: usage_step_def Let_def del: split_paired_Ex) blast
qed

lemma usage_sample_schema: "row_schema (usage_sample cn s ts cpus pct mem) = usage_schema"
  by (simp add: usage_sample_def row_schema_def usage_schema_def)

text \<open>
  C29. Every sample \<open>monitor_system_usage\<close> returns is a UsageSample: the seven keys in the
  code's order, a string case name, integer \<open>ts\<close> and \<open>relative_ts\<close>, and float readings.
\<close>

theorem monitor_system_usage_schema:
  assumes "monitor_system_usage env d cn sl = Inr (ds, s)"
  shows "list_all (\<lambda>r. row_schema r = usage_schema) ds"
proof -
  obtain cpus where ds: "ds = usage_data (foldl (usage_step env cpus cn) (usage_init env) [0..<nat d])"
    using monitor_system_usage_unfold [OF assms] by blast
  have "\<forall>r \<in> set ds. row_schema r = usage_schema"
  proof
    fix r assume "r \<in> set ds"
    then obtain ts pct mem where "r = usage_sample cn (usage_start env) ts cpus pct mem"
      using usage_fold_samples [of r env cpus cn "usage_init env" "[0..<nat d]"] ds
      by (auto simp: usage_init_def)
    then show "row_schema r = usage_schema" by (simp add: usage_sample_schema)
  qed
  then show ?thesis by (simp add: list_all_iff)
qed

theorem monitor_system_usage_schema_witness:
  "\<exists>ds s. monitor_system_usage demo_usage_env 2 ''c'' True = Inr (ds, s) \<and> length ds = 2
     \<and> list_all (\<lambda>r. row_schema r = usage_schema) ds"
proof -
  have "case monitor_system_usage demo_usage_env 2 ''c'' True of Inr (ds, s) \<Rightarrow> length ds = 2 | Inl _ \<Rightarrow> False"
    by code_simp
  then obtain ds s where m: "monitor_system_usage demo_usage_env 2 ''c'' True = Inr (ds, s)" and l: "length ds = 2"
    by (auto split: sum.splits)
  with monitor_system_usage_schema [OF m] show ?thesis by blast
qed

end
