(* ===== verification/Orchestrator.thy ===== *)
theory Orchestrator
  imports Pqos Usage
begin

text \<open>
  The \<open>__main__\<close> block of \<open>src/metric.py\<close> with \<open>get_case_name\<close> and
  \<open>run_sudo_command\<close>: the case name, the start-up checks (the token request when
  uploading, the sudo session when a monitor needs it), and the threads of the selected
  monitors. The threads share no state; what each one sends out is the list of its posts
  and files, and a run of the whole program is any interleaving of these lists, written as
  the inductive relation \<open>interl\<close>. The host name, the clock string, the password and the
  result of \<open>sudo\<close> are inputs.
\<close>

section \<open>Command line and start-up\<close>

record cli_args =
  arg_duration :: int
  arg_name :: string
  arg_pid :: int
  arg_save_local :: bool
  arg_perf :: bool
  arg_system :: bool
  arg_memory :: bool
  arg_no_sudo :: bool

text \<open>\<open>get_case_name\<close>: \<open>f"{hostname}_{save_ts}"\<close>, the time as \<open>%Y%m%d%H%M%S\<close>.\<close>

definition get_case_name :: "string \<Rightarrow> string \<Rightarrow> string" where
  "get_case_name hostname save_ts = hostname @ ''_'' @ save_ts"

text \<open>What \<open>subprocess.run\<close> of \<open>sudo -S\<close> gives: a spawn failure or the return code.\<close>

datatype sudo_run = SudoSpawnFailed | SudoRan int

definition sudo_command :: "string list" where
  "sudo_command = [''sudo'', ''-S'', ''echo'', ''Sudo session initialized'']"

definition run_sudo_command :: "(string list \<Rightarrow> string \<Rightarrow> sudo_run) \<Rightarrow> string \<Rightarrow> bool" where
  "run_sudo_command sudo_tool sudo_password =
     (case sudo_tool sudo_command (sudo_password @ ''\<newline>'') of
        SudoSpawnFailed \<Rightarrow> False
      | SudoRan rc \<Rightarrow> rc = 0)"

record main_env =
  hostname :: string                              \<comment> \<open>\<open>socket.gethostname()\<close>\<close>
  save_ts :: string                               \<comment> \<open>\<open>time.strftime("%Y%m%d%H%M%S")\<close>\<close>
  main_lark :: lark_env                           \<comment> \<open>credentials and token endpoint at start-up\<close>
  sudo_password :: string                         \<comment> \<open>what \<open>getpass\<close> reads\<close>
  sudo_tool :: "string list \<Rightarrow> string \<Rightarrow> sudo_run"

text \<open>The target of a thread with its arguments, as the \<open>Thread(...)\<close> calls pass them.\<close>

datatype thread =
    MemThread int string bool bool           \<comment> \<open>duration, case name, save_local, sudo\<close>
  | PerfThread int int string bool bool      \<comment> \<open>pid, duration, case name, save_local, sudo\<close>
  | SysThread int string bool                \<comment> \<open>duration, case name, save_local\<close>

definition main_case_name :: "main_env \<Rightarrow> cli_args \<Rightarrow> string" where
  "main_case_name env args =
     (if arg_name args = ''default'' then get_case_name (hostname env) (save_ts env)
      else get_case_name (hostname env) (save_ts env) @ arg_name args)"

definition thread_list :: "cli_args \<Rightarrow> string \<Rightarrow> thread list" where
  "thread_list args case_name =
     (if arg_memory args
      then [MemThread (arg_duration args) case_name (arg_save_local args) (\<not> arg_no_sudo args)] else [])
     @ (if arg_perf args
        then [PerfThread (arg_pid args) (arg_duration args) case_name (arg_save_local args) (\<not> arg_no_sudo args)]
        else [])
     @ (if arg_system args then [SysThread (arg_duration args) case_name (arg_save_local args)] else [])"

text \<open>
  The main block up to the start of the threads: the case name and the threads to start,
  or the exception that ends the program first.
\<close>

definition main :: "main_env \<Rightarrow> cli_args \<Rightarrow> py_error + (string \<times> thread list)" where
  "main env args =
     (let case_name = main_case_name env args in
      case (if \<not> arg_save_local args then get_access_token (main_lark env) else Inr None) of
        Inl e \<Rightarrow> Inl e
      | Inr _ \<Rightarrow>
          if \<not> arg_no_sudo args \<and> (arg_memory args \<or> arg_perf args)
             \<and> \<not> run_sudo_command (sudo_tool env) (sudo_password env)
          then Inl SudoError
          else Inr (case_name, thread_list args case_name))"

section \<open>The threads\<close>

text \<open>The environments the three monitors read.\<close>

record monitors =
  mon_mb :: mb_env
  mon_perf :: perf_env
  mon_usage :: usage_env

datatype thread_result =
    MemResult "py_error + mb_outcome"
  | PerfResult "py_error + (row list \<times> sink)"
  | SysResult "py_error + (row list \<times> sink)"

fun run_thread :: "monitors \<Rightarrow> thread \<Rightarrow> thread_result" where
  "run_thread ms (MemThread d cn sl su) = MemResult (monitor_memory_bandwidth (mon_mb ms) d cn sl su)"
| "run_thread ms (PerfThread pid d cn sl su) = PerfResult (monitor_perf (mon_perf ms) pid d cn sl su)"
| "run_thread ms (SysThread d cn sl) = SysResult (monitor_system_usage (mon_usage ms) d cn sl)"

section \<open>What the threads send out\<close>

datatype event = EvLark lark_effect | EvCsv csv_effect

text \<open>The table or file an event goes to.\<close>

fun event_dest :: "event \<Rightarrow> string option" where
  "event_dest (EvLark (Post t a rs)) = Some t"
| "event_dest (EvLark (LogError k)) = None"
| "event_dest (EvCsv (CsvFile f h cells)) = Some f"
| "event_dest (EvCsv NoData) = None"

fun sink_events :: "sink \<Rightarrow> event list" where
  "sink_events (ToLark effs) = map EvLark effs"
| "sink_events (ToCsv c) = [EvCsv c]"

fun thread_events :: "thread_result \<Rightarrow> event list" where
  "thread_events (MemResult (Inr (MbSaved ds s))) = sink_events s"
| "thread_events (PerfResult (Inr (ds, s))) = sink_events s"
| "thread_events (SysResult (Inr (ds, s))) = sink_events s"
| "thread_events _ = []"

text \<open>The tables and files a thread may write to.\<close>

fun thread_dests :: "thread \<Rightarrow> string set" where
  "thread_dests (MemThread d cn sl su) = {''tbl5IetG3NXe6GFT'', ''result/'' @ cn @ ''_mem_bandwidth_data.csv''}"
| "thread_dests (PerfThread pid d cn sl su) =
     {''tblFptRCkgwc8IoV'', ''tblUJJDqxHS4TqHR'', ''result/'' @ cn @ ''_perf_data.csv''}"
| "thread_dests (SysThread d cn sl) = {''tblNpZMhfepLIIqa'', ''result/'' @ cn @ ''_system_usage_data.csv''}"

text \<open>The events of thread \<open>i\<close> of a list of started threads.\<close>

definition thread_trace :: "monitors \<Rightarrow> thread list \<Rightarrow> nat \<Rightarrow> event list" where
  "thread_trace ms ts i = (if i < length ts then thread_events (run_thread ms (ts ! i)) else [])"

text \<open>
  An interleaving of the threads' event lists: each step appends the next event of one
  thread, tagged with the thread's index.
\<close>

inductive interl :: "(nat \<Rightarrow> 'e list) \<Rightarrow> (nat \<times> 'e) list \<Rightarrow> bool" where
  interl_nil: "interl (\<lambda>_. []) []"
| interl_snoc: "interl tf \<tau> \<Longrightarrow> interl (tf(i := tf i @ [e])) (\<tau> @ [(i, e)])"

text \<open>The schedule that runs the threads one after the other.\<close>

definition seq_schedule :: "(nat \<Rightarrow> 'e list) \<Rightarrow> nat \<Rightarrow> (nat \<times> 'e) list" where
  "seq_schedule tf n = concat (map (\<lambda>i. map (Pair i) (tf i)) [0..<n])"

section \<open>Observations of the start-up\<close>

text \<open>The monitor a thread runs (0 memory bandwidth, 1 perf, 2 usage), its case name and duration.\<close>

fun thread_kind :: "thread \<Rightarrow> nat" where
  "thread_kind (MemThread d cn sl su) = 0"
| "thread_kind (PerfThread pid d cn sl su) = 1"
| "thread_kind (SysThread d cn sl) = 2"

fun thread_case :: "thread \<Rightarrow> string" where
  "thread_case (MemThread d cn sl su) = cn"
| "thread_case (PerfThread pid d cn sl su) = cn"
| "thread_case (SysThread d cn sl) = cn"

fun thread_duration :: "thread \<Rightarrow> int" where
  "thread_duration (MemThread d cn sl su) = d"
| "thread_duration (PerfThread pid d cn sl su) = d"
| "thread_duration (SysThread d cn sl) = d"

definition requested :: "cli_args \<Rightarrow> nat \<Rightarrow> bool" where
  "requested args k \<longleftrightarrow> (k = 0 \<and> arg_memory args) \<or> (k = 1 \<and> arg_perf args) \<or> (k = 2 \<and> arg_system args)"

text \<open>A thread returns normally: its monitor raised no exception out of its body.\<close>

fun thread_returns :: "thread_result \<Rightarrow> bool" where
  "thread_returns (MemResult r) = (\<not> isl r)"
| "thread_returns (PerfResult r) = (\<not> isl r)"
| "thread_returns (SysResult r) = (\<not> isl r)"

section \<open>Example run\<close>

text \<open>
  A host \<open>node1\<close> started at 2024-01-01 12:00:00 whose sudo accepts the password; the
  monitors of the other theories' examples; a local run of the memory and usage monitors.
\<close>

definition demo_main_env :: main_env where
  "demo_main_env = \<lparr>hostname = ''node1'', save_ts = ''20240101120000'', main_lark = demo_lark_env,
     sudo_password = ''pw'', sudo_tool = (\<lambda>cmd inp. SudoRan 0)\<rparr>"

definition demo_monitors :: monitors where
  "demo_monitors = \<lparr>mon_mb = demo_mb_env demo_pqos_out, mon_perf = demo_perf_env, mon_usage = demo_usage_env\<rparr>"

definition demo_args :: cli_args where
  "demo_args = \<lparr>arg_duration = 10, arg_name = ''default'', arg_pid = 0, arg_save_local = True,
     arg_perf = False, arg_system = True, arg_memory = True, arg_no_sudo = True\<rparr>"

section \<open>Interleavings\<close>

lemma interl_proj: "interl tf \<tau> \<Longrightarrow> map snd (filter (\<lambda>p. fst p = i) \<tau>) = tf i"
  by (induction rule: interl.induct) auto

text \<open>
  The events of an interleaving that satisfy \<open>P\<close>, when no other thread has such events,
  are those of thread \<open>i\<close>, in its order.
\<close>

lemma interl_filter_owned:
  "interl tf \<tau> \<Longrightarrow> (\<forall>j e. j \<noteq> i \<longrightarrow> e \<in> set (tf j) \<longrightarrow> \<not> P e) \<Longrightarrow>
   filter (\<lambda>p. P (snd p)) \<tau> = map (Pair i) (filter P (tf i))"
proof (induction rule: interl.induct)
  case interl_nil
  then show ?case by simp
next
  case (interl_snoc tf \<tau> k e)
  have own: "\<forall>j e'. j \<noteq> i \<longrightarrow> e' \<in> set (tf j) \<longrightarrow> \<not> P e'"
    using interl_snoc.prems by (metis Un_iff fun_upd_apply set_append)
  have "k \<noteq> i \<Longrightarrow> \<not> P e" using interl_snoc.prems by (metis fun_upd_same in_set_conv_decomp)
  then show ?case using interl_snoc.IH [OF own] by (cases "k = i") auto
qed

lemma interl_append: "interl tf \<tau> \<Longrightarrow> interl (tf(i := tf i @ es)) (\<tau> @ map (Pair i) es)"
proof (induction es rule: rev_induct)
  case Nil
  then show ?case by simp
next
  case (snoc x xs)
  have eq: "(tf(i := tf i @ xs))(i := (tf(i := tf i @ xs)) i @ [x]) = tf(i := tf i @ (xs @ [x]))"
    by simp
  from interl_snoc [OF snoc.IH [OF snoc.prems], of i x]
  show ?case unfolding eq by (simp add: fun_upd_def)
qed

lemma interl_seq: "interl (\<lambda>j. if j < n then tf j else []) (seq_schedule tf n)"
proof (induction n)
  case 0
  then show ?case by (simp add: seq_schedule_def interl_nil)
next
  case (Suc n)
  have "(\<lambda>j. if j < Suc n then tf j else []) = (\<lambda>j. if j < n then tf j else [])(n := [] @ tf n)"
    by (auto simp: fun_eq_iff)
  with interl_append [OF Suc.IH, of n "tf n"] show ?case by (simp add: seq_schedule_def)
qed

section \<open>Where the threads write\<close>

lemma batch_save_lark_tags:
  "batch_save_lark env resp rws tbl = Inr effs \<Longrightarrow> Post t a rs \<in> set effs \<Longrightarrow> t = tbl"
  by (auto simp: batch_save_lark_def split: sum.splits dest: post_batches_tags)

lemma save_samples_dests:
  assumes "save_samples l r en sl rws tbl f = Inr s" "ev \<in> set (sink_events s)" "event_dest ev = Some d"
  shows "d = tbl \<or> d = f"
proof (cases sl)
  case True
  then obtain c where "save_data_to_csv en rws f = Inr c" "s = ToCsv c"
    using assms(1) by (auto simp: save_samples_def split: sum.splits)
  then show ?thesis using assms(2,3)
    by (auto simp: save_data_to_csv_def Let_def split: if_splits)
next
  case False
  then obtain effs where "batch_save_lark l r rws tbl = Inr effs" "s = ToLark effs"
    using assms(1) by (auto simp: save_samples_def split: sum.splits)
  then show ?thesis using assms(2,3) batch_save_lark_tags by (cases ev) (auto elim: event_dest.elims)
qed

lemma mb_saved_store:
  "monitor_memory_bandwidth env d cn sl su = Inr (MbSaved rws s) \<Longrightarrow>
   save_samples (mb_lark env) (mb_resp env) (mb_enum env) sl rws
     ''tbl5IetG3NXe6GFT'' (''result/'' @ cn @ ''_mem_bandwidth_data.csv'') = Inr s"
  by (auto simp: monitor_memory_bandwidth_def split: option.splits pqos_run.splits if_splits sum.splits)

lemma usage_saved_store:
  "monitor_system_usage env d cn sl = Inr (ds, s) \<Longrightarrow>
   save_samples (usage_lark env) (usage_resp env) (usage_enum env) sl ds
     ''tblNpZMhfepLIIqa'' (''result/'' @ cn @ ''_system_usage_data.csv'') = Inr s"
  by (auto simp: monitor_system_usage_def split: sum.splits)

lemma perf_saved_store:
  assumes "monitor_perf env pid d cn sl su = Inr (ds, s)"
  obtains tbl where "tbl \<in> {''tblFptRCkgwc8IoV'', ''tblUJJDqxHS4TqHR''}"
    "save_samples (perf_lark env) (perf_resp env) (perf_enum env) sl ds tbl (''result/'' @ cn @ ''_perf_data.csv'') = Inr s"
proof -
  obtain evs tbl where t: "get_perf_event_table (uname_out env) = Inr (evs, tbl)"
    using assms by (auto simp: monitor_perf_def split: sum.splits)
  then have "tbl \<in> {''tblFptRCkgwc8IoV'', ''tblUJJDqxHS4TqHR''}"
    by (auto simp: get_perf_event_table_def split: sum.splits elim: event_table.elims)
  moreover have "save_samples (perf_lark env) (perf_resp env) (perf_enum env) sl ds tbl
      (''result/'' @ cn @ ''_perf_data.csv'') = Inr s"
    using assms by (auto simp: monitor_perf_unfold [OF t] Let_def split: sum.splits)
  ultimately show ?thesis by (rule that)
qed

lemma thread_events_cases:
  "thread_events (MemResult r) = (case r of Inr (MbSaved ds s) \<Rightarrow> sink_events s | _ \<Rightarrow> [])"
  "thread_events (PerfResult q) = (case q of Inr (ds, s) \<Rightarrow> sink_events s | _ \<Rightarrow> [])"
  "thread_events (SysResult q) = (case q of Inr (ds, s) \<Rightarrow> sink_events s | _ \<Rightarrow> [])"
  by (simp_all split: sum.split mb_outcome.split prod.split)

lemma thread_events_dests:
  "ev \<in> set (thread_events (run_thread ms t)) \<Longrightarrow> event_dest ev = Some d \<Longrightarrow> d \<in> thread_dests t"
proof (cases t)
  case (MemThread du cn sl su)
  assume ev: "ev \<in> set (thread_events (run_thread ms t))" and d: "event_dest ev = Some d"
  then obtain rws s where "monitor_memory_bandwidth (mon_mb ms) du cn sl su = Inr (MbSaved rws s)"
    "ev \<in> set (sink_events s)"
    using MemThread by (auto simp: thread_events_cases split: sum.splits mb_outcome.splits) metis
  then show ?thesis using save_samples_dests [OF mb_saved_store _ d] MemThread by auto
next
  case (PerfThread pid du cn sl su)
  assume ev: "ev \<in> set (thread_events (run_thread ms t))" and d: "event_dest ev = Some d"
  then obtain ds s where m: "monitor_perf (mon_perf ms) pid du cn sl su = Inr (ds, s)" "ev \<in> set (sink_events s)"
    using PerfThread by (auto simp: thread_events_cases split: sum.splits) metis
  obtain tbl where T: "tbl \<in> {''tblFptRCkgwc8IoV'', ''tblUJJDqxHS4TqHR''}"
    and S: "save_samples (perf_lark (mon_perf ms)) (perf_resp (mon_perf ms)) (perf_enum (mon_perf ms)) sl ds tbl
       (''result/'' @ cn @ ''_perf_data.csv'') = Inr s"
    by (rule perf_saved_store [OF m(1)])
  have "d = tbl \<or> d = ''result/'' @ cn @ ''_perf_data.csv''" by (rule save_samples_dests [OF S m(2) d])
  then show ?thesis using T PerfThread by auto
next
  case (SysThread du cn sl)
  assume ev: "ev \<in> set (thread_events (run_thread ms t))" and d: "event_dest ev = Some d"
  then obtain ds s where "monitor_system_usage (mon_usage ms) du cn sl = Inr (ds, s)" "ev \<in> set (sink_events s)"
    using SysThread by (auto simp: thread_events_cases split: sum.splits) metis
  then show ?thesis using save_samples_dests [OF usage_saved_store _ d] SysThread by auto
qed

lemma thread_list_dests_disjoint:
  assumes "i < length (thread_list args cn)" "j < length (thread_list args cn)" "i \<noteq> j"
  shows "thread_dests (thread_list args cn ! i) \<inter> thread_dests (thread_list args cn ! j) = {}"
  using assms by (auto simp: thread_list_def nth_Cons' split: if_splits)

section \<open>Properties\<close>

lemma main_threads:
  "main env args = Inr (cn, ts) \<Longrightarrow> cn = main_case_name env args \<and> ts = thread_list args cn"
  by (auto simp: main_def Let_def split: sum.splits if_splits)

text \<open>
  C23. Whatever the interleaving of the monitor threads, each thread's events reach the
  outside complete and in its own order, and every table or file a thread writes to receives
  exactly that thread's events: the threads' destinations are disjoint, so no schedule mixes
  the samples of two monitors.
\<close>

theorem threads_no_crosstalk:
  assumes "main env args = Inr (cn, ts)" "interl (thread_trace ms ts) \<tau>" "i < length ts"
    and "d \<in> thread_dests (ts ! i)"
  shows "filter (\<lambda>p. event_dest (snd p) = Some d) \<tau>
           = map (Pair i) (filter (\<lambda>e. event_dest e = Some d) (thread_trace ms ts i))
       \<and> map snd (filter (\<lambda>p. fst p = i) \<tau>) = thread_trace ms ts i"
proof -
  have ts: "ts = thread_list args cn" using main_threads [OF assms(1)] by simp
  have own: "\<forall>j e. j \<noteq> i \<longrightarrow> e \<in> set (thread_trace ms ts j) \<longrightarrow> \<not> event_dest e = Some d"
  proof (intro allI impI notI)
    fix j e assume j: "j \<noteq> i" and e: "e \<in> set (thread_trace ms ts j)" and de: "event_dest e = Some d"
    have jl: "j < length ts" using e by (auto simp: thread_trace_def split: if_splits)
    then have "d \<in> thread_dests (ts ! j)" using e de thread_events_dests by (auto simp: thread_trace_def)
    then show False using thread_list_dests_disjoint [OF _ _ j, of args cn] assms(3,4) jl ts by auto
  qed
  show ?thesis using interl_filter_owned [OF assms(2) own] interl_proj [OF assms(2)] by simp
qed

theorem threads_no_crosstalk_witness:
  "filter (\<lambda>p. event_dest (snd p) = Some ''tbl5IetG3NXe6GFT'')
      (seq_schedule (thread_trace demo_monitors (thread_list demo_args ''node1_20240101120000'')) 2)
     = map (Pair 0) (filter (\<lambda>e. event_dest e = Some ''tbl5IetG3NXe6GFT'')
         (thread_trace demo_monitors (thread_list demo_args ''node1_20240101120000'') 0))
   \<and> map snd (filter (\<lambda>p. fst p = 0)
      (seq_schedule (thread_trace demo_monitors (thread_list demo_args ''node1_20240101120000'')) 2))
     = thread_trace demo_monitors (thread_list demo_args ''node1_20240101120000'') 0"
proof -
  have m: "main demo_main_env demo_args = Inr (''node1_20240101120000'', thread_list demo_args ''node1_20240101120000'')"
    by (simp add: main_def main_case_name_def get_case_name_def demo_main_env_def demo_args_def Let_def)
  have l: "length (thread_list demo_args ''node1_20240101120000'') = 2"
    by (simp add: thread_list_def demo_args_def)
  have "(\<lambda>j. if j < 2 then thread_trace demo_monitors (thread_list demo_args ''node1_20240101120000'') j else [])
      = thread_trace demo_monitors (thread_list demo_args ''node1_20240101120000'')"
    using l by (auto simp: fun_eq_iff thread_trace_def)
  then have i: "interl (thread_trace demo_monitors (thread_list demo_args ''node1_20240101120000''))
      (seq_schedule (thread_trace demo_monitors (thread_list demo_args ''node1_20240101120000'')) 2)"
    using interl_seq [of 2 "thread_trace demo_monitors (thread_list demo_args ''node1_20240101120000'')"] by simp
  have d: "''tbl5IetG3NXe6GFT'' \<in> thread_dests (thread_list demo_args ''node1_20240101120000'' ! 0)"
    by (simp add: thread_list_def demo_args_def)
  show ?thesis using threads_no_crosstalk [OF m i _ d] l by simp
qed

text \<open>
  C24. The start-up checks end the program before any monitor starts: a failed token
  request when uploading raises its error, and a refused sudo session, when the memory or
  perf monitor needs sudo, raises the sudo failure.
\<close>

theorem main_startup_aborts:
  "(\<not> arg_save_local args \<and> get_access_token (main_lark env) = Inl e \<longrightarrow> main env args = Inl e)
   \<and> ((arg_save_local args \<or> \<not> isl (get_access_token (main_lark env)))
        \<and> \<not> arg_no_sudo args \<and> (arg_memory args \<or> arg_perf args)
        \<and> sudo_tool env sudo_command (sudo_password env @ ''\<newline>'') \<noteq> SudoRan 0
      \<longrightarrow> main env args = Inl SudoError)"
proof -
  have "sudo_tool env sudo_command (sudo_password env @ ''\<newline>'') \<noteq> SudoRan 0
        \<Longrightarrow> \<not> run_sudo_command (sudo_tool env) (sudo_password env)"
    by (auto simp: run_sudo_command_def split: sudo_run.splits)
  then show ?thesis by (auto simp: main_def Let_def split: sum.splits)
qed

theorem main_startup_aborts_witness:
  "main (demo_main_env\<lparr>main_lark := demo_lark_env\<lparr>app_id := None\<rparr>\<rparr>) (demo_args\<lparr>arg_save_local := False\<rparr>)
     = Inl EnvironmentError
   \<and> main (demo_main_env\<lparr>sudo_tool := (\<lambda>cmd inp. SudoRan 1)\<rparr>) (demo_args\<lparr>arg_no_sudo := False\<rparr>) = Inl SudoError"
proof -
  have t: "get_access_token (demo_lark_env\<lparr>app_id := None\<rparr>) = Inl EnvironmentError"
    by (simp add: get_access_token_def)
  show ?thesis
    using main_startup_aborts [of "demo_args\<lparr>arg_save_local := False\<rparr>"
        "demo_main_env\<lparr>main_lark := demo_lark_env\<lparr>app_id := None\<rparr>\<rparr>" EnvironmentError]
      main_startup_aborts [of "demo_args\<lparr>arg_no_sudo := False\<rparr>" "demo_main_env\<lparr>sudo_tool := (\<lambda>cmd inp. SudoRan 1)\<rparr>"]
      t by (simp_all add: demo_args_def demo_main_env_def)
qed

text \<open>
  C25. When the threads start, the case name is \<open><hostname>_<start time>\<close> followed by the
  name given with \<open>-n\<close> (none for \<open>default\<close>), exactly the requested monitors are started,
  once each, in the order memory bandwidth, perf, usage, all with that case name and the
  duration of \<open>-d\<close>; and the token request and the sudo session they need have succeeded.
\<close>

theorem main_starts_requested:
  assumes "main env args = Inr (cn, ts)"
  shows "cn = hostname env @ ''_'' @ save_ts env @ (if arg_name args = ''default'' then [] else arg_name args)
       \<and> map thread_kind ts = filter (requested args) [0, 1, 2]
       \<and> list_all (\<lambda>t. thread_case t = cn \<and> thread_duration t = arg_duration args) ts
       \<and> (\<not> arg_save_local args \<longrightarrow> \<not> isl (get_access_token (main_lark env)))
       \<and> (\<not> arg_no_sudo args \<and> (arg_memory args \<or> arg_perf args)
            \<longrightarrow> sudo_tool env sudo_command (sudo_password env @ ''\<newline>'') = SudoRan 0)"
proof -
  have m: "cn = main_case_name env args" "ts = thread_list args cn" using main_threads [OF assms] by simp_all
  have checks: "(\<not> arg_save_local args \<longrightarrow> \<not> isl (get_access_token (main_lark env)))
       \<and> (\<not> arg_no_sudo args \<and> (arg_memory args \<or> arg_perf args) \<longrightarrow> run_sudo_command (sudo_tool env) (sudo_password env))"
    using assms by (auto simp: main_def Let_def split: sum.splits if_splits)
  have "run_sudo_command (sudo_tool env) (sudo_password env)
        \<Longrightarrow> sudo_tool env sudo_command (sudo_password env @ ''\<newline>'') = SudoRan 0"
    by (auto simp: run_sudo_command_def split: sudo_run.splits)
  moreover have "map thread_kind ts = filter (requested args) [0, 1, 2]"
    by (simp add: m(2) thread_list_def requested_def)
  moreover have "list_all (\<lambda>t. thread_case t = cn \<and> thread_duration t = arg_duration args) ts"
    by (simp add: m(2) thread_list_def)
  ultimately show ?thesis using checks m(1) by (simp add: main_case_name_def get_case_name_def)
qed

theorem main_starts_requested_witness:
  "main demo_main_env demo_args = Inr (''node1_20240101120000'', thread_list demo_args ''node1_20240101120000'')
   \<and> map thread_kind (thread_list demo_args ''node1_20240101120000'') = [0, 2]"
proof -
  have m: "main demo_main_env demo_args = Inr (''node1_20240101120000'', thread_list demo_args ''node1_20240101120000'')"
    by (simp add: main_def main_case_name_def get_case_name_def demo_main_env_def demo_args_def Let_def)
  have k: "map thread_kind (thread_list demo_args ''node1_20240101120000'') = filter (requested demo_args) [0, 1, 2]"
    using main_starts_requested [OF m] by blast
  have "filter (requested demo_args) [0, 1, 2] = [0, 2]" by (simp add: requested_def demo_args_def)
  with k m show ?thesis by simp
qed


section \<open>The monitors return\<close>

lemma mb_returns: "cpu_count env \<noteq> None \<Longrightarrow> \<not> isl (monitor_memory_bandwidth env d cn sl su)"
  by (auto simp: monitor_memory_bandwidth_def)

lemma perf_returns:
  assumes "\<not> isl (get_perf_event_table (uname_out env))"
    and "sl \<longrightarrow> (\<forall>K. finite K \<longrightarrow> set (perf_enum env K) = K)" "\<not> sl \<longrightarrow> \<not> isl (get_access_token (perf_lark env))"
  shows "\<not> isl (monitor_perf env pid d cn sl su)"
proof -
  obtain evs tbl where t: "get_perf_event_table (uname_out env) = Inr (evs, tbl)"
    using assms(1) by (cases "get_perf_event_table (uname_out env)") auto
  define st where "st = foldl (perf_step env cn su pid (py_trunc (start_time env)) (chunks 4 evs))
      (perf_init (start_time env)) [0..<nat (d div 3)]"
  obtain s where "save_samples (perf_lark env) (perf_resp env) (perf_enum env) sl (data st)
      tbl (''result/'' @ cn @ ''_perf_data.csv'') = Inr s"
    using save_samples_ok [OF assms(2,3)] by blast
  then show ?thesis by (simp add: monitor_perf_unfold [OF t] st_def [symmetric] Let_def)
qed

lemma usage_returns:
  assumes "usage_cpus env \<noteq> None"
    and "sl \<longrightarrow> (\<forall>K. finite K \<longrightarrow> set (usage_enum env K) = K)" "\<not> sl \<longrightarrow> \<not> isl (get_access_token (usage_lark env))"
  shows "\<not> isl (monitor_system_usage env d cn sl)"
proof -
  obtain cpus where c: "usage_cpus env = Some cpus" using assms(1) by blast
  define st where "st = foldl (usage_step env cpus cn) (usage_init env) [0..<nat d]"
  obtain s where "save_samples (usage_lark env) (usage_resp env) (usage_enum env) sl (usage_data st)
      ''tblNpZMhfepLIIqa'' (''result/'' @ cn @ ''_system_usage_data.csv'') = Inr s"
    using save_samples_ok [OF assms(2,3)] by blast
  then show ?thesis by (simp add: monitor_system_usage_def usage_loop_fold [OF c] st_def [symmetric])
qed



section \<open>Every event is delivered\<close>

lemma interl_set: "interl tf \<tau> \<Longrightarrow> (i, e) \<in> set \<tau> \<Longrightarrow> e \<in> set (tf i)"
  by (induction rule: interl.induct) auto

lemma thread_trace_seq:
  "interl (thread_trace ms ts) (seq_schedule (thread_trace ms ts) (length ts))"
proof -
  have "(\<lambda>j. if j < length ts then thread_trace ms ts j else []) = thread_trace ms ts"
    by (auto simp: fun_eq_iff thread_trace_def)
  with interl_seq [of "length ts" "thread_trace ms ts"] show ?thesis by simp
qed



end
