(* ===== verification/Spec2Isabelle.thy ===== *)
theory Spec2Isabelle
  imports Orchestrator
begin

text \<open>
  A verification development for \<open>src/metric.py\<close>, a monitoring script that samples
  hardware counters with \<open>perf stat\<close>, resource usage with \<open>psutil\<close> and memory bandwidth
  with \<open>pqos\<close>, and uploads the samples to a remote table (Lark/Feishu bitable) or writes
  them to CSV files. The program is a shallow embedding: every function of the script is a
  HOL definition of the same name, exceptions are the \<open>Inl\<close> values of a sum type, the state
  of each sampling loop is a record passed from tick to tick, and what the program reads from
  the outside (the output of \<open>uname\<close>, \<open>perf\<close>, \<open>pqos\<close> and \<open>sudo\<close>, the clock, the HTTP
  responses, \<open>psutil\<close> readings, environment variables) is an input of the model.

  \<^bold>\<open>Theories and the code they model.\<close>
  \<^item> \<open>Prelude\<close>: the Python values (\<open>pyval\<close>, rows as association lists with the
    insertion order of a dict, \<open>dict_set\<close>), the exceptions (\<open>py_error\<close>), \<open>range\<close>
    (\<open>py_range\<close>) and slicing (\<open>py_slice\<close>), and the reference chunking \<open>chunks\<close>.
  \<^item> \<open>PyStr\<close>: the string builtins the parsers use, from the language reference:
    \<open>split()\<close>, \<open>splitlines()\<close>, \<open>in\<close>, \<open>replace\<close>, \<open>int()\<close>, \<open>str()\<close>, \<open>float()\<close>
    on digit strings, and \<open>int()\<close> of a float as truncation. Floats are exact rationals.
  \<^item> \<open>Catalog\<close>: \<open>get_architecture\<close> and \<open>get_perf_event_table\<close> (the counter catalog).
  \<^item> \<open>Store\<close>: \<open>get_access_token\<close>, \<open>batch_save_lark\<close> (posts in batches of 400, the
    effects returned as a list of posts and logged failures) and \<open>save_data_to_csv\<close>
    (the file as a value); \<open>save_samples\<close> is the \<open>if not save_local\<close> choice every
    monitor ends with.
  \<^item> \<open>Perf\<close>: \<open>split_events\<close> (batch scheduler), the perf command line (tool invoker),
    the per-counter report parser, and \<open>monitor_perf\<close> as \<open>perf_step\<close> folded over
    \<open>range(duration // 3)\<close>, with the clock advanced by each tick's work and the sleep to
    \<open>start_ts + 3 (i + 1)\<close>; the scheduler's contract read directly is
    \<open>composite_sample\<close> (a fresh sample at the clock \<open>perf_clock\<close> of tick \<open>k n\<close>, into
    which \<open>group_run\<close> absorbs the reports of the groups in order).
  \<^item> \<open>Pqos\<close>: \<open>convert_to_number\<close>, the two regular expressions of
    \<open>parse_pqos_output\<close> as deterministic matchers (\<open>match_time\<close>, \<open>match_row\<close>),
    \<open>strptime\<close>, the loop \<open>pqos_lines\<close> with \<open>start_ts\<close> and the possibly unbound
    \<open>current_time\<close>, and \<open>monitor_memory_bandwidth\<close> with its \<open>try\<close> block.
  \<^item> \<open>Usage\<close>: \<open>monitor_system_usage\<close> as \<open>usage_step\<close> folded over \<open>range(duration)\<close>.
  \<^item> \<open>Orchestrator\<close>: \<open>get_case_name\<close>, \<open>run_sudo_command\<close> and the \<open>__main__\<close> block
    (\<open>main\<close>: the start-up checks and the threads to start); the threads as \<open>run_thread\<close>,
    their output as event lists, and a run of the program as any interleaving
    (\<open>interl\<close>, after the interleaving composition of event systems).

  \<^bold>\<open>What is proved\<close> (claims C1 to C32, one theorem each, with a witness at a concrete
  input). For perf: the number of composite samples is
  \<open>floor((D // 3) / ceil(N / 4))\<close> (C1); every sample is well formed, with
  \<open>relative_ts = ts - start_ts \<ge> 0\<close> (C2, an invariant of the fold); ticks stay on the
  3-second grid when each tick's work takes at most 2 seconds (C3); \<open>split_events\<close> partitions its
  input (C4); the report parser on each kind of line (C5 to C7); a failed spawn is logged and
  skipped (C8); the command line round-trips the pid (C12). For the store: every sample is
  posted once, in order, in batches of at most 400, failures only logged (C9); credential
  errors (C10); the CSV header is the union of the keys (C11). The catalog (C13). For pqos:
  suffix conversion (C14), the header-then-row example of the specification (C15),
  \<open>relative_ts\<close> measured from the first header (C16), a row before any header (C17), what a
  stored run implies (C18). For the usage monitor: sample count and \<open>relative_ts \<ge> index\<close>
  (C19), exact one-per-second stamps when probes take less than a second (C20), the skew of
  \<open>relative_ts\<close> against \<open>ts\<close> (C21), an unknown CPU count (C22). For the orchestrator: in
  every interleaving of the threads, each table or file receives exactly one thread's events,
  complete and in order (C23); the start-up checks abort before any thread (C24); exactly the
  requested monitors start, with the case name and duration (C25); every started thread
  returns normally when its monitor's inputs are there (C27). Two further kinds: the header
  matcher equals the declarative reading of its regular expression (C26, an equivalence),
  and every pqos and usage sample has its schema of keys and value types (C28, C29), stated
  with the value types \<open>pytype\<close> of \<open>Prelude\<close>. The nested loops of the perf parser
  refine the specification's reading, the last line naming a counter wins (C30, against
  \<open>spec_counter\<close>); and the threads' output is delivered: a run exists, and every
  interleaving holds exactly the started threads' events (C31, liveness). The sampling loop
  of \<open>monitor_perf\<close> refines the rotation of the scheduler's contract: its samples are
  exactly the composite samples of the full rotations (C32, witnessed on the specification's
  scenario of nine counters and twelve seconds: three groups, one sample holding one value
  per group, each from its own tick).

  \<^bold>\<open>Bounds and fuel.\<close> No loop needs fuel: every loop of the script runs over a finite
  \<open>range\<close> or list and is a fold or a structural recursion; \<open>py_range\<close>, \<open>py_split\<close> and
  \<open>chunks\<close> terminate by a measure. The timing results assume what the hardware must give:
  non-negative durations for each tick's work, and a start time that is not negative.

  \<^bold>\<open>Findings.\<close> The \<open>-1\<close> branch of the perf parser never fires for perf's own
  \<open><not supported>\<close> lines (\<open>Perf.not_supported_line_dropped\<close>); the usage monitor's
  \<open>ts - relative_ts\<close> may change within a run (\<open>Usage.usage_offset_varies\<close>); a header
  converting to time 0 does not fix pqos' \<open>start_ts\<close> (\<open>Pqos.pqos_epoch_reanchor\<close>); a row
  before any header loses the pqos run; an unknown CPU count raises \<open>TypeError\<close>.

  \<^bold>\<open>Not modelled.\<close> Printing, \<open>tqdm\<close> progress bars and \<open>argparse\<close> itself (the parsed
  arguments are the record \<open>cli_args\<close>); the bytes of HTTP requests and of the CSV file
  (their content is modelled as values); binary floating point (so the rounding of
  \<open>int(float(v) * 1000)\<close> in \<open>convert_to_number\<close> is not shown); the host's time zone in
  \<open>time.mktime\<close> (a parameter, UTC in the examples); the real-time behaviour of
  \<open>time.sleep\<close> beyond waking at the requested instant.
\<close>

end
